theory Spec2Isabelle
  imports Main "HOL-Library.Word"
begin

unbundle bit_operations_syntax

section \<open>Errors and the chunk stream\<close>

text \<open>
  src/openrct2/ParkFile.cpp signals failure with \<open>throw std::runtime_error(msg)\<close>; a read
  past the end of a chunk throws inside the stream class. Both are values here: a decoder
  returns \<open>exn + 'a\<close>, with \<open>Inl\<close> for the exception.
\<close>

datatype exn = runtime_error string | IOException

type_synonym byte = "8 word"

definition bind :: "exn + 'a \<Rightarrow> ('a \<Rightarrow> exn + 'b) \<Rightarrow> exn + 'b" where
  "bind m f = (case m of Inl e \<Rightarrow> Inl e | Inr x \<Rightarrow> f x)"

text \<open>
  Modelled from the spec: the byte-level codec (core/OrcaStream.hpp is not part of
  ParkFile.cpp). A chunk stream in reading mode is the list of the bytes not yet consumed;
  \<open>cs.Read<T>()\<close> takes \<open>sizeof(T)\<close> bytes, in one fixed byte order (least significant
  byte first), and a short read is fatal.
\<close>

fun Read_u8 :: "byte list \<Rightarrow> exn + (8 word \<times> byte list)" where
  "Read_u8 (b # cs) = Inr (b, cs)"
| "Read_u8 [] = Inl IOException"

fun le_word :: "byte list \<Rightarrow> 'a::len word" where
  "le_word [] = 0"
| "le_word (b # bs) = ucast b OR push_bit 8 (le_word bs)"

definition Read_bytes :: "nat \<Rightarrow> byte list \<Rightarrow> exn + (byte list \<times> byte list)" where
  "Read_bytes n cs = (if length cs < n then Inl IOException else Inr (take n cs, drop n cs))"

definition Read_u16 :: "byte list \<Rightarrow> exn + (16 word \<times> byte list)" where
  "Read_u16 cs = bind (Read_bytes 2 cs) (\<lambda>(bs, cs'). Inr (le_word bs, cs'))"

definition Read_u32 :: "byte list \<Rightarrow> exn + (32 word \<times> byte list)" where
  "Read_u32 cs = bind (Read_bytes 4 cs) (\<lambda>(bs, cs'). Inr (le_word bs, cs'))"

definition Read_u64 :: "byte list \<Rightarrow> exn + (64 word \<times> byte list)" where
  "Read_u64 cs = bind (Read_bytes 8 cs) (\<lambda>(bs, cs'). Inr (le_word bs, cs'))"

section \<open>Rides chunk: cars per train\<close>

text \<open>
  \<open>ParkFile::GetMinCarsPerTrain\<close> and \<open>ParkFile::GetMaxCarsPerTrain\<close> (lines 221 to 229):
  \<open>return value >> 4;\<close> and \<open>return value & 0xF;\<close> on \<open>uint8_t\<close>.
\<close>

definition GetMinCarsPerTrain :: "8 word \<Rightarrow> 8 word" where
  "GetMinCarsPerTrain v = drop_bit 4 v"

definition GetMaxCarsPerTrain :: "8 word \<Rightarrow> 8 word" where
  "GetMaxCarsPerTrain v = v AND 0xF"

text \<open>
  The vehicle fields of a ride that the claim is about, and the step of the per-ride
  callback of \<open>ReadWriteRidesChunk\<close> (lines 1140 to 1151) in reading mode: for
  \<open>version < 0x5\<close> one \<open>uint8_t\<close> is read and split, otherwise
  \<open>ride.MinCarsPerTrain\<close> and \<open>ride.MaxCarsPerTrain\<close> are read one after the other.
\<close>

record RideCars =
  MinCarsPerTrain :: "8 word"
  MaxCarsPerTrain :: "8 word"

definition ReadCarsPerTrain :: "32 word \<Rightarrow> byte list \<Rightarrow> RideCars \<Rightarrow> exn + (RideCars \<times> byte list)" where
  "ReadCarsPerTrain version cs ride =
     (if version < 0x5 then
        bind (Read_u8 cs) (\<lambda>(v, cs').
          Inr (ride\<lparr>MinCarsPerTrain := GetMinCarsPerTrain v,
                    MaxCarsPerTrain := GetMaxCarsPerTrain v\<rparr>, cs'))
      else
        bind (Read_u8 cs) (\<lambda>(a, cs').
        bind (Read_u8 cs') (\<lambda>(b, cs'').
          Inr (ride\<lparr>MinCarsPerTrain := a, MaxCarsPerTrain := b\<rparr>, cs''))))"

section \<open>Scenario chunk, writing\<close>

text \<open>
  The globals that \<open>ReadWriteScenarioChunk\<close> (lines 376 to 423) serialises. Their integer
  types are declared in headers outside ParkFile.cpp, so plain integers stand for them;
  \<open>gScenarioCompletedCompanyValue\<close> is a \<open>money64\<close>.
\<close>

record ScenarioState =
  gScenarioCategory :: int
  gScenarioName :: string
  parkName :: string
  gScenarioDetails :: string
  gScenarioObjectiveType :: int
  gScenarioObjectiveYear :: int
  gScenarioObjectiveNumGuests :: int
  gScenarioObjectiveCurrency :: int
  gScenarioParkRatingWarningDays :: int
  gScenarioCompletedCompanyValue :: "64 word"
  gScenarioCompletedBy :: string
  AllowEarlyCompletion :: bool
  gScenarioFileName :: string

text \<open>
  In writing mode the payload of a chunk is the sequence of values handed to
  \<open>cs.Write\<close> and \<open>cs.ReadWrite\<close>, in order.
\<close>

datatype wval = WNum int | WMoney64 "64 word" | WBool bool | WStr string
  | WVector "(string \<times> string) list"

text \<open>\<open>ReadWriteStringTable\<close> (lines 1715 to 1744), writing: a one-entry table.\<close>

definition WriteStringTable :: "string \<Rightarrow> string \<Rightarrow> wval list" where
  "WriteStringTable v lcode = [WVector [(lcode, v)]]"

text \<open>
  \<open>ReadWriteScenarioChunk\<close> in writing mode. \<open>MONEY64_UNDEFINED\<close> and
  \<open>COMPANY_VALUE_ON_FAILED_OBJECTIVE\<close> are constants of headers outside this file and
  are parameters.
\<close>

definition WriteScenarioChunk ::
  "64 word \<Rightarrow> 64 word \<Rightarrow> 32 word \<Rightarrow> ScenarioState \<Rightarrow> wval list" where
  "WriteScenarioChunk MONEY64_UNDEFINED COMPANY_VALUE_ON_FAILED_OBJECTIVE version s =
     [WNum (gScenarioCategory s)]
     @ WriteStringTable (gScenarioName s) ''en-GB''
     @ WriteStringTable (parkName s) ''en-GB''
     @ WriteStringTable (gScenarioDetails s) ''en-GB''
     @ [WNum (gScenarioObjectiveType s), WNum (gScenarioObjectiveYear s),
        WNum (gScenarioObjectiveNumGuests s), WNum (gScenarioObjectiveCurrency s)]
     @ [WNum (gScenarioParkRatingWarningDays s)]
     @ [WMoney64 (gScenarioCompletedCompanyValue s)]
     @ (if gScenarioCompletedCompanyValue s = MONEY64_UNDEFINED
           \<or> gScenarioCompletedCompanyValue s = COMPANY_VALUE_ON_FAILED_OBJECTIVE
        then [WStr []]
        else [WStr (gScenarioCompletedBy s)])
     @ [WBool (AllowEarlyCompletion s)]
     @ (if version \<ge> 1 then [WStr (gScenarioFileName s)] else [])"

section \<open>Tile elements, rides and the game state\<close>

text \<open>
  A tile element is a tagged union (\<open>GetType()\<close>, \<open>AsPath()\<close>, \<open>AsTrack()\<close>). The fields
  are those the two passes of this file touch; \<open>PathRest\<close>, \<open>TrackRest\<close> and the payload
  of \<open>OtherElement\<close> hold the bytes they do not.
\<close>

text \<open>
  Modelled from the spec: the path element accessors (\<open>HasLegacyPathEntry\<close>,
  \<open>GetLegacyPathEntryIndex\<close>, \<open>IsQueue\<close>, \<open>SetSurfaceEntryIndex\<close>,
  \<open>SetRailingsEntryIndex\<close>; world/Footpath.cpp is not part of ParkFile.cpp): a path
  element may reference a legacy footpath entry by its index, has a queue flag, a surface
  reference and a railings reference, and the setters overwrite the two references.
\<close>

record PathElement =
  LegacyPathEntryIndex :: "16 word option"
  SurfaceEntryIndex :: "16 word"
  RailingsEntryIndex :: "16 word"
  IsQueue :: bool
  PathRest :: "byte list"

record TrackElement =
  RideIndex :: "16 word"
  RideType :: "16 word"
  TrackRest :: "byte list"

datatype TileElement =
  PathEl PathElement | TrackEl TrackElement | OtherElement nat "byte list"



record Ride =
  ride_type :: "16 word"

text \<open>
  The live state that \<open>Import\<close> itself reads and writes: the tile grid
  (\<open>map_get_first_element_at\<close> gives the elements of a tile up to the one that is last
  for the tile, or \<open>nullptr\<close>, here the empty list), the ride table (\<open>get_ride\<close>),
  \<open>gCash\<close> and \<open>gInitialCash\<close>. The rest of the state is the record's extension.
\<close>

record GameState =
  gTiles :: "nat \<times> nat \<Rightarrow> TileElement list"
  gRides :: "16 word \<Rightarrow> Ride option"
  gCash :: "64 word"
  gInitialCash :: "64 word"

section \<open>Import\<close>

text \<open>
  Modelled from the spec: \<open>OrcaStream::ReadWriteChunk\<close> (core/OrcaStream.hpp is not part
  of ParkFile.cpp). In reading mode the chunks after the header are scanned in order; the
  first chunk of the requested type is handed to the consumer and the result is "found";
  without such a chunk the result is "not found" and nothing is consumed.
\<close>

record OrcaStream =
  TargetVersion :: "32 word"
  Chunks :: "(32 word \<times> byte list) list"

definition ReadWriteChunk ::
  "OrcaStream \<Rightarrow> 32 word \<Rightarrow> (byte list \<Rightarrow> 's \<Rightarrow> exn + 's) \<Rightarrow> 's \<Rightarrow> exn + (bool \<times> 's)" where
  "ReadWriteChunk os chunkId f s =
     (case map_of (Chunks os) chunkId of
        None \<Rightarrow> Inr (False, s)
      | Some payload \<Rightarrow> bind (f payload s) (\<lambda>s'. Inr (True, s')))"

definition SCENARIO :: "32 word" where "SCENARIO = 0x03"
definition GENERAL :: "32 word" where "GENERAL = 0x04"
definition CLIMATE :: "32 word" where "CLIMATE = 0x05"
definition PARK :: "32 word" where "PARK = 0x06"
definition RESEARCH :: "32 word" where "RESEARCH = 0x08"
definition NOTIFICATIONS :: "32 word" where "NOTIFICATIONS = 0x09"
definition INTERFACE :: "32 word" where "INTERFACE = 0x20"
definition TILES :: "32 word" where "TILES = 0x30"
definition ENTITIES :: "32 word" where "ENTITIES = 0x31"
definition RIDES :: "32 word" where "RIDES = 0x32"
definition BANNERS :: "32 word" where "BANNERS = 0x33"
definition CHEATS :: "32 word" where "CHEATS = 0x36"
definition RESTRICTED_OBJECTS :: "32 word" where "RESTRICTED_OBJECTS = 0x37"

text \<open>
  The per-chunk functions as \<open>Import\<close> calls them, in reading mode. The lambda that each
  hands to \<open>ReadWriteChunk\<close> is the parameter \<open>dec\<close>, indexed by the chunk type; what the
  functions do with "found" is as in the source: \<open>ReadWriteGeneralChunk\<close> (lines 468 to
  471) and \<open>ReadWriteTilesChunk\<close> (lines 932 to 935) throw, the others drop it.
\<close>

type_synonym 's decoders = "32 word \<Rightarrow> byte list \<Rightarrow> 's \<Rightarrow> exn + 's"

definition ReadWriteOptionalChunk :: "32 word \<Rightarrow> 's decoders \<Rightarrow> OrcaStream \<Rightarrow> 's \<Rightarrow> exn + 's" where
  "ReadWriteOptionalChunk chunkId dec os s =
     bind (ReadWriteChunk os chunkId (dec chunkId) s) (\<lambda>(found, s'). Inr s')"

definition ReadWriteGeneralChunk :: "'s decoders \<Rightarrow> OrcaStream \<Rightarrow> 's \<Rightarrow> exn + 's" where
  "ReadWriteGeneralChunk dec os s =
     bind (ReadWriteChunk os GENERAL (dec GENERAL) s) (\<lambda>(found, s').
       if \<not> found then Inl (runtime_error ''No general chunk found.'') else Inr s')"

definition ReadWriteTilesChunk :: "'s decoders \<Rightarrow> OrcaStream \<Rightarrow> 's \<Rightarrow> exn + 's" where
  "ReadWriteTilesChunk dec os s =
     bind (ReadWriteChunk os TILES (dec TILES) s) (\<lambda>(found, s').
       if \<not> found then Inl (runtime_error ''No tiles chunk found.'') else Inr s')"

text \<open>
  \<open>UpdateTrackElementsRideType\<close> (lines 938 to 962). The \<open>do ... while\<close> walks the
  elements of one tile; \<open>continue\<close> inside it goes to the loop condition, so every element
  is visited. \<open>MAXIMUM_MAP_SIZE_TECHNICAL\<close> is a constant of a header outside this file
  and is a parameter.
\<close>

definition UpdateTrackElement :: "(16 word \<Rightarrow> Ride option) \<Rightarrow> TileElement \<Rightarrow> TileElement" where
  "UpdateTrackElement get_ride e =
     (case e of
        TrackEl t \<Rightarrow>
          (case get_ride (RideIndex t) of
             Some ride \<Rightarrow> TrackEl (t\<lparr>RideType := ride_type ride\<rparr>)
           | None \<Rightarrow> e)
      | _ \<Rightarrow> e)"

fun UpdateTile :: "(16 word \<Rightarrow> Ride option) \<Rightarrow> TileElement list \<Rightarrow> TileElement list" where
  "UpdateTile get_ride [] = []"
| "UpdateTile get_ride (e # es) = UpdateTrackElement get_ride e # UpdateTile get_ride es"

definition UpdateTileAt :: "nat \<Rightarrow> nat \<Rightarrow> 'a GameState_scheme \<Rightarrow> 'a GameState_scheme" where
  "UpdateTileAt x y s = s\<lparr>gTiles := (gTiles s)((x, y) := UpdateTile (gRides s) (gTiles s (x, y)))\<rparr>"

definition UpdateTrackElementsRideType :: "nat \<Rightarrow> 'a GameState_scheme \<Rightarrow> 'a GameState_scheme" where
  "UpdateTrackElementsRideType MAXIMUM_MAP_SIZE_TECHNICAL s =
     foldl (\<lambda>s x. foldl (\<lambda>s y. UpdateTileAt x y s) s [0..<MAXIMUM_MAP_SIZE_TECHNICAL])
       s [0..<MAXIMUM_MAP_SIZE_TECHNICAL]"

text \<open>\<open>ParkFile::Import\<close> (lines 133 to 156): the chunks in the order of the source.\<close>

definition ImportChunks :: "'s decoders \<Rightarrow> OrcaStream \<Rightarrow> 's \<Rightarrow> exn + 's" where
  "ImportChunks dec os s =
     bind (ReadWriteTilesChunk dec os s) (\<lambda>s.
     bind (ReadWriteOptionalChunk BANNERS dec os s) (\<lambda>s.
     bind (ReadWriteOptionalChunk RIDES dec os s) (\<lambda>s.
     bind (ReadWriteOptionalChunk ENTITIES dec os s) (\<lambda>s.
     bind (ReadWriteOptionalChunk SCENARIO dec os s) (\<lambda>s.
     bind (ReadWriteGeneralChunk dec os s) (\<lambda>s.
     bind (ReadWriteOptionalChunk PARK dec os s) (\<lambda>s.
     bind (ReadWriteOptionalChunk CLIMATE dec os s) (\<lambda>s.
     bind (ReadWriteOptionalChunk RESEARCH dec os s) (\<lambda>s.
     bind (ReadWriteOptionalChunk NOTIFICATIONS dec os s) (\<lambda>s.
     bind (ReadWriteOptionalChunk INTERFACE dec os s) (\<lambda>s.
     bind (ReadWriteOptionalChunk CHEATS dec os s) (\<lambda>s.
          ReadWriteOptionalChunk RESTRICTED_OBJECTS dec os s))))))))))))"

definition Import ::
  "nat \<Rightarrow> 'a GameState_scheme decoders \<Rightarrow> OrcaStream \<Rightarrow> 'a GameState_scheme
     \<Rightarrow> exn + 'a GameState_scheme" where
  "Import MAXIMUM_MAP_SIZE_TECHNICAL dec os s =
     bind (ImportChunks dec os s) (\<lambda>s.
       let s' = (if TargetVersion os < 0x4
                 then UpdateTrackElementsRideType MAXIMUM_MAP_SIZE_TECHNICAL s else s)
       in Inr (s'\<lparr>gInitialCash := gCash s'\<rparr>))"

section \<open>Tiles chunk: the footpath patching pass\<close>

text \<open>
  The three legacy-mapping arrays of \<open>ParkFile\<close> (lines 114 to 116) are consecutive
  members, each of \<open>MAX_PATH_OBJECTS\<close> entries of 16 bits. The Objects chunk fills them and
  the Tiles chunk reads them, both through raw pointers and with an index that is not
  compared with \<open>MAX_PATH_OBJECTS\<close> (lines 910 to 917, 4604, 4612 and 4620). They are
  modelled as the memory they lie in: \<open>cells\<close>, counted in 16-bit entries from the start of
  \<open>_pathToSurfaceMap\<close>. An index past the end of an array reaches the cell that lies there:
  an entry of the next array or, past the third array, what follows the arrays in memory.
  \<open>MAX_PATH_OBJECTS\<close> and \<open>OBJECT_ENTRY_INDEX_NULL\<close> are constants of headers outside
  this file and are parameters.
\<close>

record FootpathMaps =
  MAX_PATH_OBJECTS :: nat
  cells :: "nat \<Rightarrow> 16 word"

definition pathToSurfaceMap :: "FootpathMaps \<Rightarrow> nat \<Rightarrow> 16 word" where
  "pathToSurfaceMap m i = cells m i"

definition pathToQueueSurfaceMap :: "FootpathMaps \<Rightarrow> nat \<Rightarrow> 16 word" where
  "pathToQueueSurfaceMap m i = cells m (MAX_PATH_OBJECTS m + i)"

definition pathToRailingsMap :: "FootpathMaps \<Rightarrow> nat \<Rightarrow> 16 word" where
  "pathToRailingsMap m i = cells m (2 * MAX_PATH_OBJECTS m + i)"






section \<open>Banners chunk, reading\<close>

text \<open>
  A banner is its \<open>id\<close> (a \<open>BannerIndex\<close>, 16 bits wide) and its other fields; the types
  of those are declared in world/Banner.h, outside this file, so they are one component
  \<open>body\<close> of any type, and the reads of lines 1032 to 1039 are the parameter \<open>rd\<close>.

  \<open>ReadWriteBanner\<close> (lines 1026 to 1040), reading: the id is on the stream for
  \<open>version >= 1\<close> only.
\<close>

record 'f Banner =
  id :: "16 word"
  body :: 'f

definition ReadWriteBanner ::
  "(byte list \<Rightarrow> exn + ('f \<times> byte list)) \<Rightarrow> 32 word \<Rightarrow> byte list \<Rightarrow> 'f Banner
     \<Rightarrow> exn + ('f Banner \<times> byte list)" where
  "ReadWriteBanner rd version cs banner =
     bind (if version \<ge> 1
           then bind (Read_u16 cs) (\<lambda>(i, cs'). Inr (banner\<lparr>id := i\<rparr>, cs'))
           else Inr (banner, cs)) (\<lambda>(banner, cs).
     bind (rd cs) (\<lambda>(f, cs'). Inr (banner\<lparr>body := f\<rparr>, cs')))"

text \<open>
  Modelled from the spec: \<open>ChunkStream::ReadWriteVector\<close> in reading mode
  (core/OrcaStream.hpp is not part of ParkFile.cpp): a variable-length list is its element
  count followed by the elements, each read by the callback into a fresh element.
\<close>

fun ReadElements ::
  "(byte list \<Rightarrow> exn + ('a \<times> byte list)) \<Rightarrow> nat \<Rightarrow> byte list \<Rightarrow> exn + ('a list \<times> byte list)" where
  "ReadElements f 0 cs = Inr ([], cs)"
| "ReadElements f (Suc n) cs =
     bind (f cs) (\<lambda>(x, cs').
     bind (ReadElements f n cs') (\<lambda>(xs, cs''). Inr (x # xs, cs'')))"

definition ReadWriteVector ::
  "(byte list \<Rightarrow> exn + ('a \<times> byte list)) \<Rightarrow> byte list \<Rightarrow> exn + ('a list \<times> byte list)" where
  "ReadWriteVector f cs = bind (Read_u32 cs) (\<lambda>(count, cs'). ReadElements f (unat count) cs')"

text \<open>
  Modelled from the spec: \<open>GetOrCreateBanner\<close> (world/Banner.cpp is not part of
  ParkFile.cpp) looks up or creates the live slot of an id and gives \<open>nullptr\<close> when the
  slot cannot be created. The live banner table maps an index to the banner in its slot;
  which slots can be created is the parameter \<open>can_create\<close>.
\<close>

type_synonym 'f BannerTable = "16 word \<Rightarrow> 'f Banner option"

definition GetOrCreateBanner :: "(16 word \<Rightarrow> bool) \<Rightarrow> 16 word \<Rightarrow> 16 word option" where
  "GetOrCreateBanner can_create i = (if can_create i then Some i else None)"

text \<open>
  The loop of lines 992 to 1001 (version 0): \<open>i\<close> is a \<open>size_t\<close> and
  \<open>static_cast<BannerIndex>(i)\<close> keeps its low 16 bits.
\<close>

fun AssignBannersByPosition ::
  "(16 word \<Rightarrow> bool) \<Rightarrow> nat \<Rightarrow> 'f Banner list \<Rightarrow> 'f BannerTable \<Rightarrow> 'f BannerTable" where
  "AssignBannersByPosition can_create i [] tbl = tbl"
| "AssignBannersByPosition can_create i (b # bs) tbl =
     (let bannerIndex = (of_nat i :: 16 word) in
      case GetOrCreateBanner can_create bannerIndex of
        Some slot \<Rightarrow>
          AssignBannersByPosition can_create (Suc i) bs (tbl(slot \<mapsto> b\<lparr>id := bannerIndex\<rparr>))
      | None \<Rightarrow> AssignBannersByPosition can_create (Suc i) bs tbl)"

text \<open>The loop of lines 1006 to 1020 (version 1 and later).\<close>

fun ReadBannersById ::
  "(byte list \<Rightarrow> exn + ('f \<times> byte list)) \<Rightarrow> 32 word \<Rightarrow> (16 word \<Rightarrow> bool) \<Rightarrow> 'f Banner
     \<Rightarrow> nat \<Rightarrow> byte list \<Rightarrow> 'f BannerTable \<Rightarrow> exn + ('f BannerTable \<times> byte list)" where
  "ReadBannersById rd version can_create dflt 0 cs tbl = Inr (tbl, cs)"
| "ReadBannersById rd version can_create dflt (Suc n) cs tbl =
     bind (ReadWriteBanner rd version cs dflt) (\<lambda>(readBanner, cs').
       case GetOrCreateBanner can_create (id readBanner) of
         None \<Rightarrow> Inl (runtime_error ''Invalid banner index'')
       | Some slot \<Rightarrow> ReadBannersById rd version can_create dflt n cs' (tbl(slot \<mapsto> readBanner)))"

text \<open>
  For the statement of the claim: the records placed into the slots of their ids, in the
  order of the stream.
\<close>

fun PlaceBanners :: "'f Banner list \<Rightarrow> 'f BannerTable \<Rightarrow> 'f BannerTable" where
  "PlaceBanners [] tbl = tbl"
| "PlaceBanners (r # rs) tbl = PlaceBanners rs (tbl(id r \<mapsto> r))"

text \<open>
  The reading branch of the lambda of \<open>ReadWriteBannersChunk\<close> (lines 986 to 1022).
  \<open>dflt\<close> is a default-constructed \<open>Banner\<close>.
\<close>

definition ReadBannersChunk ::
  "(byte list \<Rightarrow> exn + ('f \<times> byte list)) \<Rightarrow> (16 word \<Rightarrow> bool) \<Rightarrow> 'f Banner \<Rightarrow> 32 word
     \<Rightarrow> byte list \<Rightarrow> 'f BannerTable \<Rightarrow> exn + ('f BannerTable \<times> byte list)" where
  "ReadBannersChunk rd can_create dflt version cs tbl =
     (if version = 0 then
        bind (ReadWriteVector (\<lambda>cs. ReadWriteBanner rd version cs dflt) cs) (\<lambda>(banners, cs').
          Inr (AssignBannersByPosition can_create 0 banners tbl, cs'))
      else
        bind (Read_u32 cs) (\<lambda>(numBanners, cs').
          ReadBannersById rd version can_create dflt (unat numBanners) cs' tbl))"

section \<open>Park chunk, reading: the expenditure table\<close>

text \<open>
  The part of the lambda of \<open>ReadWriteParkChunk\<close> from \<open>// Finances\<close> to
  \<open>cs.ReadWrite(gHistoricalProfit)\<close> (lines 673 to 700), in reading mode.
  \<open>gExpenditureTable[i][j]\<close> is a table indexed by month and type; \<open>money64\<close> is 64 bits
  wide. \<open>EXPENDITURE_TABLE_MONTH_COUNT\<close> and \<open>ExpenditureType::Count\<close> are constants of
  management/Finance.h, outside this file, and are parameters.

  The inner loop \<open>for (uint32_t j = 0; j < numTypes; j++)\<close> and the outer loop over
  \<open>i\<close> run over the index lists \<open>[0..<numTypes]\<close> and \<open>[0..<numMonths]\<close>.
\<close>

type_synonym ExpenditureTable = "nat \<Rightarrow> nat \<Rightarrow> 64 word"

fun ReadExpenditureRow ::
  "nat \<Rightarrow> nat list \<Rightarrow> byte list \<Rightarrow> ExpenditureTable \<Rightarrow> exn + (ExpenditureTable \<times> byte list)" where
  "ReadExpenditureRow i [] cs tbl = Inr (tbl, cs)"
| "ReadExpenditureRow i (j # js) cs tbl =
     bind (Read_u64 cs) (\<lambda>(v, cs').
       ReadExpenditureRow i js cs' (tbl(i := (tbl i)(j := v))))"

fun ReadExpenditureRows ::
  "nat list \<Rightarrow> nat list \<Rightarrow> byte list \<Rightarrow> ExpenditureTable \<Rightarrow> exn + (ExpenditureTable \<times> byte list)" where
  "ReadExpenditureRows [] js cs tbl = Inr (tbl, cs)"
| "ReadExpenditureRows (i # is) js cs tbl =
     bind (ReadExpenditureRow i js cs tbl) (\<lambda>(tbl', cs').
       ReadExpenditureRows is js cs' tbl')"

definition ReadParkFinances ::
  "32 word \<Rightarrow> 32 word \<Rightarrow> byte list \<Rightarrow> ExpenditureTable
     \<Rightarrow> exn + ((ExpenditureTable \<times> 64 word) \<times> byte list)" where
  "ReadParkFinances EXPENDITURE_TABLE_MONTH_COUNT ExpenditureType_Count cs gExpenditureTable =
     bind (Read_u32 cs) (\<lambda>(storedMonths, cs).
     bind (Read_u32 cs) (\<lambda>(storedTypes, cs).
       let numMonths = min EXPENDITURE_TABLE_MONTH_COUNT storedMonths;
           numTypes = min ExpenditureType_Count storedTypes
       in
     bind (ReadExpenditureRows [0..<unat numMonths] [0..<unat numTypes] cs gExpenditureTable)
       (\<lambda>(tbl, cs).
     bind (Read_u64 cs) (\<lambda>(gHistoricalProfit, cs).
       Inr ((tbl, gHistoricalProfit), cs)))))"

text \<open>
  The same lines in writing mode, given the dimensions and the entries to store: the two
  counts, the entries row by row, then \<open>gHistoricalProfit\<close>. \<open>le_bytes n w\<close> is the
  \<open>n\<close>-byte encoding that \<open>le_word\<close> reads back.
\<close>

fun le_bytes :: "nat \<Rightarrow> 'a::len word \<Rightarrow> byte list" where
  "le_bytes 0 w = []"
| "le_bytes (Suc n) w = ucast w # le_bytes n (drop_bit 8 w)"

definition WriteParkFinances :: "32 word \<Rightarrow> 32 word \<Rightarrow> ExpenditureTable \<Rightarrow> 64 word \<Rightarrow> byte list" where
  "WriteParkFinances numMonths numTypes gExpenditureTable gHistoricalProfit =
     le_bytes 4 numMonths @ le_bytes 4 numTypes
     @ concat (map (\<lambda>i. concat (map (\<lambda>j. le_bytes 8 (gExpenditureTable i j)) [0..<unat numTypes]))
         [0..<unat numMonths])
     @ le_bytes 8 gHistoricalProfit"

section \<open>Entities chunk: the layout of Guest and Staff records\<close>

text \<open>
  \<open>ReadWritePeep\<close> (lines 1364 to 1704) and the two \<open>ReadWriteEntity\<close> specialisations
  for \<open>Guest\<close> (lines 1827 to 1964) and \<open>Staff\<close> (lines 2011 to 2044), in reading mode,
  as the sequence of stream operations they issue. An operation names the field it fills
  and whose field it is: a field of the shared \<open>Peep\<close> (\<open>entity.x\<close>), of the guest
  (\<open>guest->x\<close>) or of the staff member (\<open>staff->x\<close>). \<open>Ignore\<close> is \<open>cs.Ignore<T>()\<close>;
  \<open>ReadWriteTemp\<close> and \<open>RWVectorTemp\<close> read a value or a list into a local that is dropped.
\<close>

datatype PeepKind = GuestKind | StaffKind

datatype owner = Shared | GuestField | StaffField

datatype stream_op =
  RW owner string
  | RWArray owner string
  | RWVector owner string
  | Ignore string
  | ReadWriteTemp string
  | RWVectorTemp string

definition ReadWriteEntityCommon :: "stream_op list" where
  "ReadWriteEntityCommon =
     [RW Shared ''sprite_index'', RW Shared ''sprite_height_negative'', RW Shared ''x'',
      RW Shared ''y'', RW Shared ''z'', RW Shared ''sprite_width'',
      RW Shared ''sprite_height_positive'', RW Shared ''sprite_direction'']"

text \<open>\<open>interleaved version guest g s\<close> is \<open>if (version <= 1) { if (guest != nullptr) g else s }\<close>.\<close>

definition interleaved :: "32 word \<Rightarrow> PeepKind \<Rightarrow> stream_op list \<Rightarrow> stream_op list \<Rightarrow> stream_op list" where
  "interleaved version kind g s =
     (if version \<le> 1 then (if kind = GuestKind then g else s) else [])"

definition ReadWritePeep :: "32 word \<Rightarrow> PeepKind \<Rightarrow> stream_op list" where
  "ReadWritePeep version kind =
     ReadWriteEntityCommon
     @ [RW Shared ''Name'', RW Shared ''NextLoc'', RW Shared ''NextFlags'']
     @ interleaved version kind [RW GuestField ''OutsideOfPark''] [Ignore ''bool'']
     @ [RW Shared ''State'', RW Shared ''SubState'', RW Shared ''SpriteType'']
     @ interleaved version kind [RW GuestField ''GuestNumRides''] [RW StaffField ''AssignedStaffType'']
     @ [RW Shared ''TshirtColour'', RW Shared ''TrousersColour'', RW Shared ''DestinationX'',
        RW Shared ''DestinationY'', RW Shared ''DestinationTolerance'', RW Shared ''Var37'',
        RW Shared ''Energy'', RW Shared ''EnergyTarget'']
     @ interleaved version kind
         [RW GuestField ''Happiness'', RW GuestField ''HappinessTarget'', RW GuestField ''Nausea'',
          RW GuestField ''NauseaTarget'', RW GuestField ''Hunger'', RW GuestField ''Thirst'',
          RW GuestField ''Toilet'']
         [Ignore ''uint8_t'', Ignore ''uint8_t'', Ignore ''uint8_t'', Ignore ''uint8_t'',
          Ignore ''uint8_t'', Ignore ''uint8_t'', Ignore ''uint8_t'']
     @ [RW Shared ''Mass'']
     @ interleaved version kind [RW GuestField ''TimeToConsume''] [ReadWriteTemp ''uint8_t'']
     @ interleaved version kind
         [RW GuestField ''Intensity'', RW GuestField ''NauseaTolerance'']
         [Ignore ''uint8_t'', Ignore ''uint8_t'']
     @ [RW Shared ''WindowInvalidateFlags'']
     @ interleaved version kind
         [RW GuestField ''PaidOnDrink'', RWArray GuestField ''rideTypeBeenOn'',
          RW GuestField ''ItemFlags'', RW GuestField ''Photo2RideRef'',
          RW GuestField ''Photo3RideRef'', RW GuestField ''Photo4RideRef'']
         [Ignore ''money16'', RWVectorTemp ''temp'', Ignore ''uint64_t'',
          Ignore ''ride_id_t'', Ignore ''ride_id_t'', Ignore ''ride_id_t'']
     @ [RW Shared ''CurrentRide'', RW Shared ''CurrentRideStation'', RW Shared ''CurrentTrain'',
        RW Shared ''TimeToSitdown'', RW Shared ''SpecialSprite'', RW Shared ''ActionSpriteType'',
        RW Shared ''NextActionSpriteType'', RW Shared ''ActionSpriteImageOffset'',
        RW Shared ''Action'', RW Shared ''ActionFrame'', RW Shared ''StepProgress'']
     @ interleaved version kind
         [RW GuestField ''GuestNextInQueue''] [RW StaffField ''MechanicTimeSinceCall'']
     @ [RW Shared ''PeepDirection'', RW Shared ''InteractionRideIndex'']
     @ interleaved version kind
         [RW GuestField ''TimeInQueue'', RWArray GuestField ''ridesBeenOn'']
         [Ignore ''uint16_t'', RWVectorTemp ''ridesBeenOn'']
     @ [RW Shared ''Id'']
     @ interleaved version kind
         [RW GuestField ''CashInPocket'', RW GuestField ''CashSpent'',
          RW GuestField ''ParkEntryTime'', RW GuestField ''RejoinQueueTimeout'',
          RW GuestField ''PreviousRide'', RW GuestField ''PreviousRideTimeOut'',
          RWArray GuestField ''Thoughts'']
         [Ignore ''money32'', Ignore ''money32'', RW StaffField ''HireDate'', Ignore ''int8_t'',
          Ignore ''ride_id_t'', Ignore ''uint16_t'', RWVectorTemp ''temp'']
     @ [RW Shared ''PathCheckOptimisation'']
     @ interleaved version kind
         [RW GuestField ''GuestHeadingToRideId'', RW GuestField ''GuestIsLostCountdown'',
          RW GuestField ''Photo1RideRef'']
         [Ignore ''ride_id_t'', RW StaffField ''StaffOrders'', Ignore ''ride_id_t'']
     @ [RW Shared ''PeepFlags'', RW Shared ''PathfindGoal.x'', RW Shared ''PathfindGoal.y'',
        RW Shared ''PathfindGoal.z'', RW Shared ''PathfindGoal.direction'',
        RWArray Shared ''PathfindHistory'', RW Shared ''WalkingFrameNum'']
     @ interleaved version kind
         [RW GuestField ''LitterCount'', RW GuestField ''GuestTimeOnRide'',
          RW GuestField ''DisgustingCount'', RW GuestField ''PaidToEnter'',
          RW GuestField ''PaidOnRides'', RW GuestField ''PaidOnFood'',
          RW GuestField ''PaidOnSouvenirs'', RW GuestField ''AmountOfFood'',
          RW GuestField ''AmountOfDrinks'', RW GuestField ''AmountOfSouvenirs'',
          RW GuestField ''VandalismSeen'', RW GuestField ''VoucherType'',
          RW GuestField ''VoucherRideId'', RW GuestField ''SurroundingsThoughtTimeout'',
          RW GuestField ''Angriness'', RW GuestField ''TimeLost'', RW GuestField ''DaysInQueue'',
          RW GuestField ''BalloonColour'', RW GuestField ''UmbrellaColour'',
          RW GuestField ''HatColour'', RW GuestField ''FavouriteRide'',
          RW GuestField ''FavouriteRideRating'']
         [Ignore ''uint8_t'', RW StaffField ''StaffMowingTimeout'', Ignore ''uint8_t'',
          RW StaffField ''StaffLawnsMown'', RW StaffField ''StaffGardensWatered'',
          RW StaffField ''StaffLitterSwept'', RW StaffField ''StaffBinsEmptied'',
          Ignore ''uint8_t'', Ignore ''uint8_t'', Ignore ''uint8_t'', Ignore ''uint8_t'',
          Ignore ''uint8_t'', Ignore ''ride_id_t'', Ignore ''uint8_t'', Ignore ''uint8_t'',
          Ignore ''uint8_t'', Ignore ''uint8_t'', Ignore ''uint8_t'', Ignore ''uint8_t'',
          Ignore ''uint8_t'', Ignore ''ride_id_t'', Ignore ''uint8_t'']"

text \<open>
  \<open>ReadWriteEntity(os, cs, Guest&)\<close>: after \<open>ReadWritePeep\<close> a target version of 1 or
  less returns; otherwise the guest fields follow, with the ride history as two fixed-size
  bitmaps below version 3 and as two id lists from version 3.
\<close>

definition ReadWriteEntity_Guest :: "32 word \<Rightarrow> stream_op list" where
  "ReadWriteEntity_Guest version =
     ReadWritePeep version GuestKind
     @ (if version \<le> 1 then []
        else
          [RW GuestField ''GuestNumRides'', RW GuestField ''GuestNextInQueue'',
           RW GuestField ''ParkEntryTime'', RW GuestField ''GuestHeadingToRideId'',
           RW GuestField ''GuestIsLostCountdown'', RW GuestField ''GuestTimeOnRide'',
           RW GuestField ''PaidToEnter'', RW GuestField ''PaidOnRides'',
           RW GuestField ''PaidOnFood'', RW GuestField ''PaidOnDrink'',
           RW GuestField ''PaidOnSouvenirs'', RW GuestField ''OutsideOfPark'',
           RW GuestField ''Happiness'', RW GuestField ''HappinessTarget'',
           RW GuestField ''Nausea'', RW GuestField ''NauseaTarget'', RW GuestField ''Hunger'',
           RW GuestField ''Thirst'', RW GuestField ''Toilet'', RW GuestField ''TimeToConsume'',
           RW GuestField ''Intensity'', RW GuestField ''NauseaTolerance'']
          @ (if version < 3 then [RWArray GuestField ''rideTypeBeenOn''] else [])
          @ [RW GuestField ''TimeInQueue'']
          @ (if version < 3 then [RWArray GuestField ''ridesBeenOn'']
             else [RWVector GuestField ''rideUse'', RWVector GuestField ''rideTypeUse''])
          @ [RW GuestField ''CashInPocket'', RW GuestField ''CashSpent'',
             RW GuestField ''Photo1RideRef'', RW GuestField ''Photo2RideRef'',
             RW GuestField ''Photo3RideRef'', RW GuestField ''Photo4RideRef'',
             RW GuestField ''RejoinQueueTimeout'', RW GuestField ''PreviousRide'',
             RW GuestField ''PreviousRideTimeOut'', RWArray GuestField ''Thoughts'',
             RW GuestField ''LitterCount'', RW GuestField ''DisgustingCount'',
             RW GuestField ''AmountOfFood'', RW GuestField ''AmountOfDrinks'',
             RW GuestField ''AmountOfSouvenirs'', RW GuestField ''VandalismSeen'',
             RW GuestField ''VoucherType'', RW GuestField ''VoucherRideId'',
             RW GuestField ''SurroundingsThoughtTimeout'', RW GuestField ''Angriness'',
             RW GuestField ''TimeLost'', RW GuestField ''DaysInQueue'',
             RW GuestField ''BalloonColour'', RW GuestField ''UmbrellaColour'',
             RW GuestField ''HatColour'', RW GuestField ''FavouriteRide'',
             RW GuestField ''FavouriteRideRating'', RW GuestField ''ItemFlags''])"

text \<open>
  \<open>ReadWriteEntity(os, cs, Staff&)\<close>: the patrol area follows \<open>ReadWritePeep\<close> in every
  version; the staff fields follow for a target version above 1, with one byte skipped
  for version 2.
\<close>

definition ReadWriteEntity_Staff :: "32 word \<Rightarrow> stream_op list" where
  "ReadWriteEntity_Staff version =
     ReadWritePeep version StaffKind
     @ [RWVector StaffField ''patrolArea'']
     @ (if version \<le> 1 then []
        else
          [RW StaffField ''AssignedStaffType'', RW StaffField ''MechanicTimeSinceCall'',
           RW StaffField ''HireDate'']
          @ (if version \<le> 2 then [Ignore ''uint8_t''] else [])
          @ [RW StaffField ''StaffOrders'', RW StaffField ''StaffMowingTimeout'',
             RW StaffField ''StaffLawnsMown'', RW StaffField ''StaffGardensWatered'',
             RW StaffField ''StaffLitterSwept'', RW StaffField ''StaffBinsEmptied''])"

text \<open>
  The notions of the claim. An operation is kind-specific when it fills a guest-only or
  staff-only field or skips padding; a \<open>Peep\<close> layout holds the interleaved legacy part
  when it has such operations among the shared ones, and is the shared part of the
  disjoint layout when it has none.
\<close>

fun kind_specific :: "stream_op \<Rightarrow> bool" where
  "kind_specific (RW ow n) = (ow \<noteq> Shared)"
| "kind_specific (RWArray ow n) = (ow \<noteq> Shared)"
| "kind_specific (RWVector ow n) = (ow \<noteq> Shared)"
| "kind_specific (Ignore t) = True"
| "kind_specific (ReadWriteTemp t) = True"
| "kind_specific (RWVectorTemp n) = True"

definition interleaved_layout :: "stream_op list \<Rightarrow> bool" where
  "interleaved_layout ops = list_ex kind_specific ops"

text \<open>
  Whose field an operation fills; skip-padding fills none. The Guest and the Staff layout
  are positionally interleaved when they have the same length and, position by position,
  either both read the same shared field, or the Guest layout reads a guest-only field
  where the Staff layout reads a staff-only field or skips padding; and fields of both
  kinds and padding do occur.
\<close>

fun owner_of :: "stream_op \<Rightarrow> owner option" where
  "owner_of (RW ow n) = Some ow"
| "owner_of (RWArray ow n) = Some ow"
| "owner_of (RWVector ow n) = Some ow"
| "owner_of (Ignore t) = None"
| "owner_of (ReadWriteTemp t) = None"
| "owner_of (RWVectorTemp n) = None"

definition shared_field :: "stream_op \<Rightarrow> bool" where
  "shared_field op = (owner_of op = Some Shared)"

definition guest_only :: "stream_op \<Rightarrow> bool" where
  "guest_only op = (owner_of op = Some GuestField)"

definition staff_only :: "stream_op \<Rightarrow> bool" where
  "staff_only op = (owner_of op = Some StaffField)"

definition skip_padding :: "stream_op \<Rightarrow> bool" where
  "skip_padding op = (owner_of op = None)"

definition aligned :: "stream_op \<Rightarrow> stream_op \<Rightarrow> bool" where
  "aligned g s =
     ((shared_field g \<and> s = g) \<or> (guest_only g \<and> (staff_only s \<or> skip_padding s)))"

definition positionally_interleaved :: "stream_op list \<Rightarrow> stream_op list \<Rightarrow> bool" where
  "positionally_interleaved gs ss =
     (list_all2 aligned gs ss \<and> list_ex guest_only gs \<and> list_ex staff_only ss
      \<and> list_ex skip_padding ss)"

text \<open>
  The ride history of a guest: the two fixed-size bitmaps of the versions below 3, and the
  two id lists that only versions from 3 on have. A layout reads a group when it holds all
  its operations, and reads none of it when it holds not one of them.
\<close>

definition ride_history_bitmaps :: "stream_op list" where
  "ride_history_bitmaps = [RWArray GuestField ''rideTypeBeenOn'', RWArray GuestField ''ridesBeenOn'']"

definition version3_only_fields :: "stream_op list" where
  "version3_only_fields = [RWVector GuestField ''rideUse'', RWVector GuestField ''rideTypeUse'']"

definition reads_all :: "stream_op list \<Rightarrow> stream_op list \<Rightarrow> bool" where
  "reads_all fs ops = list_all (\<lambda>f. f \<in> set ops) fs"

definition reads_none :: "stream_op list \<Rightarrow> stream_op list \<Rightarrow> bool" where
  "reads_none fs ops = list_all (\<lambda>f. f \<notin> set ops) fs"

section \<open>The identifier remapping table\<close>

text \<open>
  \<open>oldObjectIds\<close> (lines 2334 to 4530): the initializer list of the
  \<open>std::map<std::string_view, std::string_view>\<close>, in the order of the source, in parts of
  one hundred entries.
\<close>
definition oldObjectIds_0 :: "(string \<times> string) list" where
  "oldObjectIds_0 = [(''official.scgpanda'', ''rct2dlc.scenery_group.scgpanda''),
     (''official.wtrpink'', ''rct2dlc.water.wtrpink''),
     (''official.ttrftl07'', ''toontowner.scenery_small.ttrftl07''),
     (''official.pandagr'', ''rct2dlc.scenery_small.pandagr''),
     (''official.ttrftl04'', ''toontowner.scenery_small.ttrftl04''),
     (''official.bigpanda'', ''rct2dlc.scenery_small.bigpanda''),
     (''official.ttrftl02'', ''toontowner.scenery_small.ttrftl02''),
     (''official.ttrftl03'', ''toontowner.scenery_small.ttrftl03''),
     (''official.ttrftl08'', ''toontowner.scenery_small.ttrftl08''),
     (''official.xxbbbr01'', ''toontowner.scenery_small.xxbbbr01''),
     (''official.mg-prar'', ''mamabear.scenery_wall.mg-prar''),
     (''official.litterpa'', ''rct2dlc.footpath_item.litterpa''),
     (''openrct2.railings.invisible'', ''openrct2.footpath_railings.invisible''),
     (''official.zpanda'', ''rct2dlc.ride.zpanda''),
     (''openrct2.surface.void'', ''openrct2.terrain_surface.void''),
     (''openrct2.station.noentrance'', ''openrct2.station.noentrance''),
     (''openrct2.station.noplatformnoentrance'', ''openrct2.station.noplatformnoentrance''),
     (''rct2.sct'', ''rct2.scenery_large.sct''),
     (''rct2.soh3'', ''rct2.scenery_large.soh3''),
     (''rct2.scln'', ''rct2.scenery_large.scln''),
     (''rct2.smh2'', ''rct2.scenery_large.smh2''),
     (''rct2.sdn3'', ''rct2.scenery_large.sdn3''),
     (''rct2.stb1'', ''rct2.scenery_large.stb1''),
     (''rct2.nitroent'', ''rct2.scenery_large.nitroent''),
     (''rct2.smh1'', ''rct2.scenery_large.smh1''),
     (''rct2.badrack'', ''rct2.scenery_large.badrack''),
     (''rct2.glthent'', ''rct2.scenery_large.glthent''),
     (''rct2.sth'', ''rct2.scenery_large.sth''),
     (''rct2.svlc'', ''rct2.scenery_large.svlc''),
     (''rct2.ssr'', ''rct2.scenery_large.ssr''),
     (''rct2.spyr'', ''rct2.scenery_large.spyr''),
     (''rct2.prship'', ''rct2.scenery_large.prship''),
     (''rct2.saloon'', ''rct2.scenery_large.saloon''),
     (''rct2.smb'', ''rct2.scenery_large.smb''),
     (''rct2.soh1'', ''rct2.scenery_large.soh1''),
     (''rct2.stg2'', ''rct2.scenery_large.stg2''),
     (''rct2.sspx'', ''rct2.scenery_large.sspx''),
     (''rct2.sip'', ''rct2.scenery_large.sip''),
     (''rct2.ssig4'', ''rct2.scenery_large.ssig4''),
     (''rct2.ssig3'', ''rct2.scenery_large.ssig3''),
     (''rct2.ssig2'', ''rct2.scenery_large.ssig2''),
     (''rct2.smn1'', ''rct2.scenery_large.smn1''),
     (''rct2.scol'', ''rct2.scenery_large.scol''),
     (''rct2.ssh'', ''rct2.scenery_large.ssh''),
     (''rct2.spg'', ''rct2.scenery_large.spg''),
     (''rct2.sah3'', ''rct2.scenery_large.sah3''),
     (''rct2.stg1'', ''rct2.scenery_large.stg1''),
     (''rct2.ssk1'', ''rct2.scenery_large.ssk1''),
     (''rct2.sah'', ''rct2.scenery_large.sah''),
     (''rct2.sgp'', ''rct2.scenery_large.sgp''),
     (''rct2.mdsaent'', ''rct2.scenery_large.mdsaent''),
     (''rct2.sdn2'', ''rct2.scenery_large.sdn2''),
     (''rct2.sah2'', ''rct2.scenery_large.sah2''),
     (''rct2.shs1'', ''rct2.scenery_large.shs1''),
     (''rct2.sps'', ''rct2.scenery_large.sps''),
     (''rct2.sst'', ''rct2.scenery_large.sst''),
     (''rct2.stb2'', ''rct2.scenery_large.stb2''),
     (''rct2.ssig1'', ''rct2.scenery_large.ssig1''),
     (''rct2.sdn1'', ''rct2.scenery_large.sdn1''),
     (''rct2.tavern'', ''rct2.scenery_large.tavern''),
     (''rct2.shs2'', ''rct2.scenery_large.shs2''),
     (''rct2.wwbank'', ''rct2.scenery_large.wwbank''),
     (''rct2.sob'', ''rct2.scenery_large.sob''),
     (''rct2.soh2'', ''rct2.scenery_large.soh2''),
     (''rct2.genstore'', ''rct2.scenery_large.genstore''),
     (''rct2.scgpirat'', ''rct2.scenery_group.scgpirat''),
     (''rct2.scgsport'', ''rct2.scenery_group.scgsport''),
     (''rct2.scgspook'', ''rct2.scenery_group.scgspook''),
     (''rct2.scgclass'', ''rct2.scenery_group.scgclass''),
     (''rct2.scghallo'', ''rct2.scenery_group.scghallo''),
     (''rct2.scgegypt'', ''rct2.scenery_group.scgegypt''),
     (''rct2.scgwater'', ''rct2.scenery_group.scgwater''),
     (''rct2.scgurban'', ''rct2.scenery_group.scgurban''),
     (''rct2.scgwond'', ''rct2.scenery_group.scgwond''),
     (''rct2.scgmine'', ''rct2.scenery_group.scgmine''),
     (''rct2.scgorien'', ''rct2.scenery_group.scgorien''),
     (''rct2.scgshrub'', ''rct2.scenery_group.scgshrub''),
     (''rct2.scgfence'', ''rct2.scenery_group.scgfence''),
     (''rct2.scggiant'', ''rct2.scenery_group.scggiant''),
     (''rct2.scgspace'', ''rct2.scenery_group.scgspace''),
     (''rct2.scgsixfl'', ''rct2.scenery_group.scgsixfl''),
     (''rct2.scgjuras'', ''rct2.scenery_group.scgjuras''),
     (''rct2.scgcandy'', ''rct2.scenery_group.scgcandy''),
     (''rct2.scgmart'', ''rct2.scenery_group.scgmart''),
     (''rct2.scgpathx'', ''rct2.scenery_group.scgpathx''),
     (''rct2.scgtrees'', ''rct2.scenery_group.scgtrees''),
     (''rct2.scgabstr'', ''rct2.scenery_group.scgabstr''),
     (''rct2.scgsnow'', ''rct2.scenery_group.scgsnow''),
     (''rct2.scgwwest'', ''rct2.scenery_group.scgwwest''),
     (''rct2.scggardn'', ''rct2.scenery_group.scggardn''),
     (''rct2.scgwalls'', ''rct2.scenery_group.scgwalls''),
     (''rct2.scgindus'', ''rct2.scenery_group.scgindus''),
     (''rct2.scgjungl'', ''rct2.scenery_group.scgjungl''),
     (''rct2.scgmedie'', ''rct2.scenery_group.scgmedie''),
     (''rct2.music.rock1'', ''rct2.music.rock1''),
     (''rct2.music.toyland'', ''rct2.music.toyland''),
     (''rct2.music.fantasy'', ''rct2.music.fantasy''),
     (''rct2.music.custom2'', ''rct2.music.custom2''),
     (''rct2.music.candy'', ''rct2.music.candy''),
     (''rct2.music.egyptian'', ''rct2.music.egyptian'')]"

definition oldObjectIds_1 :: "(string \<times> string) list" where
  "oldObjectIds_1 = [(''rct2.music.pirate'', ''rct2.music.pirate''),
     (''rct2.music.ice'', ''rct2.music.ice''),
     (''rct2.music.techno'', ''rct2.music.techno''),
     (''rct2.music.jurassic'', ''rct2.music.jurassic''),
     (''rct2.music.medieval'', ''rct2.music.medieval''),
     (''rct2.music.rock2'', ''rct2.music.rock2''),
     (''rct2.music.modern'', ''rct2.music.modern''),
     (''rct2.music.ragtime'', ''rct2.music.ragtime''),
     (''rct2.music.fairground'', ''rct2.music.fairground''),
     (''rct2.music.jungle'', ''rct2.music.jungle''),
     (''rct2.music.dodgems'', ''rct2.music.dodgems''),
     (''rct2.music.gentle'', ''rct2.music.gentle''),
     (''rct2.music.summer'', ''rct2.music.summer''),
     (''rct2.music.oriental'', ''rct2.music.oriental''),
     (''rct2.music.wildwest'', ''rct2.music.wildwest''),
     (''rct2.music.space'', ''rct2.music.space''),
     (''rct2.music.horror'', ''rct2.music.horror''),
     (''rct2.music.custom1'', ''rct2.music.custom1''),
     (''rct2.music.snow'', ''rct2.music.snow''),
     (''rct2.music.rock3'', ''rct2.music.rock3''),
     (''rct2.music.organ'', ''rct2.music.organ''),
     (''rct2.music.mechanical'', ''rct2.music.mechanical''),
     (''rct2.music'', ''rct2.music.water''),
     (''rct2.music.urban'', ''rct2.music.urban''),
     (''rct2.music.martian'', ''rct2.music.martian''),
     (''rct2.music.roman'', ''rct2.music.roman''),
     (''rct2.bn1'', ''rct2.footpath_banner.bn1''),
     (''rct2.bn3'', ''rct2.footpath_banner.bn3''),
     (''rct2.bn7'', ''rct2.footpath_banner.bn7''),
     (''rct2.bn6'', ''rct2.footpath_banner.bn6''),
     (''rct2.bn5'', ''rct2.footpath_banner.bn5''),
     (''rct2.bn8'', ''rct2.footpath_banner.bn8''),
     (''rct2.bn9'', ''rct2.footpath_banner.bn9''),
     (''rct2.bn2'', ''rct2.footpath_banner.bn2''),
     (''rct2.bn4'', ''rct2.footpath_banner.bn4''),
     (''rct2.wtrorng'', ''rct2.water.wtrorng''),
     (''rct2.wtrgreen'', ''rct2.water.wtrgreen''),
     (''rct2.wtrgrn'', ''rct2.water.wtrgrn''),
     (''rct2.wtrcyan'', ''rct2.water.wtrcyan''),
     (''rct2.trf3'', ''rct2.scenery_small.trf3''),
     (''rct2.tl3'', ''rct2.scenery_small.tl3''),
     (''rct2.tl0'', ''rct2.scenery_small.tl0''),
     (''rct2.stldw'', ''rct2.scenery_small.stldw''),
     (''rct2.trms'', ''rct2.scenery_small.trms''),
     (''rct2.tsm'', ''rct2.scenery_small.tsm''),
     (''rct2.tef'', ''rct2.scenery_small.tef''),
     (''rct2.tes1'', ''rct2.scenery_small.tes1''),
     (''rct2.hang1'', ''rct2.scenery_small.hang1''),
     (''rct2.tsk'', ''rct2.scenery_small.tsk''),
     (''rct2.tmg'', ''rct2.scenery_small.tmg''),
     (''rct2.jeldrop1'', ''rct2.scenery_small.jeldrop1''),
     (''rct2.chest1'', ''rct2.scenery_small.chest1''),
     (''rct2.trf'', ''rct2.scenery_small.trf''),
     (''rct2.ttf'', ''rct2.scenery_small.ttf''),
     (''rct2.sktdw2'', ''rct2.scenery_small.sktdw2''),
     (''rct2.roof5'', ''rct2.scenery_small.roof5''),
     (''rct2.tww'', ''rct2.scenery_small.tww''),
     (''rct2.tbn'', ''rct2.scenery_small.tbn''),
     (''rct2.totem1'', ''rct2.scenery_small.totem1''),
     (''rct2.brbase2'', ''rct2.scenery_small.brbase2''),
     (''rct2.chest2'', ''rct2.scenery_small.chest2''),
     (''rct2.tct'', ''rct2.scenery_small.tct''),
     (''rct2.tge4'', ''rct2.scenery_small.tge4''),
     (''rct2.tsp2'', ''rct2.scenery_small.tsp2''),
     (''rct2.stlbaset'', ''rct2.scenery_small.stlbaset''),
     (''rct2.tgs3'', ''rct2.scenery_small.tgs3''),
     (''rct2.tep'', ''rct2.scenery_small.tep''),
     (''rct2.tq2'', ''rct2.scenery_small.tq2''),
     (''rct2.tf2'', ''rct2.scenery_small.tf2''),
     (''rct2.tgs1'', ''rct2.scenery_small.tgs1''),
     (''rct2.tic'', ''rct2.scenery_small.tic''),
     (''rct2.tgc1'', ''rct2.scenery_small.tgc1''),
     (''rct2.tsf1'', ''rct2.scenery_small.tsf1''),
     (''rct2.tjt4'', ''rct2.scenery_small.tjt4''),
     (''rct2.cog2r'', ''rct2.scenery_small.cog2r''),
     (''rct2.cog2'', ''rct2.scenery_small.cog2''),
     (''rct2.tsph'', ''rct2.scenery_small.tsph''),
     (''rct2.tm0'', ''rct2.scenery_small.tm0''),
     (''rct2.tg10'', ''rct2.scenery_small.tg10''),
     (''rct2.tlp'', ''rct2.scenery_small.tlp''),
     (''rct2.beanst1'', ''rct2.scenery_small.beanst1''),
     (''rct2.georoof1'', ''rct2.scenery_small.georoof1''),
     (''rct2.allsort2'', ''rct2.scenery_small.allsort2''),
     (''rct2.tge1'', ''rct2.scenery_small.tge1''),
     (''rct2.tsh'', ''rct2.scenery_small.tsh''),
     (''rct2.tgs2'', ''rct2.scenery_small.tgs2''),
     (''rct2.cnballs'', ''rct2.scenery_small.cnballs''),
     (''rct2.tos'', ''rct2.scenery_small.tos''),
     (''rct2.colagum'', ''rct2.scenery_small.colagum''),
     (''rct2.brbase'', ''rct2.scenery_small.brbase''),
     (''rct2.tsnb'', ''rct2.scenery_small.tsnb''),
     (''rct2.mment2'', ''rct2.scenery_small.mment2''),
     (''rct2.tg12'', ''rct2.scenery_small.tg12''),
     (''rct2.tsh4'', ''rct2.scenery_small.tsh4''),
     (''rct2.tjp2'', ''rct2.scenery_small.tjp2''),
     (''rct2.tg17'', ''rct2.scenery_small.tg17''),
     (''rct2.tmj'', ''rct2.scenery_small.tmj''),
     (''rct2.tgg'', ''rct2.scenery_small.tgg''),
     (''rct2.tg7'', ''rct2.scenery_small.tg7''),
     (''rct2.tmo3'', ''rct2.scenery_small.tmo3'')]"

definition oldObjectIds_2 :: "(string \<times> string) list" where
  "oldObjectIds_2 = [(''rct2.tmw'', ''rct2.scenery_small.tmw''),
     (''rct2.thl'', ''rct2.scenery_small.thl''),
     (''rct2.roof9'', ''rct2.scenery_small.roof9''),
     (''rct2.chocroof'', ''rct2.scenery_small.chocroof''),
     (''rct2.ten'', ''rct2.scenery_small.ten''),
     (''rct2.roof14'', ''rct2.scenery_small.roof14''),
     (''rct2.tg15'', ''rct2.scenery_small.tg15''),
     (''rct2.tdf'', ''rct2.scenery_small.tdf''),
     (''rct2.tot2'', ''rct2.scenery_small.tot2''),
     (''rct2.tbp'', ''rct2.scenery_small.tbp''),
     (''rct2.tg19'', ''rct2.scenery_small.tg19''),
     (''rct2.helmet1'', ''rct2.scenery_small.helmet1''),
     (''rct2.tg14'', ''rct2.scenery_small.tg14''),
     (''rct2.tsh1'', ''rct2.scenery_small.tsh1''),
     (''rct2.tb1'', ''rct2.scenery_small.tb1''),
     (''rct2.twf'', ''rct2.scenery_small.twf''),
     (''rct2.tr1'', ''rct2.scenery_small.tr1''),
     (''rct2.tropt1'', ''rct2.scenery_small.tropt1''),
     (''rct2.suppw3'', ''rct2.scenery_small.suppw3''),
     (''rct2.tg4'', ''rct2.scenery_small.tg4''),
     (''rct2.pirroof2'', ''rct2.scenery_small.pirroof2''),
     (''rct2.tg5'', ''rct2.scenery_small.tg5''),
     (''rct2.twp'', ''rct2.scenery_small.twp''),
     (''rct2.allsort1'', ''rct2.scenery_small.allsort1''),
     (''rct2.tjt1'', ''rct2.scenery_small.tjt1''),
     (''rct2.tml'', ''rct2.scenery_small.tml''),
     (''rct2.ball2'', ''rct2.scenery_small.ball2''),
     (''rct2.cwfcrv32'', ''rct2.scenery_small.cwfcrv32''),
     (''rct2.tbr2'', ''rct2.scenery_small.tbr2''),
     (''rct2.tot1'', ''rct2.scenery_small.tot1''),
     (''rct2.roof8'', ''rct2.scenery_small.roof8''),
     (''rct2.tghc'', ''rct2.scenery_small.tghc''),
     (''rct2.lolly1'', ''rct2.scenery_small.lolly1''),
     (''rct2.roof10'', ''rct2.scenery_small.roof10''),
     (''rct2.tas3'', ''rct2.scenery_small.tas3''),
     (''rct2.tmo1'', ''rct2.scenery_small.tmo1''),
     (''rct2.sktdw'', ''rct2.scenery_small.sktdw''),
     (''rct2.corroof2'', ''rct2.scenery_small.corroof2''),
     (''rct2.prcan'', ''rct2.scenery_small.prcan''),
     (''rct2.tjf'', ''rct2.scenery_small.tjf''),
     (''rct2.tscp'', ''rct2.scenery_small.tscp''),
     (''rct2.tdt2'', ''rct2.scenery_small.tdt2''),
     (''rct2.cwbcrv32'', ''rct2.scenery_small.cwbcrv32''),
     (''rct2.beanst2'', ''rct2.scenery_small.beanst2''),
     (''rct2.twh2'', ''rct2.scenery_small.twh2''),
     (''rct2.tst5'', ''rct2.scenery_small.tst5''),
     (''rct2.tcrp'', ''rct2.scenery_small.tcrp''),
     (''rct2.tpm'', ''rct2.scenery_small.tpm''),
     (''rct2.tst3'', ''rct2.scenery_small.tst3''),
     (''rct2.romroof2'', ''rct2.scenery_small.romroof2''),
     (''rct2.ggrs1'', ''rct2.scenery_small.ggrs1''),
     (''rct2.cwbcrv33'', ''rct2.scenery_small.cwbcrv33''),
     (''rct2.stbase'', ''rct2.scenery_small.stbase''),
     (''rct2.carrot'', ''rct2.scenery_small.carrot''),
     (''rct2.buttfly'', ''rct2.scenery_small.buttfly''),
     (''rct2.tal'', ''rct2.scenery_small.tal''),
     (''rct2.trws'', ''rct2.scenery_small.trws''),
     (''rct2.tbr3'', ''rct2.scenery_small.tbr3''),
     (''rct2.tsmp'', ''rct2.scenery_small.tsmp''),
     (''rct2.tel'', ''rct2.scenery_small.tel''),
     (''rct2.thrs'', ''rct2.scenery_small.thrs''),
     (''rct2.tl1'', ''rct2.scenery_small.tl1''),
     (''rct2.tstd'', ''rct2.scenery_small.tstd''),
     (''rct2.twn'', ''rct2.scenery_small.twn''),
     (''rct2.ts3'', ''rct2.scenery_small.ts3''),
     (''rct2.ts1'', ''rct2.scenery_small.ts1''),
     (''rct2.tmo5'', ''rct2.scenery_small.tmo5''),
     (''rct2.twh1'', ''rct2.scenery_small.twh1''),
     (''rct2.tdm'', ''rct2.scenery_small.tdm''),
     (''rct2.tg9'', ''rct2.scenery_small.tg9''),
     (''rct2.torn1'', ''rct2.scenery_small.torn1''),
     (''rct2.tqf'', ''rct2.scenery_small.tqf''),
     (''rct2.snail'', ''rct2.scenery_small.snail''),
     (''rct2.tcd'', ''rct2.scenery_small.tcd''),
     (''rct2.tas'', ''rct2.scenery_small.tas''),
     (''rct2.spider1'', ''rct2.scenery_small.spider1''),
     (''rct2.tst1'', ''rct2.scenery_small.tst1''),
     (''rct2.roof13'', ''rct2.scenery_small.roof13''),
     (''rct2.tjt5'', ''rct2.scenery_small.tjt5''),
     (''rct2.tct2'', ''rct2.scenery_small.tct2''),
     (''rct2.ts4'', ''rct2.scenery_small.ts4''),
     (''rct2.wspout'', ''rct2.scenery_small.wspout''),
     (''rct2.tst4'', ''rct2.scenery_small.tst4''),
     (''rct2.wdbase'', ''rct2.scenery_small.wdbase''),
     (''rct2.toh2'', ''rct2.scenery_small.toh2''),
     (''rct2.igroof'', ''rct2.scenery_small.igroof''),
     (''rct2.ball3'', ''rct2.scenery_small.ball3''),
     (''rct2.tsf3'', ''rct2.scenery_small.tsf3''),
     (''rct2.fern1'', ''rct2.scenery_small.fern1''),
     (''rct2.mment1'', ''rct2.scenery_small.mment1''),
     (''rct2.brcrrf1'', ''rct2.scenery_small.brcrrf1''),
     (''rct2.sktbase'', ''rct2.scenery_small.sktbase''),
     (''rct2.cog2ur'', ''rct2.scenery_small.cog2ur''),
     (''rct2.wag1'', ''rct2.scenery_small.wag1''),
     (''rct2.tk4'', ''rct2.scenery_small.tk4''),
     (''rct2.tdn4'', ''rct2.scenery_small.tdn4''),
     (''rct2.ball4'', ''rct2.scenery_small.ball4''),
     (''rct2.mallow1'', ''rct2.scenery_small.mallow1''),
     (''rct2.tjb2'', ''rct2.scenery_small.tjb2''),
     (''rct2.tmbj'', ''rct2.scenery_small.tmbj'')]"

definition oldObjectIds_3 :: "(string \<times> string) list" where
  "oldObjectIds_3 = [(''rct2.smskull'', ''rct2.scenery_small.smskull''),
     (''rct2.tg21'', ''rct2.scenery_small.tg21''),
     (''rct2.tgs4'', ''rct2.scenery_small.tgs4''),
     (''rct2.tct1'', ''rct2.scenery_small.tct1''),
     (''rct2.tk3'', ''rct2.scenery_small.tk3''),
     (''rct2.tbr1'', ''rct2.scenery_small.tbr1''),
     (''rct2.tsnc'', ''rct2.scenery_small.tsnc''),
     (''rct2.tbc'', ''rct2.scenery_small.tbc''),
     (''rct2.tg16'', ''rct2.scenery_small.tg16''),
     (''rct2.pirflag'', ''rct2.scenery_small.pirflag''),
     (''rct2.toh1'', ''rct2.scenery_small.toh1''),
     (''rct2.tcc'', ''rct2.scenery_small.tcc''),
     (''rct2.roof1'', ''rct2.scenery_small.roof1''),
     (''rct2.cog1r'', ''rct2.scenery_small.cog1r''),
     (''rct2.th1'', ''rct2.scenery_small.th1''),
     (''rct2.tg3'', ''rct2.scenery_small.tg3''),
     (''rct2.tsh0'', ''rct2.scenery_small.tsh0''),
     (''rct2.tcb'', ''rct2.scenery_small.tcb''),
     (''rct2.roof4'', ''rct2.scenery_small.roof4''),
     (''rct2.tht'', ''rct2.scenery_small.tht''),
     (''rct2.minroof1'', ''rct2.scenery_small.minroof1''),
     (''rct2.tp1'', ''rct2.scenery_small.tp1''),
     (''rct2.tsh5'', ''rct2.scenery_small.tsh5''),
     (''rct2.tgc2'', ''rct2.scenery_small.tgc2''),
     (''rct2.ttg'', ''rct2.scenery_small.ttg''),
     (''rct2.tjb3'', ''rct2.scenery_small.tjb3''),
     (''rct2.romroof1'', ''rct2.scenery_small.romroof1''),
     (''rct2.tco'', ''rct2.scenery_small.tco''),
     (''rct2.pipe32'', ''rct2.scenery_small.pipe32''),
     (''rct2.sktbaset'', ''rct2.scenery_small.sktbaset''),
     (''rct2.tcf'', ''rct2.scenery_small.tcf''),
     (''rct2.tnss'', ''rct2.scenery_small.tnss''),
     (''rct2.tot4'', ''rct2.scenery_small.tot4''),
     (''rct2.tus'', ''rct2.scenery_small.tus''),
     (''rct2.tsg'', ''rct2.scenery_small.tsg''),
     (''rct2.roof2'', ''rct2.scenery_small.roof2''),
     (''rct2.suppleg2'', ''rct2.scenery_small.suppleg2''),
     (''rct2.georoof2'', ''rct2.scenery_small.georoof2''),
     (''rct2.tac'', ''rct2.scenery_small.tac''),
     (''rct2.tce'', ''rct2.scenery_small.tce''),
     (''rct2.tbw'', ''rct2.scenery_small.tbw''),
     (''rct2.stldw2'', ''rct2.scenery_small.stldw2''),
     (''rct2.cog2u'', ''rct2.scenery_small.cog2u''),
     (''rct2.tdt1'', ''rct2.scenery_small.tdt1''),
     (''rct2.th2'', ''rct2.scenery_small.th2''),
     (''rct2.ts5'', ''rct2.scenery_small.ts5''),
     (''rct2.tgh1'', ''rct2.scenery_small.tgh1''),
     (''rct2.cog1u'', ''rct2.scenery_small.cog1u''),
     (''rct2.tsp1'', ''rct2.scenery_small.tsp1''),
     (''rct2.tcfs'', ''rct2.scenery_small.tcfs''),
     (''rct2.tjb1'', ''rct2.scenery_small.tjb1''),
     (''rct2.suppw1'', ''rct2.scenery_small.suppw1''),
     (''rct2.tk1'', ''rct2.scenery_small.tk1''),
     (''rct2.tvl'', ''rct2.scenery_small.tvl''),
     (''rct2.tghc2'', ''rct2.scenery_small.tghc2''),
     (''rct2.trfs'', ''rct2.scenery_small.trfs''),
     (''rct2.tly'', ''rct2.scenery_small.tly''),
     (''rct2.wag2'', ''rct2.scenery_small.wag2''),
     (''rct2.tg13'', ''rct2.scenery_small.tg13''),
     (''rct2.tgh2'', ''rct2.scenery_small.tgh2''),
     (''rct2.tas1'', ''rct2.scenery_small.tas1''),
     (''rct2.tge2'', ''rct2.scenery_small.tge2''),
     (''rct2.tmc'', ''rct2.scenery_small.tmc''),
     (''rct2.tap'', ''rct2.scenery_small.tap''),
     (''rct2.tbr'', ''rct2.scenery_small.tbr''),
     (''rct2.tg6'', ''rct2.scenery_small.tg6''),
     (''rct2.tsc'', ''rct2.scenery_small.tsc''),
     (''rct2.jelbab1'', ''rct2.scenery_small.jelbab1''),
     (''rct2.tmo4'', ''rct2.scenery_small.tmo4''),
     (''rct2.tns'', ''rct2.scenery_small.tns''),
     (''rct2.tcl'', ''rct2.scenery_small.tcl''),
     (''rct2.tas2'', ''rct2.scenery_small.tas2''),
     (''rct2.tl2'', ''rct2.scenery_small.tl2''),
     (''rct2.roof12'', ''rct2.scenery_small.roof12''),
     (''rct2.trf2'', ''rct2.scenery_small.trf2''),
     (''rct2.tmo2'', ''rct2.scenery_small.tmo2''),
     (''rct2.tg20'', ''rct2.scenery_small.tg20''),
     (''rct2.tjt3'', ''rct2.scenery_small.tjt3''),
     (''rct2.tm3'', ''rct2.scenery_small.tm3''),
     (''rct2.tb2'', ''rct2.scenery_small.tb2''),
     (''rct2.teepee1'', ''rct2.scenery_small.teepee1''),
     (''rct2.tot3'', ''rct2.scenery_small.tot3''),
     (''rct2.pirroof1'', ''rct2.scenery_small.pirroof1''),
     (''rct2.jeldrop2'', ''rct2.scenery_small.jeldrop2''),
     (''rct2.tntroof1'', ''rct2.scenery_small.tntroof1''),
     (''rct2.toh3'', ''rct2.scenery_small.toh3''),
     (''rct2.pipe8'', ''rct2.scenery_small.pipe8''),
     (''rct2.tsh2'', ''rct2.scenery_small.tsh2''),
     (''rct2.tbn1'', ''rct2.scenery_small.tbn1''),
     (''rct2.tcy'', ''rct2.scenery_small.tcy''),
     (''rct2.wasp'', ''rct2.scenery_small.wasp''),
     (''rct2.tmm3'', ''rct2.scenery_small.tmm3''),
     (''rct2.ters'', ''rct2.scenery_small.ters''),
     (''rct2.tsp'', ''rct2.scenery_small.tsp''),
     (''rct2.ts6'', ''rct2.scenery_small.ts6''),
     (''rct2.tp2'', ''rct2.scenery_small.tp2''),
     (''rct2.torn2'', ''rct2.scenery_small.torn2''),
     (''rct2.tst2'', ''rct2.scenery_small.tst2''),
     (''rct2.tm2'', ''rct2.scenery_small.tm2''),
     (''rct2.tf1'', ''rct2.scenery_small.tf1'')]"

definition oldObjectIds_4 :: "(string \<times> string) list" where
  "oldObjectIds_4 = [(''rct2.tsb'', ''rct2.scenery_small.tsb''),
     (''rct2.mment3'', ''rct2.scenery_small.mment3''),
     (''rct2.tg11'', ''rct2.scenery_small.tg11''),
     (''rct2.ts2'', ''rct2.scenery_small.ts2''),
     (''rct2.tms1'', ''rct2.scenery_small.tms1''),
     (''rct2.spcroof1'', ''rct2.scenery_small.spcroof1''),
     (''rct2.tk2'', ''rct2.scenery_small.tk2''),
     (''rct2.whoriz'', ''rct2.scenery_small.whoriz''),
     (''rct2.tjt6'', ''rct2.scenery_small.tjt6''),
     (''rct2.brcrrf2'', ''rct2.scenery_small.brcrrf2''),
     (''rct2.suppleg1'', ''rct2.scenery_small.suppleg1''),
     (''rct2.roof11'', ''rct2.scenery_small.roof11''),
     (''rct2.tas4'', ''rct2.scenery_small.tas4''),
     (''rct2.tjt2'', ''rct2.scenery_small.tjt2''),
     (''rct2.tsd'', ''rct2.scenery_small.tsd''),
     (''rct2.mint1'', ''rct2.scenery_small.mint1''),
     (''rct2.corroof'', ''rct2.scenery_small.corroof''),
     (''rct2.brbase3'', ''rct2.scenery_small.brbase3''),
     (''rct2.pipe32j'', ''rct2.scenery_small.pipe32j''),
     (''rct2.tsf2'', ''rct2.scenery_small.tsf2''),
     (''rct2.tg18'', ''rct2.scenery_small.tg18''),
     (''rct2.tdt3'', ''rct2.scenery_small.tdt3''),
     (''rct2.tq1'', ''rct2.scenery_small.tq1''),
     (''rct2.tge5'', ''rct2.scenery_small.tge5''),
     (''rct2.cndyrk1'', ''rct2.scenery_small.cndyrk1''),
     (''rct2.tsc2'', ''rct2.scenery_small.tsc2''),
     (''rct2.tg2'', ''rct2.scenery_small.tg2''),
     (''rct2.roof3'', ''rct2.scenery_small.roof3''),
     (''rct2.cog1ur'', ''rct2.scenery_small.cog1ur''),
     (''rct2.jbean1'', ''rct2.scenery_small.jbean1''),
     (''rct2.icecube'', ''rct2.scenery_small.icecube''),
     (''rct2.suppw2'', ''rct2.scenery_small.suppw2''),
     (''rct2.tsq'', ''rct2.scenery_small.tsq''),
     (''rct2.sumrf'', ''rct2.scenery_small.sumrf''),
     (''rct2.roof7'', ''rct2.scenery_small.roof7''),
     (''rct2.tcn'', ''rct2.scenery_small.tcn''),
     (''rct2.ts0'', ''rct2.scenery_small.ts0''),
     (''rct2.tsh3'', ''rct2.scenery_small.tsh3''),
     (''rct2.tcj'', ''rct2.scenery_small.tcj''),
     (''rct2.badshut2'', ''rct2.scenery_small.badshut2''),
     (''rct2.tt1'', ''rct2.scenery_small.tt1''),
     (''rct2.wdiag'', ''rct2.scenery_small.wdiag''),
     (''rct2.tg8'', ''rct2.scenery_small.tg8''),
     (''rct2.jngroof1'', ''rct2.scenery_small.jngroof1''),
     (''rct2.tg1'', ''rct2.scenery_small.tg1''),
     (''rct2.tck'', ''rct2.scenery_small.tck''),
     (''rct2.badshut'', ''rct2.scenery_small.badshut''),
     (''rct2.cog1'', ''rct2.scenery_small.cog1''),
     (''rct2.ball1'', ''rct2.scenery_small.ball1''),
     (''rct2.pagroof1'', ''rct2.scenery_small.pagroof1''),
     (''rct2.chbbase'', ''rct2.scenery_small.chbbase''),
     (''rct2.tjb4'', ''rct2.scenery_small.tjb4''),
     (''rct2.tjp1'', ''rct2.scenery_small.tjp1''),
     (''rct2.cwfcrv33'', ''rct2.scenery_small.cwfcrv33''),
     (''rct2.mallow2'', ''rct2.scenery_small.mallow2''),
     (''rct2.roof6'', ''rct2.scenery_small.roof6''),
     (''rct2.tmzp'', ''rct2.scenery_small.tmzp''),
     (''rct2.tlc'', ''rct2.scenery_small.tlc''),
     (''rct2.tmm1'', ''rct2.scenery_small.tmm1''),
     (''rct2.tig'', ''rct2.scenery_small.tig''),
     (''rct2.tge3'', ''rct2.scenery_small.tge3''),
     (''rct2.tgs'', ''rct2.scenery_small.tgs''),
     (''rct2.titc'', ''rct2.scenery_small.titc''),
     (''rct2.terb'', ''rct2.scenery_small.terb''),
     (''rct2.tmm2'', ''rct2.scenery_small.tmm2''),
     (''rct2.tbr4'', ''rct2.scenery_small.tbr4''),
     (''rct2.tdn5'', ''rct2.scenery_small.tdn5''),
     (''rct2.tmp'', ''rct2.scenery_small.tmp''),
     (''rct2.trc'', ''rct2.scenery_small.trc''),
     (''rct2.tm1'', ''rct2.scenery_small.tm1''),
     (''rct2.tr2'', ''rct2.scenery_small.tr2''),
     (''rct2.fire1'', ''rct2.scenery_small.fire1''),
     (''rct2.wc7'', ''rct2.scenery_wall.wc7''),
     (''rct2.wc4'', ''rct2.scenery_wall.wc4''),
     (''rct2.wmf'', ''rct2.scenery_wall.wmf''),
     (''rct2.wc2'', ''rct2.scenery_wall.wc2''),
     (''rct2.wfwg'', ''rct2.scenery_wall.wfwg''),
     (''rct2.wallcfar'', ''rct2.scenery_wall.wallcfar''),
     (''rct2.wallcfwn'', ''rct2.scenery_wall.wallcfwn''),
     (''rct2.wallco16'', ''rct2.scenery_wall.wallco16''),
     (''rct2.wallpr34'', ''rct2.scenery_wall.wallpr34''),
     (''rct2.wallbb16'', ''rct2.scenery_wall.wallbb16''),
     (''rct2.wallmm17'', ''rct2.scenery_wall.wallmm17''),
     (''rct2.wallrs32'', ''rct2.scenery_wall.wallrs32''),
     (''rct2.wpw3'', ''rct2.scenery_wall.wpw3''),
     (''rct2.wew'', ''rct2.scenery_wall.wew''),
     (''rct2.wallsp32'', ''rct2.scenery_wall.wallsp32''),
     (''rct2.wallbb34'', ''rct2.scenery_wall.wallbb34''),
     (''rct2.wallsign'', ''rct2.scenery_wall.wallsign''),
     (''rct2.wallwd16'', ''rct2.scenery_wall.wallwd16''),
     (''rct2.wwtw'', ''rct2.scenery_wall.wwtw''),
     (''rct2.wallgl32'', ''rct2.scenery_wall.wallgl32''),
     (''rct2.wallcf16'', ''rct2.scenery_wall.wallcf16''),
     (''rct2.wwtwa'', ''rct2.scenery_wall.wwtwa''),
     (''rct2.walljn32'', ''rct2.scenery_wall.walljn32''),
     (''rct2.whg'', ''rct2.scenery_wall.whg''),
     (''rct2.wallmn32'', ''rct2.scenery_wall.wallmn32''),
     (''rct2.wpw2'', ''rct2.scenery_wall.wpw2''),
     (''rct2.wbr2a'', ''rct2.scenery_wall.wbr2a''),
     (''rct2.wsw'', ''rct2.scenery_wall.wsw'')]"

definition oldObjectIds_5 :: "(string \<times> string) list" where
  "oldObjectIds_5 = [(''rct2.wmw'', ''rct2.scenery_wall.wmw''),
     (''rct2.wallnt32'', ''rct2.scenery_wall.wallnt32''),
     (''rct2.wallpr33'', ''rct2.scenery_wall.wallpr33''),
     (''rct2.wallcf32'', ''rct2.scenery_wall.wallcf32''),
     (''rct2.wc8'', ''rct2.scenery_wall.wc8''),
     (''rct2.wc5'', ''rct2.scenery_wall.wc5''),
     (''rct2.wallu132'', ''rct2.scenery_wall.wallu132''),
     (''rct2.wallbadm'', ''rct2.scenery_wall.wallbadm''),
     (''rct2.wsw2'', ''rct2.scenery_wall.wsw2''),
     (''rct2.wc1'', ''rct2.scenery_wall.wc1''),
     (''rct2.wallsk16'', ''rct2.scenery_wall.wallsk16''),
     (''rct2.wsw1'', ''rct2.scenery_wall.wsw1''),
     (''rct2.wallcfpc'', ''rct2.scenery_wall.wallcfpc''),
     (''rct2.wc12'', ''rct2.scenery_wall.wc12''),
     (''rct2.wallpost'', ''rct2.scenery_wall.wallpost''),
     (''rct2.whgg'', ''rct2.scenery_wall.whgg''),
     (''rct2.wc10'', ''rct2.scenery_wall.wc10''),
     (''rct2.wc14'', ''rct2.scenery_wall.wc14''),
     (''rct2.wrw'', ''rct2.scenery_wall.wrw''),
     (''rct2.wallcb8'', ''rct2.scenery_wall.wallcb8''),
     (''rct2.wcw2'', ''rct2.scenery_wall.wcw2''),
     (''rct2.wchg'', ''rct2.scenery_wall.wchg''),
     (''rct2.wbr1a'', ''rct2.scenery_wall.wbr1a''),
     (''rct2.wallpg32'', ''rct2.scenery_wall.wallpg32''),
     (''rct2.wpf'', ''rct2.scenery_wall.wpf''),
     (''rct2.wallnt33'', ''rct2.scenery_wall.wallnt33''),
     (''rct2.wallcx32'', ''rct2.scenery_wall.wallcx32''),
     (''rct2.wallst16'', ''rct2.scenery_wall.wallst16''),
     (''rct2.wc9'', ''rct2.scenery_wall.wc9''),
     (''rct2.wpfg'', ''rct2.scenery_wall.wpfg''),
     (''rct2.wc13'', ''rct2.scenery_wall.wc13''),
     (''rct2.wjf'', ''rct2.scenery_wall.wjf''),
     (''rct2.wallbr16'', ''rct2.scenery_wall.wallbr16''),
     (''rct2.wbrg'', ''rct2.scenery_wall.wbrg''),
     (''rct2.wc11'', ''rct2.scenery_wall.wc11''),
     (''rct2.wallbb33'', ''rct2.scenery_wall.wallbb33''),
     (''rct2.wallwf32'', ''rct2.scenery_wall.wallwf32''),
     (''rct2.wfw1'', ''rct2.scenery_wall.wfw1''),
     (''rct2.wallgl8'', ''rct2.scenery_wall.wallgl8''),
     (''rct2.wallrs8'', ''rct2.scenery_wall.wallrs8''),
     (''rct2.wallsc16'', ''rct2.scenery_wall.wallsc16''),
     (''rct2.wallcy32'', ''rct2.scenery_wall.wallcy32''),
     (''rct2.wallpr32'', ''rct2.scenery_wall.wallpr32''),
     (''rct2.wallu232'', ''rct2.scenery_wall.wallu232''),
     (''rct2.wallbb32'', ''rct2.scenery_wall.wallbb32''),
     (''rct2.wallgl16'', ''rct2.scenery_wall.wallgl16''),
     (''rct2.wallst32'', ''rct2.scenery_wall.wallst32''),
     (''rct2.wallrh32'', ''rct2.scenery_wall.wallrh32''),
     (''rct2.wallst8'', ''rct2.scenery_wall.wallst8''),
     (''rct2.wswg'', ''rct2.scenery_wall.wswg''),
     (''rct2.wallrs16'', ''rct2.scenery_wall.wallrs16''),
     (''rct2.wallcf8'', ''rct2.scenery_wall.wallcf8''),
     (''rct2.wallwd33'', ''rct2.scenery_wall.wallwd33''),
     (''rct2.wbr3'', ''rct2.scenery_wall.wbr3''),
     (''rct2.wallcbdr'', ''rct2.scenery_wall.wallcbdr''),
     (''rct2.wallbr8'', ''rct2.scenery_wall.wallbr8''),
     (''rct2.wallcbpc'', ''rct2.scenery_wall.wallcbpc''),
     (''rct2.wallbb8'', ''rct2.scenery_wall.wallbb8''),
     (''rct2.wallmm16'', ''rct2.scenery_wall.wallmm16''),
     (''rct2.wallcb16'', ''rct2.scenery_wall.wallcb16''),
     (''rct2.wallcz32'', ''rct2.scenery_wall.wallcz32''),
     (''rct2.walltn32'', ''rct2.scenery_wall.walltn32''),
     (''rct2.wallstfn'', ''rct2.scenery_wall.wallstfn''),
     (''rct2.wallwd8'', ''rct2.scenery_wall.wallwd8''),
     (''rct2.wallig24'', ''rct2.scenery_wall.wallig24''),
     (''rct2.wallbr32'', ''rct2.scenery_wall.wallbr32''),
     (''rct2.wmfg'', ''rct2.scenery_wall.wmfg''),
     (''rct2.wallstwn'', ''rct2.scenery_wall.wallstwn''),
     (''rct2.walljb16'', ''rct2.scenery_wall.walljb16''),
     (''rct2.wallcbwn'', ''rct2.scenery_wall.wallcbwn''),
     (''rct2.wc18'', ''rct2.scenery_wall.wc18''),
     (''rct2.wbr2'', ''rct2.scenery_wall.wbr2''),
     (''rct2.wallrk32'', ''rct2.scenery_wall.wallrk32''),
     (''rct2.wcw1'', ''rct2.scenery_wall.wcw1''),
     (''rct2.walllt32'', ''rct2.scenery_wall.walllt32''),
     (''rct2.wpw1'', ''rct2.scenery_wall.wpw1''),
     (''rct2.wgw2'', ''rct2.scenery_wall.wgw2''),
     (''rct2.walltxgt'', ''rct2.scenery_wall.walltxgt''),
     (''rct2.wc6'', ''rct2.scenery_wall.wc6''),
     (''rct2.wallbrdr'', ''rct2.scenery_wall.wallbrdr''),
     (''rct2.wallcw32'', ''rct2.scenery_wall.wallcw32''),
     (''rct2.wc17'', ''rct2.scenery_wall.wc17''),
     (''rct2.wallcfdr'', ''rct2.scenery_wall.wallcfdr''),
     (''rct2.wallbrwn'', ''rct2.scenery_wall.wallbrwn''),
     (''rct2.wc3'', ''rct2.scenery_wall.wc3''),
     (''rct2.wallwd32'', ''rct2.scenery_wall.wallwd32''),
     (''rct2.wallwdps'', ''rct2.scenery_wall.wallwdps''),
     (''rct2.wrwa'', ''rct2.scenery_wall.wrwa''),
     (''rct2.wch'', ''rct2.scenery_wall.wch''),
     (''rct2.wbw'', ''rct2.scenery_wall.wbw''),
     (''rct2.wc15'', ''rct2.scenery_wall.wc15''),
     (''rct2.wallpr35'', ''rct2.scenery_wall.wallpr35''),
     (''rct2.wmww'', ''rct2.scenery_wall.wmww''),
     (''rct2.wallsk32'', ''rct2.scenery_wall.wallsk32''),
     (''rct2.wc16'', ''rct2.scenery_wall.wc16''),
     (''rct2.wallcb32'', ''rct2.scenery_wall.wallcb32''),
     (''rct2.wallig16'', ''rct2.scenery_wall.wallig16''),
     (''rct2.wbr1'', ''rct2.scenery_wall.wbr1''),
     (''rct2.littersp'', ''rct2.footpath_item.littersp''),
     (''rct2.litterww'', ''rct2.footpath_item.litterww'')]"

definition oldObjectIds_6 :: "(string \<times> string) list" where
  "oldObjectIds_6 = [(''rct2.jumpsnw1'', ''rct2.footpath_item.jumpsnw1''),
     (''rct2.benchspc'', ''rct2.footpath_item.benchspc''),
     (''rct2.lamppir'', ''rct2.footpath_item.lamppir''),
     (''rct2.benchpl'', ''rct2.footpath_item.benchpl''),
     (''rct2.bench1'', ''rct2.footpath_item.bench1''),
     (''rct2.lampdsy'', ''rct2.footpath_item.lampdsy''),
     (''rct2.qtv1'', ''rct2.footpath_item.qtv1''),
     (''rct2.benchlog'', ''rct2.footpath_item.benchlog''),
     (''rct2.lamp3'', ''rct2.footpath_item.lamp3''),
     (''rct2.jumpfnt1'', ''rct2.footpath_item.jumpfnt1''),
     (''rct2.lamp1'', ''rct2.footpath_item.lamp1''),
     (''rct2.litter1'', ''rct2.footpath_item.litter1''),
     (''rct2.benchstn'', ''rct2.footpath_item.benchstn''),
     (''rct2.littermn'', ''rct2.footpath_item.littermn''),
     (''rct2.lamp4'', ''rct2.footpath_item.lamp4''),
     (''rct2.lamp2'', ''rct2.footpath_item.lamp2''),
     (''rct2.railings.bamboobrown'', ''rct2.footpath_railings.bamboo_brown''),
     (''rct2.railings.space'', ''rct2.footpath_railings.space''),
     (''rct2.railings.bambooblack'', ''rct2.footpath_railings.bamboo_black''),
     (''rct2.railings.wood'', ''rct2.footpath_railings.wood''),
     (''rct2.railings.concretegreen'', ''rct2.footpath_railings.concrete_green''),
     (''rct2.railings.concrete'', ''rct2.footpath_railings.concrete''),
     (''rct2.rckc'', ''rct2.ride.rckc''),
     (''rct2.hchoc'', ''rct2.ride.hchoc''),
     (''rct2.vekst'', ''rct2.ride.vekst''),
     (''rct2.c3d'', ''rct2.ride.c3d''),
     (''rct2.obs1'', ''rct2.ride.obs1''),
     (''rct2.truck1'', ''rct2.ride.truck1''),
     (''rct2.arrsw1'', ''rct2.ride.arrsw1''),
     (''rct2.dough'', ''rct2.ride.dough''),
     (''rct2.faid1'', ''rct2.ride.faid1''),
     (''rct2.infok'', ''rct2.ride.infok''),
     (''rct2.vekdv'', ''rct2.ride.vekdv''),
     (''rct2.revcar'', ''rct2.ride.revcar''),
     (''rct2.smono'', ''rct2.ride.smono''),
     (''rct2.gdrop1'', ''rct2.ride.gdrop1''),
     (''rct2.tram1'', ''rct2.ride.tram1''),
     (''rct2.coffs'', ''rct2.ride.coffs''),
     (''rct2.bmsu'', ''rct2.ride.bmsu''),
     (''rct2.substl'', ''rct2.ride.substl''),
     (''rct2.steep2'', ''rct2.ride.steep2''),
     (''rct2.icetst'', ''rct2.ride.icetst''),
     (''rct2.intst'', ''rct2.ride.intst''),
     (''rct2.fsauc'', ''rct2.ride.fsauc''),
     (''rct2.aml1'', ''rct2.ride.aml1''),
     (''rct2.souvs'', ''rct2.ride.souvs''),
     (''rct2.rapboat'', ''rct2.ride.rapboat''),
     (''rct2.nrl2'', ''rct2.ride.nrl2''),
     (''rct2.bmsd'', ''rct2.ride.bmsd''),
     (''rct2.icecr2'', ''rct2.ride.icecr2''),
     (''rct2.wonton'', ''rct2.ride.wonton''),
     (''rct2.bnoodles'', ''rct2.ride.bnoodles''),
     (''rct2.obs2'', ''rct2.ride.obs2''),
     (''rct2.atm1'', ''rct2.ride.atm1''),
     (''rct2.ctcar'', ''rct2.ride.ctcar''),
     (''rct2.topsp1'', ''rct2.ride.topsp1''),
     (''rct2.tlt1'', ''rct2.ride.tlt1''),
     (''rct2.sungst'', ''rct2.ride.sungst''),
     (''rct2.4x4'', ''rct2.ride.4x4''),
     (''rct2.pmt1'', ''rct2.ride.pmt1''),
     (''rct2.toffs'', ''rct2.ride.toffs''),
     (''rct2.steep1'', ''rct2.ride.steep1''),
     (''rct2.soybean'', ''rct2.ride.soybean''),
     (''rct2.zldb'', ''rct2.ride.zldb''),
     (''rct2.ding1'', ''rct2.ride.ding1''),
     (''rct2.smc1'', ''rct2.ride.smc1''),
     (''rct2.funcake'', ''rct2.ride.funcake''),
     (''rct2.skytr'', ''rct2.ride.skytr''),
     (''rct2.cndyf'', ''rct2.ride.cndyf''),
     (''rct2.bmrb'', ''rct2.ride.bmrb''),
     (''rct2.goltr'', ''rct2.ride.goltr''),
     (''rct2.simpod'', ''rct2.ride.simpod''),
     (''rct2.amt1'', ''rct2.ride.amt1''),
     (''rct2.bmfl'', ''rct2.ride.bmfl''),
     (''rct2.premt1'', ''rct2.ride.premt1''),
     (''rct2.togst'', ''rct2.ride.togst''),
     (''rct2.chcks'', ''rct2.ride.chcks''),
     (''rct2.hhbuild'', ''rct2.ride.hhbuild''),
     (''rct2.icecr1'', ''rct2.ride.icecr1''),
     (''rct2.utcar'', ''rct2.ride.utcar''),
     (''rct2.submar'', ''rct2.ride.submar''),
     (''rct2.fwh1'', ''rct2.ride.fwh1''),
     (''rct2.swans'', ''rct2.ride.swans''),
     (''rct2.bboat'', ''rct2.ride.bboat''),
     (''rct2.golf1'', ''rct2.ride.golf1''),
     (''rct2.ptct2r'', ''rct2.ride.ptct2r''),
     (''rct2.arrx'', ''rct2.ride.arrx''),
     (''rct2.slcfo'', ''rct2.ride.slcfo''),
     (''rct2.burgb'', ''rct2.ride.burgb''),
     (''rct2.hotds'', ''rct2.ride.hotds''),
     (''rct2.gtc'', ''rct2.ride.gtc''),
     (''rct2.tshrt'', ''rct2.ride.tshrt''),
     (''rct2.tlt2'', ''rct2.ride.tlt2''),
     (''rct2.scht1'', ''rct2.ride.scht1''),
     (''rct2.mgr1'', ''rct2.ride.mgr1''),
     (''rct2.swsh2'', ''rct2.ride.swsh2''),
     (''rct2.wmspin'', ''rct2.ride.wmspin''),
     (''rct2.chpsh2'', ''rct2.ride.chpsh2''),
     (''rct2.cstboat'', ''rct2.ride.cstboat''),
     (''rct2.mono1'', ''rct2.ride.mono1'')]"

definition oldObjectIds_7 :: "(string \<times> string) list" where
  "oldObjectIds_7 = [(''rct2.balln'', ''rct2.ride.balln''),
     (''rct2.vekvamp'', ''rct2.ride.vekvamp''),
     (''rct2.mft'', ''rct2.ride.mft''),
     (''rct2.hmaze'', ''rct2.ride.hmaze''),
     (''rct2.sqdst'', ''rct2.ride.sqdst''),
     (''rct2.intinv'', ''rct2.ride.intinv''),
     (''rct2.jstar1'', ''rct2.ride.jstar1''),
     (''rct2.mono3'', ''rct2.ride.mono3''),
     (''rct2.ssc1'', ''rct2.ride.ssc1''),
     (''rct2.kart1'', ''rct2.ride.kart1''),
     (''rct2.cboat'', ''rct2.ride.cboat''),
     (''rct2.cookst'', ''rct2.ride.cookst''),
     (''rct2.monbk'', ''rct2.ride.monbk''),
     (''rct2.swsh1'', ''rct2.ride.swsh1''),
     (''rct2.trike'', ''rct2.ride.trike''),
     (''rct2.rftboat'', ''rct2.ride.rftboat''),
     (''rct2.bmvd'', ''rct2.ride.bmvd''),
     (''rct2.sbox'', ''rct2.ride.sbox''),
     (''rct2.sfric1'', ''rct2.ride.sfric1''),
     (''rct2.arrt1'', ''rct2.ride.arrt1''),
     (''rct2.thcar'', ''rct2.ride.thcar''),
     (''rct2.wmouse'', ''rct2.ride.wmouse''),
     (''rct2.spboat'', ''rct2.ride.spboat''),
     (''rct2.clift2'', ''rct2.ride.clift2''),
     (''rct2.jski'', ''rct2.ride.jski''),
     (''rct2.mcarpet1'', ''rct2.ride.mcarpet1''),
     (''rct2.lfb1'', ''rct2.ride.lfb1''),
     (''rct2.ivmc1'', ''rct2.ride.ivmc1''),
     (''rct2.popcs'', ''rct2.ride.popcs''),
     (''rct2.vreel'', ''rct2.ride.vreel''),
     (''rct2.mono2'', ''rct2.ride.mono2''),
     (''rct2.twist1'', ''rct2.ride.twist1''),
     (''rct2.pretst'', ''rct2.ride.pretst''),
     (''rct2.lemst'', ''rct2.ride.lemst''),
     (''rct2.ptct2'', ''rct2.ride.ptct2''),
     (''rct2.arrt2'', ''rct2.ride.arrt2''),
     (''rct2.srings'', ''rct2.ride.srings''),
     (''rct2.nemt'', ''rct2.ride.nemt''),
     (''rct2.chknug'', ''rct2.ride.chknug''),
     (''rct2.nrl'', ''rct2.ride.nrl''),
     (''rct2.cindr'', ''rct2.ride.cindr''),
     (''rct2.rcr'', ''rct2.ride.rcr''),
     (''rct2.rsaus'', ''rct2.ride.rsaus''),
     (''rct2.frnood'', ''rct2.ride.frnood''),
     (''rct2.mbsoup'', ''rct2.ride.mbsoup''),
     (''rct2.chbuild'', ''rct2.ride.chbuild''),
     (''rct2.zlog'', ''rct2.ride.zlog''),
     (''rct2.chpsh'', ''rct2.ride.chpsh''),
     (''rct2.slct'', ''rct2.ride.slct''),
     (''rct2.lift1'', ''rct2.ride.lift1''),
     (''rct2.spcar'', ''rct2.ride.spcar''),
     (''rct2.twist2'', ''rct2.ride.twist2''),
     (''rct2.hatst'', ''rct2.ride.hatst''),
     (''rct2.ptct1'', ''rct2.ride.ptct1''),
     (''rct2.dodg1'', ''rct2.ride.dodg1''),
     (''rct2.starfrdr'', ''rct2.ride.starfrdr''),
     (''rct2.clift1'', ''rct2.ride.clift1''),
     (''rct2.wmmine'', ''rct2.ride.wmmine''),
     (''rct2.pizzs'', ''rct2.ride.pizzs''),
     (''rct2.rboat'', ''rct2.ride.rboat''),
     (''rct2.batfl'', ''rct2.ride.batfl''),
     (''rct2.hskelt'', ''rct2.ride.hskelt''),
     (''rct2.utcarr'', ''rct2.ride.utcarr''),
     (''rct2.vcr'', ''rct2.ride.vcr''),
     (''rct2.hmcar'', ''rct2.ride.hmcar''),
     (''rct2.arrsw2'', ''rct2.ride.arrsw2''),
     (''rct2.helicar'', ''rct2.ride.helicar''),
     (''rct2.wcatc'', ''rct2.ride.wcatc''),
     (''rct2.bmair'', ''rct2.ride.bmair''),
     (''rct2.circus1'', ''rct2.ride.circus1''),
     (''rct2.bob1'', ''rct2.ride.bob1''),
     (''rct2.spdrcr'', ''rct2.ride.spdrcr''),
     (''rct2.enterp'', ''rct2.ride.enterp''),
     (''rct2.revf1'', ''rct2.ride.revf1''),
     (''rct2.intbob'', ''rct2.ride.intbob''),
     (''rct2.smc2'', ''rct2.ride.smc2''),
     (''rct2.drnks'', ''rct2.ride.drnks''),
     (''rct2.pkesfh'', ''rct2.park_entrance.pkesfh''),
     (''rct2.pkent1'', ''rct2.park_entrance.pkent1''),
     (''rct2.pkemm'', ''rct2.park_entrance.pkemm''),
     (''rct2.pathsurface.queue_red'', ''rct2.footpath_surface.queue_red''),
     (''rct2.pathsurface.queue_yellow'', ''rct2.footpath_surface.queue_yellow''),
     (''rct2.pathsurface.tarmac'', ''rct2.footpath_surface.tarmac''),
     (''rct2.pathsurface.crazypaving'', ''rct2.footpath_surface.crazy_paving''),
     (''rct2.pathsurface.ash'', ''rct2.footpath_surface.ash''),
     (''rct2.pathsurface.queue_green'', ''rct2.footpath_surface.queue_green''),
     (''rct2.pathsurface.tarmac.green'', ''rct2.footpath_surface.tarmac_green''),
     (''rct2.pathsurface.queue_blue'', ''rct2.footpath_surface.queue_blue''),
     (''rct2.pathsurface.space'', ''rct2.footpath_surface.tarmac_red''),
     (''rct2.pathsurface.tarmac.brown'', ''rct2.footpath_surface.tarmac_brown''),
     (''rct2.pathsurface.dirt'', ''rct2.footpath_surface.dirt''),
     (''rct2.pathsurface.road'', ''rct2.footpath_surface.road''),
     (''rct2.surface.sandred'', ''rct2.terrain_surface.sand_red''),
     (''rct2.surface.grassclumps'', ''rct2.terrain_surface.grass_clumps''),
     (''rct2.surface.gridgreen'', ''rct2.terrain_surface.grid_green''),
     (''rct2.surface.sandbrown'', ''rct2.terrain_surface.sand_brown''),
     (''rct2.surface.gridyellow'', ''rct2.terrain_surface.grid_yellow''),
     (''rct2.surface.martian'', ''rct2.terrain_surface.martian''),
     (''rct2.surface.dirt'', ''rct2.terrain_surface.dirt''),
     (''rct2.surface.gridred'', ''rct2.terrain_surface.grid_red'')]"

definition oldObjectIds_8 :: "(string \<times> string) list" where
  "oldObjectIds_8 = [(''rct2.surface.ice'', ''rct2.terrain_surface.ice''),
     (''rct2.surface.grass'', ''rct2.terrain_surface.grass''),
     (''rct2.surface.sand'', ''rct2.terrain_surface.sand''),
     (''rct2.surface.rock'', ''rct2.terrain_surface.rock''),
     (''rct2.surface.chequerboard'', ''rct2.terrain_surface.chequerboard''),
     (''rct2.surface.gridpurple'', ''rct2.terrain_surface.grid_purple''),
     (''rct2.station.castlegrey'', ''rct2.station.castle_grey''),
     (''rct2.station.space'', ''rct2.station.space''),
     (''rct2.station.plain'', ''rct2.station.plain''),
     (''rct2.station.log'', ''rct2.station.log''),
     (''rct2.station.jungle'', ''rct2.station.jungle''),
     (''rct2.station.snow'', ''rct2.station.snow''),
     (''rct2.station.castlebrown'', ''rct2.station.castle_brown''),
     (''rct2.station.abstract'', ''rct2.station.abstract''),
     (''rct2.station.pagoda'', ''rct2.station.pagoda''),
     (''rct2.station.classical'', ''rct2.station.classical''),
     (''rct2.station.canvastent'', ''rct2.station.canvas_tent''),
     (''rct2.station.wooden'', ''rct2.station.wooden''),
     (''rct2.edge.rock'', ''rct2.terrain_edge.rock''),
     (''rct2.edge.woodred'', ''rct2.terrain_edge.wood_red''),
     (''rct2.edge.ice'', ''rct2.terrain_edge.ice''),
     (''rct2.edge.woodblack'', ''rct2.terrain_edge.wood_black''),
     (''rct2.tt.rdmet2x2'', ''rct2tt.scenery_large.rdmet2x2''),
     (''rct2.tt.travlr02'', ''rct2tt.scenery_large.travlr02''),
     (''rct2.tt.romne2x1'', ''rct2tt.scenery_large.romne2x1''),
     (''rct2.tt.jailxx17'', ''rct2tt.scenery_large.jailxx17''),
     (''rct2.tt.perdtk02'', ''rct2tt.scenery_large.perdtk02''),
     (''rct2.tt.schntent'', ''rct2tt.scenery_large.schntent''),
     (''rct2.tt.hrbwal07'', ''rct2tt.scenery_large.hrbwal07''),
     (''rct2.tt.alnstr08'', ''rct2tt.scenery_large.alnstr08''),
     (''rct2.tt.4x4volca'', ''rct2tt.scenery_large.4x4volca''),
     (''rct2.tt.futsky25'', ''rct2tt.scenery_large.futsky25''),
     (''rct2.tt.bigdrums'', ''rct2tt.scenery_large.bigdrums''),
     (''rct2.tt.ploughxx'', ''rct2tt.scenery_large.ploughxx''),
     (''rct2.tt.oldnyk20'', ''rct2tt.scenery_large.oldnyk20''),
     (''rct2.tt.hrbwal08'', ''rct2tt.scenery_large.hrbwal08''),
     (''rct2.tt.psntwl26'', ''rct2tt.scenery_large.psntwl26''),
     (''rct2.tt.romns2x2'', ''rct2tt.scenery_large.romns2x2''),
     (''rct2.tt.oldnyk27'', ''rct2tt.scenery_large.oldnyk27''),
     (''rct2.tt.ghotrod2'', ''rct2tt.scenery_large.ghotrod2''),
     (''rct2.tt.futsky20'', ''rct2tt.scenery_large.futsky20''),
     (''rct2.tt.majoroak'', ''rct2tt.scenery_large.majoroak''),
     (''rct2.tt.artdec25'', ''rct2tt.scenery_large.artdec25''),
     (''rct2.tt.jailxx18'', ''rct2tt.scenery_large.jailxx18''),
     (''rct2.tt.futsky26'', ''rct2tt.scenery_large.futsky26''),
     (''rct2.tt.futsky22'', ''rct2tt.scenery_large.futsky22''),
     (''rct2.tt.oldnyk32'', ''rct2tt.scenery_large.oldnyk32''),
     (''rct2.tt.peasthut'', ''rct2tt.scenery_large.peasthut''),
     (''rct2.tt.histfix2'', ''rct2tt.scenery_large.histfix2''),
     (''rct2.tt.artdec27'', ''rct2tt.scenery_large.artdec27''),
     (''rct2.tt.strgs2x2'', ''rct2tt.scenery_large.strgs2x2''),
     (''rct2.tt.forbidft'', ''rct2tt.scenery_large.forbidft''),
     (''rct2.tt.histfix1'', ''rct2tt.scenery_large.histfix1''),
     (''rct2.tt.mcastl13'', ''rct2tt.scenery_large.mcastl13''),
     (''rct2.tt.futsky31'', ''rct2tt.scenery_large.futsky31''),
     (''rct2.tt.footprnt'', ''rct2tt.scenery_large.footprnt''),
     (''rct2.tt.hrbwal09'', ''rct2tt.scenery_large.hrbwal09''),
     (''rct2.tt.mcastl11'', ''rct2tt.scenery_large.mcastl11''),
     (''rct2.tt.oldnyk30'', ''rct2tt.scenery_large.oldnyk30''),
     (''rct2.tt.caventra'', ''rct2tt.scenery_large.caventra''),
     (''rct2.tt.4x4diner'', ''rct2tt.scenery_large.4x4diner''),
     (''rct2.tt.futsky24'', ''rct2tt.scenery_large.futsky24''),
     (''rct2.tt.metoan01'', ''rct2tt.scenery_large.metoan01''),
     (''rct2.tt.perdtk01'', ''rct2tt.scenery_large.perdtk01''),
     (''rct2.tt.artdec26'', ''rct2tt.scenery_large.artdec26''),
     (''rct2.tt.romvc2x2'', ''rct2tt.scenery_large.romvc2x2''),
     (''rct2.tt.alnstr09'', ''rct2tt.scenery_large.alnstr09''),
     (''rct2.tt.mcastl17'', ''rct2tt.scenery_large.mcastl17''),
     (''rct2.tt.strvs2x2'', ''rct2tt.scenery_large.strvs2x2''),
     (''rct2.tt.romnm2x2'', ''rct2tt.scenery_large.romnm2x2''),
     (''rct2.tt.gbeetlex'', ''rct2tt.scenery_large.gbeetlex''),
     (''rct2.tt.gschlbus'', ''rct2tt.scenery_large.gschlbus''),
     (''rct2.tt.schnpits'', ''rct2tt.scenery_large.schnpits''),
     (''rct2.tt.shipm4x4'', ''rct2tt.scenery_large.shipm4x4''),
     (''rct2.tt.romve2x1'', ''rct2tt.scenery_large.romve2x1''),
     (''rct2.tt.rdmet4x4'', ''rct2tt.scenery_large.rdmet4x4''),
     (''rct2.tt.psntwl28'', ''rct2tt.scenery_large.psntwl28''),
     (''rct2.tt.futsky30'', ''rct2tt.scenery_large.futsky30''),
     (''rct2.tt.rdmeto02'', ''rct2tt.scenery_large.rdmeto02''),
     (''rct2.tt.jetplan1'', ''rct2tt.scenery_large.jetplan1''),
     (''rct2.tt.oldnyk24'', ''rct2tt.scenery_large.oldnyk24''),
     (''rct2.tt.futsky32'', ''rct2tt.scenery_large.futsky32''),
     (''rct2.tt.peramob2'', ''rct2tt.scenery_large.peramob2''),
     (''rct2.tt.metoan02'', ''rct2tt.scenery_large.metoan02''),
     (''rct2.tt.prdyacht'', ''rct2tt.scenery_large.prdyacht''),
     (''rct2.tt.mcastl14'', ''rct2tt.scenery_large.mcastl14''),
     (''rct2.tt.mcastl12'', ''rct2tt.scenery_large.mcastl12''),
     (''rct2.tt.corns2x2'', ''rct2tt.scenery_large.corns2x2''),
     (''rct2.tt.psntwl27'', ''rct2tt.scenery_large.psntwl27''),
     (''rct2.tt.hadesxxx'', ''rct2tt.scenery_large.hadesxxx''),
     (''rct2.tt.corvs2x2'', ''rct2tt.scenery_large.corvs2x2''),
     (''rct2.tt.mcastl16'', ''rct2tt.scenery_large.mcastl16''),
     (''rct2.tt.alnstr10'', ''rct2tt.scenery_large.alnstr10''),
     (''rct2.tt.ashnymph'', ''rct2tt.scenery_large.ashnymph''),
     (''rct2.tt.schnpit2'', ''rct2tt.scenery_large.schnpit2''),
     (''rct2.tt.futsky28'', ''rct2tt.scenery_large.futsky28''),
     (''rct2.tt.cyclopss'', ''rct2tt.scenery_large.cyclopss''),
     (''rct2.tt.4x4stnhn'', ''rct2tt.scenery_large.4x4stnhn''),
     (''rct2.tt.feastabl'', ''rct2tt.scenery_large.feastabl''),
     (''rct2.tt.oldnyk26'', ''rct2tt.scenery_large.oldnyk26'')]"

definition oldObjectIds_9 :: "(string \<times> string) list" where
  "oldObjectIds_9 = [(''rct2.tt.oldnyk22'', ''rct2tt.scenery_large.oldnyk22''),
     (''rct2.tt.tavernxx'', ''rct2tt.scenery_large.tavernxx''),
     (''rct2.tt.mcastl15'', ''rct2tt.scenery_large.mcastl15''),
     (''rct2.tt.mcastl18'', ''rct2tt.scenery_large.mcastl18''),
     (''rct2.tt.crsss2x2'', ''rct2tt.scenery_large.crsss2x2''),
     (''rct2.tt.oldnyk28'', ''rct2tt.scenery_large.oldnyk28''),
     (''rct2.tt.hodshut2'', ''rct2tt.scenery_large.hodshut2''),
     (''rct2.tt.romvm2x2'', ''rct2tt.scenery_large.romvm2x2''),
     (''rct2.tt.travlr01'', ''rct2tt.scenery_large.travlr01''),
     (''rct2.tt.hrbwal11'', ''rct2tt.scenery_large.hrbwal11''),
     (''rct2.tt.rdmeto01'', ''rct2tt.scenery_large.rdmeto01''),
     (''rct2.tt.oldnyk25'', ''rct2tt.scenery_large.oldnyk25''),
     (''rct2.tt.jetplan2'', ''rct2tt.scenery_large.jetplan2''),
     (''rct2.tt.alencrsh'', ''rct2tt.scenery_large.alencrsh''),
     (''rct2.tt.cratr2x2'', ''rct2tt.scenery_large.cratr2x2''),
     (''rct2.tt.romnc2x2'', ''rct2tt.scenery_large.romnc2x2''),
     (''rct2.tt.hodshut1'', ''rct2tt.scenery_large.hodshut1''),
     (''rct2.tt.romvs2x2'', ''rct2tt.scenery_large.romvs2x2''),
     (''rct2.tt.jetplan3'', ''rct2tt.scenery_large.jetplan3''),
     (''rct2.tt.1950scar'', ''rct2tt.scenery_large.1950scar''),
     (''rct2.tt.oldnyk29'', ''rct2tt.scenery_large.oldnyk29''),
     (''rct2.tt.ghotrod1'', ''rct2tt.scenery_large.ghotrod1''),
     (''rct2.tt.peramob1'', ''rct2tt.scenery_large.peramob1''),
     (''rct2.tt.mcastl01'', ''rct2tt.scenery_large.mcastl01''),
     (''rct2.tt.robncamp'', ''rct2tt.scenery_large.robncamp''),
     (''rct2.tt.shipb4x4'', ''rct2tt.scenery_large.shipb4x4''),
     (''rct2.tt.oldnyk23'', ''rct2tt.scenery_large.oldnyk23''),
     (''rct2.tt.4x4gmant'', ''rct2tt.scenery_large.4x4gmant''),
     (''rct2.tt.bandbusx'', ''rct2tt.scenery_large.bandbusx''),
     (''rct2.tt.alnstr11'', ''rct2tt.scenery_large.alnstr11''),
     (''rct2.tt.ships4x4'', ''rct2tt.scenery_large.ships4x4''),
     (''rct2.tt.oldnyk21'', ''rct2tt.scenery_large.oldnyk21''),
     (''rct2.tt.4x4trpit'', ''rct2tt.scenery_large.4x4trpit''),
     (''rct2.tt.cratr4x4'', ''rct2tt.scenery_large.cratr4x4''),
     (''rct2.tt.melmtree'', ''rct2tt.scenery_large.melmtree''),
     (''rct2.tt.crsvs2x2'', ''rct2tt.scenery_large.crsvs2x2''),
     (''rct2.tt.scg1960s'', ''rct2tt.scenery_group.scg1960s''),
     (''rct2.tt.scgfutur'', ''rct2tt.scenery_group.scgfutur''),
     (''rct2.tt.scgmytho'', ''rct2tt.scenery_group.scgmytho''),
     (''rct2.tt.scg1920s'', ''rct2tt.scenery_group.scg1920s''),
     (''rct2.tt.scg1920w'', ''rct2tt.scenery_group.scg1920w''),
     (''rct2.tt.scgmediv'', ''rct2tt.scenery_group.scgmediv''),
     (''rct2.tt.scgjurra'', ''rct2tt.scenery_group.scgjurra''),
     (''rct2.tt.waveking'', ''rct2tt.scenery_small.waveking''),
     (''rct2.tt.shwdfrst'', ''rct2tt.scenery_small.shwdfrst''),
     (''rct2.tt.psntwl13'', ''rct2tt.scenery_small.psntwl13''),
     (''rct2.tt.hevbth09'', ''rct2tt.scenery_small.hevbth09''),
     (''rct2.tt.medtools'', ''rct2tt.scenery_small.medtools''),
     (''rct2.tt.compeyex'', ''rct2tt.scenery_small.compeyex''),
     (''rct2.tt.evalien3'', ''rct2tt.scenery_small.evalien3''),
     (''rct2.tt.psntwl10'', ''rct2tt.scenery_small.psntwl10''),
     (''rct2.tt.hrbwal04'', ''rct2tt.scenery_small.hrbwal04''),
     (''rct2.tt.runway06'', ''rct2tt.scenery_small.runway06''),
     (''rct2.tt.elecfen4'', ''rct2tt.scenery_small.elecfen4''),
     (''rct2.tt.primst01'', ''rct2tt.scenery_small.primst01''),
     (''rct2.tt.hevrof02'', ''rct2tt.scenery_small.hevrof02''),
     (''rct2.tt.dkfight1'', ''rct2tt.scenery_small.dkfight1''),
     (''rct2.tt.oldnyk07'', ''rct2tt.scenery_small.oldnyk07''),
     (''rct2.tt.swamplt4'', ''rct2tt.scenery_small.swamplt4''),
     (''rct2.tt.hovrcar4'', ''rct2tt.scenery_small.hovrcar4''),
     (''rct2.tt.spiktail'', ''rct2tt.scenery_small.spiktail''),
     (''rct2.tt.laserx01'', ''rct2tt.scenery_small.laserx01''),
     (''rct2.tt.stgband1'', ''rct2tt.scenery_small.stgband1''),
     (''rct2.tt.pdflag03'', ''rct2tt.scenery_small.pdflag03''),
     (''rct2.tt.futsky21'', ''rct2tt.scenery_small.futsky21''),
     (''rct2.tt.artdec01'', ''rct2tt.scenery_small.artdec01''),
     (''rct2.tt.horsecrt'', ''rct2tt.scenery_small.horsecrt''),
     (''rct2.tt.spcshp01'', ''rct2tt.scenery_small.spcshp01''),
     (''rct2.tt.gldchest'', ''rct2tt.scenery_small.gldchest''),
     (''rct2.tt.cavemenx'', ''rct2tt.scenery_small.cavemenx''),
     (''rct2.tt.dkfight2'', ''rct2tt.scenery_small.dkfight2''),
     (''rct2.tt.stnesta4'', ''rct2tt.scenery_small.stnesta4''),
     (''rct2.tt.dinsign2'', ''rct2tt.scenery_small.dinsign2''),
     (''rct2.tt.oldnyk19'', ''rct2tt.scenery_small.oldnyk19''),
     (''rct2.tt.argonau2'', ''rct2tt.scenery_small.argonau2''),
     (''rct2.tt.bigbassx'', ''rct2tt.scenery_small.bigbassx''),
     (''rct2.tt.artdec10'', ''rct2tt.scenery_small.artdec10''),
     (''rct2.tt.runway04'', ''rct2tt.scenery_small.runway04''),
     (''rct2.tt.valkri01'', ''rct2tt.scenery_small.valkri01''),
     (''rct2.tt.futsky39'', ''rct2tt.scenery_small.futsky39''),
     (''rct2.tt.artdec14'', ''rct2tt.scenery_small.artdec14''),
     (''rct2.tt.fwrprdc1'', ''rct2tt.scenery_small.fwrprdc1''),
     (''rct2.tt.skeleto3'', ''rct2tt.scenery_small.skeleto3''),
     (''rct2.tt.artdec12'', ''rct2tt.scenery_small.artdec12''),
     (''rct2.tt.alnstr06'', ''rct2tt.scenery_small.alnstr06''),
     (''rct2.tt.jailxx20'', ''rct2tt.scenery_small.jailxx20''),
     (''rct2.tt.indwal12'', ''rct2tt.scenery_small.indwal12''),
     (''rct2.tt.speakr01'', ''rct2tt.scenery_small.speakr01''),
     (''rct2.tt.futsky42'', ''rct2tt.scenery_small.futsky42''),
     (''rct2.tt.mcastl04'', ''rct2tt.scenery_small.mcastl04''),
     (''rct2.tt.jailxx21'', ''rct2tt.scenery_small.jailxx21''),
     (''rct2.tt.futsky33'', ''rct2tt.scenery_small.futsky33''),
     (''rct2.tt.spcshp06'', ''rct2tt.scenery_small.spcshp06''),
     (''rct2.tt.artdec09'', ''rct2tt.scenery_small.artdec09''),
     (''rct2.tt.indwal18'', ''rct2tt.scenery_small.indwal18''),
     (''rct2.tt.artdec22'', ''rct2tt.scenery_small.artdec22''),
     (''rct2.tt.psntwl05'', ''rct2tt.scenery_small.psntwl05''),
     (''rct2.tt.hevbth03'', ''rct2tt.scenery_small.hevbth03''),
     (''rct2.tt.elecfen5'', ''rct2tt.scenery_small.elecfen5''),
     (''rct2.tt.indwal10'', ''rct2tt.scenery_small.indwal10'')]"

definition oldObjectIds_10 :: "(string \<times> string) list" where
  "oldObjectIds_10 = [(''rct2.tt.schnpl01'', ''rct2tt.scenery_small.schnpl01''),
     (''rct2.tt.hevbth15'', ''rct2tt.scenery_small.hevbth15''),
     (''rct2.tt.alenplt2'', ''rct2tt.scenery_small.alenplt2''),
     (''rct2.tt.artdec28'', ''rct2tt.scenery_small.artdec28''),
     (''rct2.tt.robnhood'', ''rct2tt.scenery_small.robnhood''),
     (''rct2.tt.alentre2'', ''rct2tt.scenery_small.alentre2''),
     (''rct2.tt.schnpl05'', ''rct2tt.scenery_small.schnpl05''),
     (''rct2.tt.futsky36'', ''rct2tt.scenery_small.futsky36''),
     (''rct2.tt.smoksk01'', ''rct2tt.scenery_small.smoksk01''),
     (''rct2.tt.primhear'', ''rct2tt.scenery_small.primhear''),
     (''rct2.tt.skeleto2'', ''rct2tt.scenery_small.skeleto2''),
     (''rct2.tt.futsky11'', ''rct2tt.scenery_small.futsky11''),
     (''rct2.tt.swrdstne'', ''rct2tt.scenery_small.swrdstne''),
     (''rct2.tt.hrbwal01'', ''rct2tt.scenery_small.hrbwal01''),
     (''rct2.tt.evalien2'', ''rct2tt.scenery_small.evalien2''),
     (''rct2.tt.indwal21'', ''rct2tt.scenery_small.indwal21''),
     (''rct2.tt.smallcpu'', ''rct2tt.scenery_small.smallcpu''),
     (''rct2.tt.rswatres'', ''rct2tt.scenery_small.rswatres''),
     (''rct2.tt.psntwl06'', ''rct2tt.scenery_small.psntwl06''),
     (''rct2.tt.primroot'', ''rct2tt.scenery_small.primroot''),
     (''rct2.tt.spcshp03'', ''rct2tt.scenery_small.spcshp03''),
     (''rct2.tt.stoolset'', ''rct2tt.scenery_small.stoolset''),
     (''rct2.tt.ggntocto'', ''rct2tt.scenery_small.ggntocto''),
     (''rct2.tt.tarpit02'', ''rct2tt.scenery_small.tarpit02''),
     (''rct2.tt.drgnattk'', ''rct2tt.scenery_small.drgnattk''),
     (''rct2.tt.futsky01'', ''rct2tt.scenery_small.futsky01''),
     (''rct2.tt.tarpit05'', ''rct2tt.scenery_small.tarpit05''),
     (''rct2.tt.jailxx13'', ''rct2tt.scenery_small.jailxx13''),
     (''rct2.tt.tarpit10'', ''rct2tt.scenery_small.tarpit10''),
     (''rct2.tt.hvrbike1'', ''rct2tt.scenery_small.hvrbike1''),
     (''rct2.tt.oldnyk33'', ''rct2tt.scenery_small.oldnyk33''),
     (''rct2.tt.metrcrs2'', ''rct2tt.scenery_small.metrcrs2''),
     (''rct2.tt.hevbth12'', ''rct2tt.scenery_small.hevbth12''),
     (''rct2.tt.swamplt5'', ''rct2tt.scenery_small.swamplt5''),
     (''rct2.tt.spcshp08'', ''rct2tt.scenery_small.spcshp08''),
     (''rct2.tt.indwal22'', ''rct2tt.scenery_small.indwal22''),
     (''rct2.tt.spcshp09'', ''rct2tt.scenery_small.spcshp09''),
     (''rct2.tt.hevbth05'', ''rct2tt.scenery_small.hevbth05''),
     (''rct2.tt.oldnyk09'', ''rct2tt.scenery_small.oldnyk09''),
     (''rct2.tt.elecfen3'', ''rct2tt.scenery_small.elecfen3''),
     (''rct2.tt.frbeacon'', ''rct2tt.scenery_small.frbeacon''),
     (''rct2.tt.strictop'', ''rct2tt.scenery_small.strictop''),
     (''rct2.tt.futsky40'', ''rct2tt.scenery_small.futsky40''),
     (''rct2.tt.swamplt6'', ''rct2tt.scenery_small.swamplt6''),
     (''rct2.tt.mamthw02'', ''rct2tt.scenery_small.mamthw02''),
     (''rct2.tt.psntwl30'', ''rct2tt.scenery_small.psntwl30''),
     (''rct2.tt.primroor'', ''rct2tt.scenery_small.primroor''),
     (''rct2.tt.spcshp07'', ''rct2tt.scenery_small.spcshp07''),
     (''rct2.tt.futsky44'', ''rct2tt.scenery_small.futsky44''),
     (''rct2.tt.jazzmbr1'', ''rct2tt.scenery_small.jazzmbr1''),
     (''rct2.tt.pdflag05'', ''rct2tt.scenery_small.pdflag05''),
     (''rct2.tt.tarpit01'', ''rct2tt.scenery_small.tarpit01''),
     (''rct2.tt.futsky17'', ''rct2tt.scenery_small.futsky17''),
     (''rct2.tt.futsky04'', ''rct2tt.scenery_small.futsky04''),
     (''rct2.tt.pdflag04'', ''rct2tt.scenery_small.pdflag04''),
     (''rct2.tt.artdec05'', ''rct2tt.scenery_small.artdec05''),
     (''rct2.tt.psntwl02'', ''rct2tt.scenery_small.psntwl02''),
     (''rct2.tt.indwal30'', ''rct2tt.scenery_small.indwal30''),
     (''rct2.tt.mcastl06'', ''rct2tt.scenery_small.mcastl06''),
     (''rct2.tt.jazzmbr2'', ''rct2tt.scenery_small.jazzmbr2''),
     (''rct2.tt.futsky48'', ''rct2tt.scenery_small.futsky48''),
     (''rct2.tt.futsky05'', ''rct2tt.scenery_small.futsky05''),
     (''rct2.tt.oldnyk13'', ''rct2tt.scenery_small.oldnyk13''),
     (''rct2.tt.psntwl31'', ''rct2tt.scenery_small.psntwl31''),
     (''rct2.tt.argonau3'', ''rct2tt.scenery_small.argonau3''),
     (''rct2.tt.psntwl07'', ''rct2tt.scenery_small.psntwl07''),
     (''rct2.tt.oldnyk16'', ''rct2tt.scenery_small.oldnyk16''),
     (''rct2.tt.haybails'', ''rct2tt.scenery_small.haybails''),
     (''rct2.tt.indwal29'', ''rct2tt.scenery_small.indwal29''),
     (''rct2.tt.clnsmen1'', ''rct2tt.scenery_small.clnsmen1''),
     (''rct2.tt.smoksk02'', ''rct2tt.scenery_small.smoksk02''),
     (''rct2.tt.oldnyk05'', ''rct2tt.scenery_small.oldnyk05''),
     (''rct2.tt.tarpit13'', ''rct2tt.scenery_small.tarpit13''),
     (''rct2.tt.mcastl05'', ''rct2tt.scenery_small.mcastl05''),
     (''rct2.tt.hevbth10'', ''rct2tt.scenery_small.hevbth10''),
     (''rct2.tt.indwal04'', ''rct2tt.scenery_small.indwal04''),
     (''rct2.tt.futsky08'', ''rct2tt.scenery_small.futsky08''),
     (''rct2.tt.futsky12'', ''rct2tt.scenery_small.futsky12''),
     (''rct2.tt.stnesta1'', ''rct2tt.scenery_small.stnesta1''),
     (''rct2.tt.mcastl19'', ''rct2tt.scenery_small.mcastl19''),
     (''rct2.tt.futsky46'', ''rct2tt.scenery_small.futsky46''),
     (''rct2.tt.chprbke2'', ''rct2tt.scenery_small.chprbke2''),
     (''rct2.tt.spcshp11'', ''rct2tt.scenery_small.spcshp11''),
     (''rct2.tt.indwal11'', ''rct2tt.scenery_small.indwal11''),
     (''rct2.tt.artdec21'', ''rct2tt.scenery_small.artdec21''),
     (''rct2.tt.alenplt1'', ''rct2tt.scenery_small.alenplt1''),
     (''rct2.tt.hevbth08'', ''rct2tt.scenery_small.hevbth08''),
     (''rct2.tt.spcshp02'', ''rct2tt.scenery_small.spcshp02''),
     (''rct2.tt.tarpit08'', ''rct2tt.scenery_small.tarpit08''),
     (''rct2.tt.jailxx11'', ''rct2tt.scenery_small.jailxx11''),
     (''rct2.tt.artdec15'', ''rct2tt.scenery_small.artdec15''),
     (''rct2.tt.psntwl08'', ''rct2tt.scenery_small.psntwl08''),
     (''rct2.tt.dinsign4'', ''rct2tt.scenery_small.dinsign4''),
     (''rct2.tt.armrswrd'', ''rct2tt.scenery_small.armrswrd''),
     (''rct2.tt.oldnyk08'', ''rct2tt.scenery_small.oldnyk08''),
     (''rct2.tt.psntwl24'', ''rct2tt.scenery_small.psntwl24''),
     (''rct2.tt.gdalien2'', ''rct2tt.scenery_small.gdalien2''),
     (''rct2.tt.hevbth13'', ''rct2tt.scenery_small.hevbth13''),
     (''rct2.tt.psntwl21'', ''rct2tt.scenery_small.psntwl21''),
     (''rct2.tt.metrcrs1'', ''rct2tt.scenery_small.metrcrs1'')]"

definition oldObjectIds_11 :: "(string \<times> string) list" where
  "oldObjectIds_11 = [(''rct2.tt.swamplt2'', ''rct2tt.scenery_small.swamplt2''),
     (''rct2.tt.futsky19'', ''rct2tt.scenery_small.futsky19''),
     (''rct2.tt.hevbth14'', ''rct2tt.scenery_small.hevbth14''),
     (''rct2.tt.jailxx06'', ''rct2tt.scenery_small.jailxx06''),
     (''rct2.tt.gdalien3'', ''rct2tt.scenery_small.gdalien3''),
     (''rct2.tt.artdec19'', ''rct2tt.scenery_small.artdec19''),
     (''rct2.tt.hurcluls'', ''rct2tt.scenery_small.hurcluls''),
     (''rct2.tt.pdflag06'', ''rct2tt.scenery_small.pdflag06''),
     (''rct2.tt.yewtreex'', ''rct2tt.scenery_small.yewtreex''),
     (''rct2.tt.furobot1'', ''rct2tt.scenery_small.furobot1''),
     (''rct2.tt.furobot2'', ''rct2tt.scenery_small.furobot2''),
     (''rct2.tt.mcastl09'', ''rct2tt.scenery_small.mcastl09''),
     (''rct2.tt.futsky35'', ''rct2tt.scenery_small.futsky35''),
     (''rct2.tt.psntwl17'', ''rct2tt.scenery_small.psntwl17''),
     (''rct2.tt.killrvin'', ''rct2tt.scenery_small.killrvin''),
     (''rct2.tt.alentre1'', ''rct2tt.scenery_small.alentre1''),
     (''rct2.tt.swamplt7'', ''rct2tt.scenery_small.swamplt7''),
     (''rct2.tt.hevbth04'', ''rct2tt.scenery_small.hevbth04''),
     (''rct2.tt.primst03'', ''rct2tt.scenery_small.primst03''),
     (''rct2.tt.jailxx02'', ''rct2tt.scenery_small.jailxx02''),
     (''rct2.tt.wepnrack'', ''rct2tt.scenery_small.wepnrack''),
     (''rct2.tt.oldnyk35'', ''rct2tt.scenery_small.oldnyk35''),
     (''rct2.tt.laserx02'', ''rct2tt.scenery_small.laserx02''),
     (''rct2.tt.psntwl11'', ''rct2tt.scenery_small.psntwl11''),
     (''rct2.tt.souptl01'', ''rct2tt.scenery_small.souptl01''),
     (''rct2.tt.futsky41'', ''rct2tt.scenery_small.futsky41''),
     (''rct2.tt.tarpit12'', ''rct2tt.scenery_small.tarpit12''),
     (''rct2.tt.artdec13'', ''rct2tt.scenery_small.artdec13''),
     (''rct2.tt.mdusasta'', ''rct2tt.scenery_small.mdusasta''),
     (''rct2.tt.psntwl23'', ''rct2tt.scenery_small.psntwl23''),
     (''rct2.tt.wiskybl2'', ''rct2tt.scenery_small.wiskybl2''),
     (''rct2.tt.indwal14'', ''rct2tt.scenery_small.indwal14''),
     (''rct2.tt.pdflag15'', ''rct2tt.scenery_small.pdflag15''),
     (''rct2.tt.primscrn'', ''rct2tt.scenery_small.primscrn''),
     (''rct2.tt.tyranrex'', ''rct2tt.scenery_small.tyranrex''),
     (''rct2.tt.gscorpo2'', ''rct2tt.scenery_small.gscorpo2''),
     (''rct2.tt.mamthw05'', ''rct2tt.scenery_small.mamthw05''),
     (''rct2.tt.spcshp12'', ''rct2tt.scenery_small.spcshp12''),
     (''rct2.tt.valkri02'', ''rct2tt.scenery_small.valkri02''),
     (''rct2.tt.tarpit06'', ''rct2tt.scenery_small.tarpit06''),
     (''rct2.tt.hrbwal02'', ''rct2tt.scenery_small.hrbwal02''),
     (''rct2.tt.psntwl04'', ''rct2tt.scenery_small.psntwl04''),
     (''rct2.tt.alnstr01'', ''rct2tt.scenery_small.alnstr01''),
     (''rct2.tt.indwal09'', ''rct2tt.scenery_small.indwal09''),
     (''rct2.tt.artdec17'', ''rct2tt.scenery_small.artdec17''),
     (''rct2.tt.indwal06'', ''rct2tt.scenery_small.indwal06''),
     (''rct2.tt.fltsign1'', ''rct2tt.scenery_small.fltsign1''),
     (''rct2.tt.hrbwal05'', ''rct2tt.scenery_small.hrbwal05''),
     (''rct2.tt.futsky03'', ''rct2tt.scenery_small.futsky03''),
     (''rct2.tt.stnesta2'', ''rct2tt.scenery_small.stnesta2''),
     (''rct2.tt.futsky18'', ''rct2tt.scenery_small.futsky18''),
     (''rct2.tt.indwal28'', ''rct2tt.scenery_small.indwal28''),
     (''rct2.tt.tarpit14'', ''rct2tt.scenery_small.tarpit14''),
     (''rct2.tt.swamplt8'', ''rct2tt.scenery_small.swamplt8''),
     (''rct2.tt.indwal17'', ''rct2tt.scenery_small.indwal17''),
     (''rct2.tt.indwal23'', ''rct2tt.scenery_small.indwal23''),
     (''rct2.tt.mcastl03'', ''rct2tt.scenery_small.mcastl03''),
     (''rct2.tt.armrhelm'', ''rct2tt.scenery_small.armrhelm''),
     (''rct2.tt.gangster'', ''rct2tt.scenery_small.gangster''),
     (''rct2.tt.tarpit03'', ''rct2tt.scenery_small.tarpit03''),
     (''rct2.tt.stgband4'', ''rct2tt.scenery_small.stgband4''),
     (''rct2.tt.schnpl03'', ''rct2tt.scenery_small.schnpl03''),
     (''rct2.tt.hrbwal06'', ''rct2tt.scenery_small.hrbwal06''),
     (''rct2.tt.whccolds'', ''rct2tt.scenery_small.whccolds''),
     (''rct2.tt.futsky52'', ''rct2tt.scenery_small.futsky52''),
     (''rct2.tt.futsky13'', ''rct2tt.scenery_small.futsky13''),
     (''rct2.tt.armrshld'', ''rct2tt.scenery_small.armrshld''),
     (''rct2.tt.artdec02'', ''rct2tt.scenery_small.artdec02''),
     (''rct2.tt.indwal08'', ''rct2tt.scenery_small.indwal08''),
     (''rct2.tt.mamthw03'', ''rct2tt.scenery_small.mamthw03''),
     (''rct2.tt.gscorpon'', ''rct2tt.scenery_small.gscorpon''),
     (''rct2.tt.futsky38'', ''rct2tt.scenery_small.futsky38''),
     (''rct2.tt.wiskybl1'', ''rct2tt.scenery_small.wiskybl1''),
     (''rct2.tt.largecpu'', ''rct2tt.scenery_small.largecpu''),
     (''rct2.tt.schnbouy'', ''rct2tt.scenery_small.schnbouy''),
     (''rct2.tt.indwal16'', ''rct2tt.scenery_small.indwal16''),
     (''rct2.tt.hevrof03'', ''rct2tt.scenery_small.hevrof03''),
     (''rct2.tt.psntwl25'', ''rct2tt.scenery_small.psntwl25''),
     (''rct2.tt.meteorst'', ''rct2tt.scenery_small.meteorst''),
     (''rct2.tt.futsky14'', ''rct2tt.scenery_small.futsky14''),
     (''rct2.tt.indwal31'', ''rct2tt.scenery_small.indwal31''),
     (''rct2.tt.spcshp05'', ''rct2tt.scenery_small.spcshp05''),
     (''rct2.tt.jailxx01'', ''rct2tt.scenery_small.jailxx01''),
     (''rct2.tt.indwal25'', ''rct2tt.scenery_small.indwal25''),
     (''rct2.tt.futsky09'', ''rct2tt.scenery_small.futsky09''),
     (''rct2.tt.primwal1'', ''rct2tt.scenery_small.primwal1''),
     (''rct2.tt.artdec11'', ''rct2tt.scenery_small.artdec11''),
     (''rct2.tt.jailxx15'', ''rct2tt.scenery_small.jailxx15''),
     (''rct2.tt.souped01'', ''rct2tt.scenery_small.souped01''),
     (''rct2.tt.indwal13'', ''rct2tt.scenery_small.indwal13''),
     (''rct2.tt.artdec18'', ''rct2tt.scenery_small.artdec18''),
     (''rct2.tt.minotaur'', ''rct2tt.scenery_small.minotaur''),
     (''rct2.tt.indwal32'', ''rct2tt.scenery_small.indwal32''),
     (''rct2.tt.stnesta3'', ''rct2tt.scenery_small.stnesta3''),
     (''rct2.tt.zeusstat'', ''rct2tt.scenery_small.zeusstat''),
     (''rct2.tt.indwal27'', ''rct2tt.scenery_small.indwal27''),
     (''rct2.tt.knfight2'', ''rct2tt.scenery_small.knfight2''),
     (''rct2.tt.schncrsh'', ''rct2tt.scenery_small.schncrsh''),
     (''rct2.tt.polwtbtn'', ''rct2tt.scenery_small.polwtbtn''),
     (''rct2.tt.ggntspid'', ''rct2tt.scenery_small.ggntspid'')]"

definition oldObjectIds_12 :: "(string \<times> string) list" where
  "oldObjectIds_12 = [(''rct2.tt.oldnyk14'', ''rct2tt.scenery_small.oldnyk14''),
     (''rct2.tt.indwal02'', ''rct2tt.scenery_small.indwal02''),
     (''rct2.tt.futsky47'', ''rct2tt.scenery_small.futsky47''),
     (''rct2.tt.soupcrn2'', ''rct2tt.scenery_small.soupcrn2''),
     (''rct2.tt.indwal20'', ''rct2tt.scenery_small.indwal20''),
     (''rct2.tt.hevbth06'', ''rct2tt.scenery_small.hevbth06''),
     (''rct2.tt.futsky02'', ''rct2tt.scenery_small.futsky02''),
     (''rct2.tt.schnbost'', ''rct2tt.scenery_small.schnbost''),
     (''rct2.tt.alnstr02'', ''rct2tt.scenery_small.alnstr02''),
     (''rct2.tt.tarpit07'', ''rct2tt.scenery_small.tarpit07''),
     (''rct2.tt.pdflag14'', ''rct2tt.scenery_small.pdflag14''),
     (''rct2.tt.1920slmp'', ''rct2tt.scenery_small.1920slmp''),
     (''rct2.tt.tarpit09'', ''rct2tt.scenery_small.tarpit09''),
     (''rct2.tt.mcastl07'', ''rct2tt.scenery_small.mcastl07''),
     (''rct2.tt.artdec06'', ''rct2tt.scenery_small.artdec06''),
     (''rct2.tt.futsky29'', ''rct2tt.scenery_small.futsky29''),
     (''rct2.tt.indwal05'', ''rct2tt.scenery_small.indwal05''),
     (''rct2.tt.pdflag08'', ''rct2tt.scenery_small.pdflag08''),
     (''rct2.tt.rdmeto04'', ''rct2tt.scenery_small.rdmeto04''),
     (''rct2.tt.wdncart2'', ''rct2tt.scenery_small.wdncart2''),
     (''rct2.tt.gdalien1'', ''rct2tt.scenery_small.gdalien1''),
     (''rct2.tt.mamthw01'', ''rct2tt.scenery_small.mamthw01''),
     (''rct2.tt.jailxx10'', ''rct2tt.scenery_small.jailxx10''),
     (''rct2.tt.jailxx16'', ''rct2tt.scenery_small.jailxx16''),
     (''rct2.tt.smoksk03'', ''rct2tt.scenery_small.smoksk03''),
     (''rct2.tt.pdflag13'', ''rct2tt.scenery_small.pdflag13''),
     (''rct2.tt.oldnyk01'', ''rct2tt.scenery_small.oldnyk01''),
     (''rct2.tt.artdec29'', ''rct2tt.scenery_small.artdec29''),
     (''rct2.tt.firemanx'', ''rct2tt.scenery_small.firemanx''),
     (''rct2.tt.cagdstat'', ''rct2tt.scenery_small.cagdstat''),
     (''rct2.tt.oldnyk04'', ''rct2tt.scenery_small.oldnyk04''),
     (''rct2.tt.jailxx05'', ''rct2tt.scenery_small.jailxx05''),
     (''rct2.tt.chanmaid'', ''rct2tt.scenery_small.chanmaid''),
     (''rct2.tt.runway02'', ''rct2tt.scenery_small.runway02''),
     (''rct2.tt.hevrof04'', ''rct2tt.scenery_small.hevrof04''),
     (''rct2.tt.indwal19'', ''rct2tt.scenery_small.indwal19''),
     (''rct2.tt.mamthw04'', ''rct2tt.scenery_small.mamthw04''),
     (''rct2.tt.stmdran1'', ''rct2tt.scenery_small.stmdran1''),
     (''rct2.tt.futsky37'', ''rct2tt.scenery_small.futsky37''),
     (''rct2.tt.psntwl01'', ''rct2tt.scenery_small.psntwl01''),
     (''rct2.tt.indwal01'', ''rct2tt.scenery_small.indwal01''),
     (''rct2.tt.oldnyk18'', ''rct2tt.scenery_small.oldnyk18''),
     (''rct2.tt.alnstr04'', ''rct2tt.scenery_small.alnstr04''),
     (''rct2.tt.schnpl04'', ''rct2tt.scenery_small.schnpl04''),
     (''rct2.tt.oldnyk17'', ''rct2tt.scenery_small.oldnyk17''),
     (''rct2.tt.hovrcar1'', ''rct2tt.scenery_small.hovrcar1''),
     (''rct2.tt.goldflec'', ''rct2tt.scenery_small.goldflec''),
     (''rct2.tt.rcknrolr'', ''rct2tt.scenery_small.rcknrolr''),
     (''rct2.tt.jailxx08'', ''rct2tt.scenery_small.jailxx08''),
     (''rct2.tt.alnstr07'', ''rct2tt.scenery_small.alnstr07''),
     (''rct2.tt.schnpl06'', ''rct2tt.scenery_small.schnpl06''),
     (''rct2.tt.artdec03'', ''rct2tt.scenery_small.artdec03''),
     (''rct2.tt.swamplt3'', ''rct2tt.scenery_small.swamplt3''),
     (''rct2.tt.jailxx14'', ''rct2tt.scenery_small.jailxx14''),
     (''rct2.tt.futsky53'', ''rct2tt.scenery_small.futsky53''),
     (''rct2.tt.hevrof01'', ''rct2tt.scenery_small.hevrof01''),
     (''rct2.tt.sdragfly'', ''rct2tt.scenery_small.sdragfly''),
     (''rct2.tt.elecfen1'', ''rct2tt.scenery_small.elecfen1''),
     (''rct2.tt.knfight1'', ''rct2tt.scenery_small.knfight1''),
     (''rct2.tt.guyqwifx'', ''rct2tt.scenery_small.guyqwifx''),
     (''rct2.tt.psntwl20'', ''rct2tt.scenery_small.psntwl20''),
     (''rct2.tt.schntnny'', ''rct2tt.scenery_small.schntnny''),
     (''rct2.tt.oldnyk02'', ''rct2tt.scenery_small.oldnyk02''),
     (''rct2.tt.futsky10'', ''rct2tt.scenery_small.futsky10''),
     (''rct2.tt.rdmeto03'', ''rct2tt.scenery_small.rdmeto03''),
     (''rct2.tt.indwal26'', ''rct2tt.scenery_small.indwal26''),
     (''rct2.tt.psntwl12'', ''rct2tt.scenery_small.psntwl12''),
     (''rct2.tt.bolpot01'', ''rct2tt.scenery_small.bolpot01''),
     (''rct2.tt.biggutar'', ''rct2tt.scenery_small.biggutar''),
     (''rct2.tt.fltsign2'', ''rct2tt.scenery_small.fltsign2''),
     (''rct2.tt.artdec04'', ''rct2tt.scenery_small.artdec04''),
     (''rct2.tt.armrbody'', ''rct2tt.scenery_small.armrbody''),
     (''rct2.tt.souptl02'', ''rct2tt.scenery_small.souptl02''),
     (''rct2.tt.spcshp10'', ''rct2tt.scenery_small.spcshp10''),
     (''rct2.tt.futsky15'', ''rct2tt.scenery_small.futsky15''),
     (''rct2.tt.futsky54'', ''rct2tt.scenery_small.futsky54''),
     (''rct2.tt.soupcrnr'', ''rct2tt.scenery_small.soupcrnr''),
     (''rct2.tt.dinsign1'', ''rct2tt.scenery_small.dinsign1''),
     (''rct2.tt.volcvent'', ''rct2tt.scenery_small.volcvent''),
     (''rct2.tt.schnpl02'', ''rct2tt.scenery_small.schnpl02''),
     (''rct2.tt.futsky23'', ''rct2tt.scenery_small.futsky23''),
     (''rct2.tt.psntwl14'', ''rct2tt.scenery_small.psntwl14''),
     (''rct2.tt.astrongt'', ''rct2tt.scenery_small.astrongt''),
     (''rct2.tt.spterdac'', ''rct2tt.scenery_small.spterdac''),
     (''rct2.tt.futsky34'', ''rct2tt.scenery_small.futsky34''),
     (''rct2.tt.hovrcar2'', ''rct2tt.scenery_small.hovrcar2''),
     (''rct2.tt.alnstr03'', ''rct2tt.scenery_small.alnstr03''),
     (''rct2.tt.primhead'', ''rct2tt.scenery_small.primhead''),
     (''rct2.tt.futsky16'', ''rct2tt.scenery_small.futsky16''),
     (''rct2.tt.spcshp04'', ''rct2tt.scenery_small.spcshp04''),
     (''rct2.tt.jazzmbr3'', ''rct2tt.scenery_small.jazzmbr3''),
     (''rct2.tt.psntwl16'', ''rct2tt.scenery_small.psntwl16''),
     (''rct2.tt.mamthw06'', ''rct2tt.scenery_small.mamthw06''),
     (''rct2.tt.oldnyk15'', ''rct2tt.scenery_small.oldnyk15''),
     (''rct2.tt.tarpit04'', ''rct2tt.scenery_small.tarpit04''),
     (''rct2.tt.chprbke1'', ''rct2tt.scenery_small.chprbke1''),
     (''rct2.tt.indwal07'', ''rct2tt.scenery_small.indwal07''),
     (''rct2.tt.allseeye'', ''rct2tt.scenery_small.allseeye''),
     (''rct2.tt.artdec20'', ''rct2tt.scenery_small.artdec20''),
     (''rct2.tt.oldnyk34'', ''rct2tt.scenery_small.oldnyk34'')]"

definition oldObjectIds_13 :: "(string \<times> string) list" where
  "oldObjectIds_13 = [(''rct2.tt.argonau1'', ''rct2tt.scenery_small.argonau1''),
     (''rct2.tt.oldnyk11'', ''rct2tt.scenery_small.oldnyk11''),
     (''rct2.tt.indwal15'', ''rct2tt.scenery_small.indwal15''),
     (''rct2.tt.evalien1'', ''rct2tt.scenery_small.evalien1''),
     (''rct2.tt.tarpit11'', ''rct2tt.scenery_small.tarpit11''),
     (''rct2.tt.speakr02'', ''rct2tt.scenery_small.speakr02''),
     (''rct2.tt.runway05'', ''rct2tt.scenery_small.runway05''),
     (''rct2.tt.skeleto1'', ''rct2tt.scenery_small.skeleto1''),
     (''rct2.tt.pdflag16'', ''rct2tt.scenery_small.pdflag16''),
     (''rct2.tt.mcastl10'', ''rct2tt.scenery_small.mcastl10''),
     (''rct2.tt.cookspit'', ''rct2tt.scenery_small.cookspit''),
     (''rct2.tt.primst02'', ''rct2tt.scenery_small.primst02''),
     (''rct2.tt.jailxx03'', ''rct2tt.scenery_small.jailxx03''),
     (''rct2.tt.artdec07'', ''rct2tt.scenery_small.artdec07''),
     (''rct2.tt.geyserxx'', ''rct2tt.scenery_small.geyserxx''),
     (''rct2.tt.spacrang'', ''rct2tt.scenery_small.spacrang''),
     (''rct2.tt.hevbth11'', ''rct2tt.scenery_small.hevbth11''),
     (''rct2.tt.runway01'', ''rct2tt.scenery_small.runway01''),
     (''rct2.tt.jailxx12'', ''rct2tt.scenery_small.jailxx12''),
     (''rct2.tt.runway03'', ''rct2tt.scenery_small.runway03''),
     (''rct2.tt.hevbth16'', ''rct2tt.scenery_small.hevbth16''),
     (''rct2.tt.jazzmbr4'', ''rct2tt.scenery_small.jazzmbr4''),
     (''rct2.tt.stgband2'', ''rct2tt.scenery_small.stgband2''),
     (''rct2.tt.oldnyk03'', ''rct2tt.scenery_small.oldnyk03''),
     (''rct2.tt.oldnyk12'', ''rct2tt.scenery_small.oldnyk12''),
     (''rct2.tt.meteorcr'', ''rct2tt.scenery_small.meteorcr''),
     (''rct2.tt.indwal24'', ''rct2tt.scenery_small.indwal24''),
     (''rct2.tt.dinsign3'', ''rct2tt.scenery_small.dinsign3''),
     (''rct2.tt.futsky07'', ''rct2tt.scenery_small.futsky07''),
     (''rct2.tt.swamplt1'', ''rct2tt.scenery_small.swamplt1''),
     (''rct2.tt.psntwl29'', ''rct2tt.scenery_small.psntwl29''),
     (''rct2.tt.hrbwal03'', ''rct2tt.scenery_small.hrbwal03''),
     (''rct2.tt.swamplt9'', ''rct2tt.scenery_small.swamplt9''),
     (''rct2.tt.artdec24'', ''rct2tt.scenery_small.artdec24''),
     (''rct2.tt.schndrum'', ''rct2tt.scenery_small.schndrum''),
     (''rct2.tt.indwal03'', ''rct2tt.scenery_small.indwal03''),
     (''rct2.tt.mdbucket'', ''rct2tt.scenery_small.mdbucket''),
     (''rct2.tt.jailxx04'', ''rct2tt.scenery_small.jailxx04''),
     (''rct2.tt.souped02'', ''rct2tt.scenery_small.souped02''),
     (''rct2.tt.psntwl15'', ''rct2tt.scenery_small.psntwl15''),
     (''rct2.tt.hvrbike3'', ''rct2tt.scenery_small.hvrbike3''),
     (''rct2.tt.hevbth17'', ''rct2tt.scenery_small.hevbth17''),
     (''rct2.tt.artdec16'', ''rct2tt.scenery_small.artdec16''),
     (''rct2.tt.futsky06'', ''rct2tt.scenery_small.futsky06''),
     (''rct2.tt.artdec23'', ''rct2tt.scenery_small.artdec23''),
     (''rct2.tt.titansta'', ''rct2tt.scenery_small.titansta''),
     (''rct2.tt.oldnyk31'', ''rct2tt.scenery_small.oldnyk31''),
     (''rct2.tt.hvrbike4'', ''rct2tt.scenery_small.hvrbike4''),
     (''rct2.tt.medtrget'', ''rct2tt.scenery_small.medtrget''),
     (''rct2.tt.stgband3'', ''rct2tt.scenery_small.stgband3''),
     (''rct2.tt.primtall'', ''rct2tt.scenery_small.primtall''),
     (''rct2.tt.jailxx09'', ''rct2tt.scenery_small.jailxx09''),
     (''rct2.tt.hovrcar3'', ''rct2tt.scenery_small.hovrcar3''),
     (''rct2.tt.fircanon'', ''rct2tt.scenery_small.fircanon''),
     (''rct2.tt.psntwl03'', ''rct2tt.scenery_small.psntwl03''),
     (''rct2.tt.mcastl02'', ''rct2tt.scenery_small.mcastl02''),
     (''rct2.tt.oldnyk10'', ''rct2tt.scenery_small.oldnyk10''),
     (''rct2.tt.hevbth02'', ''rct2tt.scenery_small.hevbth02''),
     (''rct2.tt.elecfen2'', ''rct2tt.scenery_small.elecfen2''),
     (''rct2.tt.jailxx07'', ''rct2tt.scenery_small.jailxx07''),
     (''rct2.tt.alnstr05'', ''rct2tt.scenery_small.alnstr05''),
     (''rct2.tt.bkrgang1'', ''rct2tt.scenery_small.bkrgang1''),
     (''rct2.tt.medstool'', ''rct2tt.scenery_small.medstool''),
     (''rct2.tt.artdec08'', ''rct2tt.scenery_small.artdec08''),
     (''rct2.tt.psntwl09'', ''rct2tt.scenery_small.psntwl09''),
     (''rct2.tt.mcastl08'', ''rct2tt.scenery_small.mcastl08''),
     (''rct2.tt.hvrbike2'', ''rct2tt.scenery_small.hvrbike2''),
     (''rct2.tt.primwal3'', ''rct2tt.scenery_small.primwal3''),
     (''rct2.tt.pdflag02'', ''rct2tt.scenery_small.pdflag02''),
     (''rct2.tt.hevbth01'', ''rct2tt.scenery_small.hevbth01''),
     (''rct2.tt.hevbth07'', ''rct2tt.scenery_small.hevbth07''),
     (''rct2.tt.oldnyk06'', ''rct2tt.scenery_small.oldnyk06''),
     (''rct2.tt.primwal2'', ''rct2tt.scenery_small.primwal2''),
     (''rct2.tt.mspkwa01'', ''rct2tt.scenery_wall.mspkwa01''),
     (''rct2.tt.jailxx19'', ''rct2tt.scenery_wall.jailxx19''),
     (''rct2.tt.firhydrt'', ''rct2tt.footpath_item.firhydrt''),
     (''rct2.tt.medbench'', ''rct2tt.footpath_item.medbench''),
     (''rct2.tt.railings.balustrade'', ''rct2tt.footpath_railings.balustrade''),
     (''rct2.tt.railings.medieval'', ''rct2tt.footpath_railings.medieval''),
     (''rct2.tt.railings.rainbow'', ''rct2tt.footpath_railings.rainbow''),
     (''rct2.tt.railings.circuitboard'', ''rct2tt.footpath_railings.circuitboard''),
     (''rct2.tt.railings.rocky'', ''rct2tt.footpath_railings.rocky''),
     (''rct2.tt.railings.pavement'', ''rct2tt.footpath_railings.pavement''),
     (''rct2.tt.pathrailings.balustrade'', ''rct2tt.footpath_railings.balustrade''),
     (''rct2.tt.pathrailings.medieval'', ''rct2tt.footpath_railings.medieval''),
     (''rct2.tt.pathrailings.rainbow'', ''rct2tt.footpath_railings.rainbow''),
     (''rct2.tt.pathrailings.circuitboard'', ''rct2tt.footpath_railings.circuitboard''),
     (''rct2.tt.pathrailings.rocky'', ''rct2tt.footpath_railings.rocky''),
     (''rct2.tt.pathrailings.pavement'', ''rct2tt.footpath_railings.pavement''),
     (''rct2.tt.timemach'', ''rct2tt.ride.timemach''),
     (''rct2.tt.flygboat'', ''rct2tt.ride.flygboat''),
     (''rct2.tt.hoverbke'', ''rct2tt.ride.hoverbke''),
     (''rct2.tt.mgr2'', ''rct2tt.ride.mgr2''),
     (''rct2.tt.halofmrs'', ''rct2tt.ride.halofmrs''),
     (''rct2.tt.dragnfly'', ''rct2tt.ride.dragnfly''),
     (''rct2.tt.moonjuce'', ''rct2tt.ride.moonjuce''),
     (''rct2.tt.harpiesx'', ''rct2tt.ride.harpiesx''),
     (''rct2.tt.polchase'', ''rct2tt.ride.polchase''),
     (''rct2.tt.rivrstyx'', ''rct2tt.ride.rivrstyx''),
     (''rct2.tt.zeplelin'', ''rct2tt.ride.zeplelin'')]"

definition oldObjectIds_14 :: "(string \<times> string) list" where
  "oldObjectIds_14 = [(''rct2.tt.schoolbs'', ''rct2tt.ride.schoolbs''),
     (''rct2.tt.stamphrd'', ''rct2tt.ride.stamphrd''),
     (''rct2.tt.valkyrie'', ''rct2tt.ride.valkyrie''),
     (''rct2.tt.mktstal2'', ''rct2tt.ride.mktstal2''),
     (''rct2.tt.dinoeggs'', ''rct2tt.ride.dinoeggs''),
     (''rct2.tt.jetpackx'', ''rct2tt.ride.jetpackx''),
     (''rct2.tt.trebucht'', ''rct2tt.ride.trebucht''),
     (''rct2.tt.trilobte'', ''rct2tt.ride.trilobte''),
     (''rct2.tt.mktstal1'', ''rct2tt.ride.mktstal1''),
     (''rct2.tt.microbus'', ''rct2tt.ride.microbus''),
     (''rct2.tt.cyclopsx'', ''rct2tt.ride.cyclopsx''),
     (''rct2.tt.softoyst'', ''rct2tt.ride.softoyst''),
     (''rct2.tt.tricatop'', ''rct2tt.ride.tricatop''),
     (''rct2.tt.hovercar'', ''rct2tt.ride.hovercar''),
     (''rct2.tt.hovrbord'', ''rct2tt.ride.hovrbord''),
     (''rct2.tt.tommygun'', ''rct2tt.ride.tommygun''),
     (''rct2.tt.neptunex'', ''rct2tt.ride.neptunex''),
     (''rct2.tt.ganstrcr'', ''rct2tt.ride.ganstrcr''),
     (''rct2.tt.hotrodxx'', ''rct2tt.ride.hotrodxx''),
     (''rct2.tt.raptorxx'', ''rct2tt.ride.raptorxx''),
     (''rct2.tt.spokprsn'', ''rct2tt.ride.spokprsn''),
     (''rct2.tt.1960tsrt'', ''rct2tt.ride.1960tsrt''),
     (''rct2.tt.blckdeth'', ''rct2tt.ride.blckdeth''),
     (''rct2.tt.flwrpowr'', ''rct2tt.ride.flwrpowr''),
     (''rct2.tt.bmvoctps'', ''rct2tt.ride.bmvoctps''),
     (''rct2.tt.flalmace'', ''rct2tt.ride.flalmace''),
     (''rct2.tt.cavmncar'', ''rct2tt.ride.cavmncar''),
     (''rct2.tt.policecr'', ''rct2tt.ride.policecr''),
     (''rct2.tt.seaplane'', ''rct2tt.ride.seaplane''),
     (''rct2.tt.mythosea'', ''rct2tt.ride.mythosea''),
     (''rct2.tt.cerberus'', ''rct2tt.ride.cerberus''),
     (''rct2.tt.1920sand'', ''rct2tt.ride.1920sand''),
     (''rct2.tt.telepter'', ''rct2tt.ride.telepter''),
     (''rct2.tt.jetplane'', ''rct2tt.ride.jetplane''),
     (''rct2.tt.gintspdr'', ''rct2tt.ride.gintspdr''),
     (''rct2.tt.figtknit'', ''rct2tt.ride.figtknit''),
     (''rct2.tt.barnstrm'', ''rct2tt.ride.barnstrm''),
     (''rct2.tt.oakbarel'', ''rct2tt.ride.oakbarel''),
     (''rct2.tt.1920racr'', ''rct2tt.ride.1920racr''),
     (''rct2.tt.pegasusx'', ''rct2tt.ride.pegasusx''),
     (''rct2.tt.funhouse'', ''rct2tt.ride.funhouse''),
     (''rct2.tt.medisoup'', ''rct2tt.ride.medisoup''),
     (''rct2.tt.pterodac'', ''rct2tt.ride.pterodac''),
     (''rct2.tt.battrram'', ''rct2tt.ride.battrram''),
     (''rct2.tt.jousting'', ''rct2tt.ride.jousting''),
     (''rct2.tt.mythentr'', ''rct2tt.park_entrance.mythentr''),
     (''rct2.tt.futurent'', ''rct2tt.park_entrance.futurent''),
     (''rct2.tt.jurasent'', ''rct2tt.park_entrance.jurasent''),
     (''rct2.tt.gldyrent'', ''rct2tt.park_entrance.gldyrent''),
     (''rct2.tt.1920sent'', ''rct2tt.park_entrance.1920sent''),
     (''rct2.tt.medientr'', ''rct2tt.park_entrance.medientr''),
     (''rct2.tt.pathsurface.rocky'', ''rct2tt.footpath_surface.rocky''),
     (''rct2.tt.pathsurface.queue.pavement'', ''rct2tt.footpath_surface.queue_pavement''),
     (''rct2.tt.pathsurface.queue.rainbow'', ''rct2tt.footpath_surface.queue_rainbow''),
     (''rct2.tt.pathsurface.rainbow'', ''rct2tt.footpath_surface.rainbow''),
     (''rct2.tt.pathsurface.circuitboard'', ''rct2tt.footpath_surface.circuitboard''),
     (''rct2.tt.pathsurface.mosaic'', ''rct2tt.footpath_surface.mosaic''),
     (''rct2.tt.pathsurface.pavement'', ''rct2tt.footpath_surface.pavement''),
     (''rct2.tt.pathsurface.medieval'', ''rct2tt.footpath_surface.medieval''),
     (''rct2.tt.pathsurface.queue.circuitboard'', ''rct2tt.footpath_surface.queue_circuitboard''),
     (''rct2.ww.hippo01'', ''rct2ww.scenery_large.hippo01''),
     (''rct2.ww.geisha'', ''rct2ww.scenery_large.geisha''),
     (''rct2.ww.atractor'', ''rct2ww.scenery_large.atractor''),
     (''rct2.ww.easerlnd'', ''rct2ww.scenery_large.easerlnd''),
     (''rct2.ww.1x4brg01'', ''rct2ww.scenery_large.1x4brg01''),
     (''rct2.ww.gwoctur1'', ''rct2ww.scenery_large.gwoctur1''),
     (''rct2.ww.rtudor06'', ''rct2ww.scenery_large.rtudor06''),
     (''rct2.ww.3x3altre'', ''rct2ww.scenery_large.3x3altre''),
     (''rct2.ww.bigben'', ''rct2ww.scenery_large.bigben''),
     (''rct2.ww.pogodal'', ''rct2ww.scenery_large.pogodal''),
     (''rct2.ww.bigdish'', ''rct2ww.scenery_large.bigdish''),
     (''rct2.ww.rdrab01'', ''rct2ww.scenery_large.rdrab01''),
     (''rct2.ww.goodsam'', ''rct2ww.scenery_large.goodsam''),
     (''rct2.ww.mbskyr02'', ''rct2ww.scenery_large.mbskyr02''),
     (''rct2.ww.icefor02'', ''rct2ww.scenery_large.icefor02''),
     (''rct2.ww.tajmcolm'', ''rct2ww.scenery_large.tajmcolm''),
     (''rct2.ww.giraffe2'', ''rct2ww.scenery_large.giraffe2''),
     (''rct2.ww.rkreml10'', ''rct2ww.scenery_large.rkreml10''),
     (''rct2.ww.sputnik'', ''rct2ww.scenery_large.sputnik''),
     (''rct2.ww.pagodam'', ''rct2ww.scenery_large.pagodam''),
     (''rct2.ww.ovrgrwnt'', ''rct2ww.scenery_large.ovrgrwnt''),
     (''rct2.ww.sunken'', ''rct2ww.scenery_large.sunken''),
     (''rct2.ww.bamborf1'', ''rct2ww.scenery_large.bamborf1''),
     (''rct2.ww.1x2abr03'', ''rct2ww.scenery_large.1x2abr03''),
     (''rct2.ww.1x2abr01'', ''rct2ww.scenery_large.1x2abr01''),
     (''rct2.ww.3x3eucal'', ''rct2ww.scenery_large.3x3eucal''),
     (''rct2.ww.goldbuda'', ''rct2ww.scenery_large.goldbuda''),
     (''rct2.ww.lincolns'', ''rct2ww.scenery_large.lincolns''),
     (''rct2.ww.windmill'', ''rct2ww.scenery_large.windmill''),
     (''rct2.ww.helipad'', ''rct2ww.scenery_large.helipad''),
     (''rct2.ww.gdstaue2'', ''rct2ww.scenery_large.gdstaue2''),
     (''rct2.ww.3x3atre3'', ''rct2ww.scenery_large.3x3atre3''),
     (''rct2.ww.damtower'', ''rct2ww.scenery_large.damtower''),
     (''rct2.ww.spaceorb'', ''rct2ww.scenery_large.spaceorb''),
     (''rct2.ww.hippo02'', ''rct2ww.scenery_large.hippo02''),
     (''rct2.ww.eiffel'', ''rct2ww.scenery_large.eiffel''),
     (''rct2.ww.rkreml09'', ''rct2ww.scenery_large.rkreml09''),
     (''rct2.ww.1x4brg02'', ''rct2ww.scenery_large.1x4brg02''),
     (''rct2.ww.afrrhino'', ''rct2ww.scenery_large.afrrhino''),
     (''rct2.ww.giraffe1'', ''rct2ww.scenery_large.giraffe1'')]"

definition oldObjectIds_15 :: "(string \<times> string) list" where
  "oldObjectIds_15 = [(''rct2.ww.3x3mantr'', ''rct2ww.scenery_large.3x3mantr''),
     (''rct2.ww.indianst'', ''rct2ww.scenery_large.indianst''),
     (''rct2.ww.atomium'', ''rct2ww.scenery_large.atomium''),
     (''rct2.ww.tajmcbse'', ''rct2ww.scenery_large.tajmcbse''),
     (''rct2.ww.icefor01'', ''rct2ww.scenery_large.icefor01''),
     (''rct2.ww.bamborf3'', ''rct2ww.scenery_large.bamborf3''),
     (''rct2.ww.1x2lgchm'', ''rct2ww.scenery_large.1x2lgchm''),
     (''rct2.ww.circus'', ''rct2ww.scenery_large.circus''),
     (''rct2.ww.gdstaue1'', ''rct2ww.scenery_large.gdstaue1''),
     (''rct2.ww.cdragon'', ''rct2ww.scenery_large.cdragon''),
     (''rct2.ww.cowboy02'', ''rct2ww.scenery_large.cowboy02''),
     (''rct2.ww.3x3atre1'', ''rct2ww.scenery_large.3x3atre1''),
     (''rct2.ww.gwoctur2'', ''rct2ww.scenery_large.gwoctur2''),
     (''rct2.ww.1x2glama'', ''rct2ww.scenery_large.1x2glama''),
     (''rct2.ww.pagodas'', ''rct2ww.scenery_large.pagodas''),
     (''rct2.ww.1x2abr02'', ''rct2ww.scenery_large.1x2abr02''),
     (''rct2.ww.biggeosp'', ''rct2ww.scenery_large.biggeosp''),
     (''rct2.ww.evilsam'', ''rct2ww.scenery_large.evilsam''),
     (''rct2.ww.pagodatw'', ''rct2ww.scenery_large.pagodatw''),
     (''rct2.ww.mbskyr01'', ''rct2ww.scenery_large.mbskyr01''),
     (''rct2.ww.redwood'', ''rct2ww.scenery_large.redwood''),
     (''rct2.ww.soflibrt'', ''rct2ww.scenery_large.soflibrt''),
     (''rct2.ww.1x2azt01'', ''rct2ww.scenery_large.1x2azt01''),
     (''rct2.ww.rdrab03'', ''rct2ww.scenery_large.rdrab03''),
     (''rct2.ww.rdrab02'', ''rct2ww.scenery_large.rdrab02''),
     (''rct2.ww.1x4brg05'', ''rct2ww.scenery_large.1x4brg05''),
     (''rct2.ww.1x4brg04'', ''rct2ww.scenery_large.1x4brg04''),
     (''rct2.ww.radar'', ''rct2ww.scenery_large.radar''),
     (''rct2.ww.afrclion'', ''rct2ww.scenery_large.afrclion''),
     (''rct2.ww.afrzebra'', ''rct2ww.scenery_large.afrzebra''),
     (''rct2.ww.largeju1'', ''rct2ww.scenery_large.largeju1''),
     (''rct2.ww.cowboy01'', ''rct2ww.scenery_large.cowboy01''),
     (''rct2.ww.rdrab04'', ''rct2ww.scenery_large.rdrab04''),
     (''rct2.ww.50rocket'', ''rct2ww.scenery_large.50rocket''),
     (''rct2.ww.tajmdome'', ''rct2ww.scenery_large.tajmdome''),
     (''rct2.ww.fatbudda'', ''rct2ww.scenery_large.fatbudda''),
     (''rct2.ww.1x4brg03'', ''rct2ww.scenery_large.1x4brg03''),
     (''rct2.ww.shiva'', ''rct2ww.scenery_large.shiva''),
     (''rct2.ww.3x3hmsen'', ''rct2ww.scenery_large.3x3hmsen''),
     (''rct2.ww.rkreml08'', ''rct2ww.scenery_large.rkreml08''),
     (''rct2.ww.adultele'', ''rct2ww.scenery_large.adultele''),
     (''rct2.ww.3x3atre2'', ''rct2ww.scenery_large.3x3atre2''),
     (''rct2.ww.rtudor05'', ''rct2ww.scenery_large.rtudor05''),
     (''rct2.ww.tajmctop'', ''rct2ww.scenery_large.tajmctop''),
     (''rct2.ww.1x2azt02'', ''rct2ww.scenery_large.1x2azt02''),
     (''rct2.ww.bamborf2'', ''rct2ww.scenery_large.bamborf2''),
     (''rct2.ww.scgeurop'', ''rct2ww.scenery_group.scgeurop''),
     (''rct2.ww.scgaustr'', ''rct2ww.scenery_group.scgaustr''),
     (''rct2.ww.scgsamer'', ''rct2ww.scenery_group.scgsamer''),
     (''rct2.ww.scgartic'', ''rct2ww.scenery_group.scgartic''),
     (''rct2.ww.scgnamrc'', ''rct2ww.scenery_group.scgnamrc''),
     (''rct2.ww.scgafric'', ''rct2ww.scenery_group.scgafric''),
     (''rct2.ww.scgasia'', ''rct2ww.scenery_group.scgasia''),
     (''rct2.ww.1x1atree'', ''rct2ww.scenery_small.1x1atree''),
     (''rct2.ww.sbh1wgwh'', ''rct2ww.scenery_small.sbh1wgwh''),
     (''rct2.ww.1x1brang'', ''rct2ww.scenery_small.1x1brang''),
     (''rct2.ww.oriegong'', ''rct2ww.scenery_small.oriegong''),
     (''rct2.ww.sbwind07'', ''rct2ww.scenery_small.sbwind07''),
     (''rct2.ww.rdrab07'', ''rct2ww.scenery_small.rdrab07''),
     (''rct2.ww.rmud01'', ''rct2ww.scenery_small.rmud01''),
     (''rct2.ww.sbwind12'', ''rct2ww.scenery_small.sbwind12''),
     (''rct2.ww.rdrab09'', ''rct2ww.scenery_small.rdrab09''),
     (''rct2.ww.icebarl3'', ''rct2ww.scenery_small.icebarl3''),
     (''rct2.ww.sbskys17'', ''rct2ww.scenery_small.sbskys17''),
     (''rct2.ww.rcorr01'', ''rct2ww.scenery_small.rcorr01''),
     (''rct2.ww.sbh3cac2'', ''rct2ww.scenery_small.sbh3cac2''),
     (''rct2.ww.wtudor16'', ''rct2ww.scenery_small.wtudor16''),
     (''rct2.ww.waztec21'', ''rct2ww.scenery_small.waztec21''),
     (''rct2.ww.fountarc'', ''rct2ww.scenery_small.fountarc''),
     (''rct2.ww.fountrow'', ''rct2ww.scenery_small.fountrow''),
     (''rct2.ww.trckprt6'', ''rct2ww.scenery_small.trckprt6''),
     (''rct2.ww.wdrab09'', ''rct2ww.scenery_small.wdrab09''),
     (''rct2.ww.sbwind02'', ''rct2ww.scenery_small.sbwind02''),
     (''rct2.ww.sbskys03'', ''rct2ww.scenery_small.sbskys03''),
     (''rct2.ww.rdrab13'', ''rct2ww.scenery_small.rdrab13''),
     (''rct2.ww.sbwplm01'', ''rct2ww.scenery_small.sbwplm01''),
     (''rct2.ww.sbskys07'', ''rct2ww.scenery_small.sbskys07''),
     (''rct2.ww.rcorr11'', ''rct2ww.scenery_small.rcorr11''),
     (''rct2.ww.sbwind01'', ''rct2ww.scenery_small.sbwind01''),
     (''rct2.ww.wmayan08'', ''rct2ww.scenery_small.wmayan08''),
     (''rct2.ww.sbwplm04'', ''rct2ww.scenery_small.sbwplm04''),
     (''rct2.ww.icebarl1'', ''rct2ww.scenery_small.icebarl1''),
     (''rct2.ww.sbwind16'', ''rct2ww.scenery_small.sbwind16''),
     (''rct2.ww.wnauti01'', ''rct2ww.scenery_small.wnauti01''),
     (''rct2.ww.rkreml06'', ''rct2ww.scenery_small.rkreml06''),
     (''rct2.ww.sbskys15'', ''rct2ww.scenery_small.sbskys15''),
     (''rct2.ww.wcuzco24'', ''rct2ww.scenery_small.wcuzco24''),
     (''rct2.ww.inflag04'', ''rct2ww.scenery_small.inflag04''),
     (''rct2.ww.rlog04'', ''rct2ww.scenery_small.rlog04''),
     (''rct2.ww.conveyr1'', ''rct2ww.scenery_small.conveyr1''),
     (''rct2.ww.rcorr03'', ''rct2ww.scenery_small.rcorr03''),
     (''rct2.ww.waztec03'', ''rct2ww.scenery_small.waztec03''),
     (''rct2.ww.trckprt9'', ''rct2ww.scenery_small.trckprt9''),
     (''rct2.ww.wgeorg09'', ''rct2ww.scenery_small.wgeorg09''),
     (''rct2.ww.rcorr05'', ''rct2ww.scenery_small.rcorr05''),
     (''rct2.ww.rgeorg04'', ''rct2ww.scenery_small.rgeorg04''),
     (''rct2.ww.rcorr07'', ''rct2ww.scenery_small.rcorr07''),
     (''rct2.ww.bamboopl'', ''rct2ww.scenery_small.bamboopl''),
     (''rct2.ww.sbskys18'', ''rct2ww.scenery_small.sbskys18''),
     (''rct2.ww.sbskys06'', ''rct2ww.scenery_small.sbskys06'')]"

definition oldObjectIds_16 :: "(string \<times> string) list" where
  "oldObjectIds_16 = [(''rct2.ww.wkreml02'', ''rct2ww.scenery_small.wkreml02''),
     (''rct2.ww.trckprt1'', ''rct2ww.scenery_small.trckprt1''),
     (''rct2.ww.wtudor13'', ''rct2ww.scenery_small.wtudor13''),
     (''rct2.ww.rlog03'', ''rct2ww.scenery_small.rlog03''),
     (''rct2.ww.rdrab11'', ''rct2ww.scenery_small.rdrab11''),
     (''rct2.ww.sbh3oscr'', ''rct2ww.scenery_small.sbh3oscr''),
     (''rct2.ww.japsnotr'', ''rct2ww.scenery_small.japsnotr''),
     (''rct2.ww.trckprt5'', ''rct2ww.scenery_small.trckprt5''),
     (''rct2.ww.roofig06'', ''rct2ww.scenery_small.roofig06''),
     (''rct2.ww.wtudor18'', ''rct2ww.scenery_small.wtudor18''),
     (''rct2.ww.waztec18'', ''rct2ww.scenery_small.waztec18''),
     (''rct2.ww.wmayan20'', ''rct2ww.scenery_small.wmayan20''),
     (''rct2.ww.sbh3cac3'', ''rct2ww.scenery_small.sbh3cac3''),
     (''rct2.ww.sb2palm1'', ''rct2ww.scenery_small.sb2palm1''),
     (''rct2.ww.rgeorg01'', ''rct2ww.scenery_small.rgeorg01''),
     (''rct2.ww.1x1termm'', ''rct2ww.scenery_small.1x1termm''),
     (''rct2.ww.wmayan17'', ''rct2ww.scenery_small.wmayan17''),
     (''rct2.ww.sbh3rt66'', ''rct2ww.scenery_small.sbh3rt66''),
     (''rct2.ww.wcuzco09'', ''rct2ww.scenery_small.wcuzco09''),
     (''rct2.ww.bstatue1'', ''rct2ww.scenery_small.bstatue1''),
     (''rct2.ww.wcuzfoun'', ''rct2ww.scenery_small.wcuzfoun''),
     (''rct2.ww.wropeswa'', ''rct2ww.scenery_small.wropeswa''),
     (''rct2.ww.sbwplm07'', ''rct2ww.scenery_small.sbwplm07''),
     (''rct2.ww.roofice3'', ''rct2ww.scenery_small.roofice3''),
     (''rct2.ww.flamngo1'', ''rct2ww.scenery_small.flamngo1''),
     (''rct2.ww.wdrab13'', ''rct2ww.scenery_small.wdrab13''),
     (''rct2.ww.sbwplm02'', ''rct2ww.scenery_small.sbwplm02''),
     (''rct2.ww.rtudor03'', ''rct2ww.scenery_small.rtudor03''),
     (''rct2.ww.pipebase'', ''rct2ww.scenery_small.pipebase''),
     (''rct2.ww.wgeorg08'', ''rct2ww.scenery_small.wgeorg08''),
     (''rct2.ww.fishhole'', ''rct2ww.scenery_small.fishhole''),
     (''rct2.ww.wmayan12'', ''rct2ww.scenery_small.wmayan12''),
     (''rct2.ww.wcuzco18'', ''rct2ww.scenery_small.wcuzco18''),
     (''rct2.ww.rbrick02'', ''rct2ww.scenery_small.rbrick02''),
     (''rct2.ww.waborg08'', ''rct2ww.scenery_small.waborg08''),
     (''rct2.ww.rgeorg07'', ''rct2ww.scenery_small.rgeorg07''),
     (''rct2.ww.rdrab14'', ''rct2ww.scenery_small.rdrab14''),
     (''rct2.ww.wtudor17'', ''rct2ww.scenery_small.wtudor17''),
     (''rct2.ww.wmayan01'', ''rct2ww.scenery_small.wmayan01''),
     (''rct2.ww.g1dancer'', ''rct2ww.scenery_small.g1dancer''),
     (''rct2.ww.japchblo'', ''rct2ww.scenery_small.japchblo''),
     (''rct2.ww.wnauti05'', ''rct2ww.scenery_small.wnauti05''),
     (''rct2.ww.waborg02'', ''rct2ww.scenery_small.waborg02''),
     (''rct2.ww.pcg'', ''rct2ww.scenery_small.pcg''),
     (''rct2.ww.antilopf'', ''rct2ww.scenery_small.antilopf''),
     (''rct2.ww.waztec25'', ''rct2ww.scenery_small.waztec25''),
     (''rct2.ww.wcuzco23'', ''rct2ww.scenery_small.wcuzco23''),
     (''rct2.ww.sbh1tepe'', ''rct2ww.scenery_small.sbh1tepe''),
     (''rct2.ww.pst'', ''rct2ww.scenery_small.pst''),
     (''rct2.ww.trckprt4'', ''rct2ww.scenery_small.trckprt4''),
     (''rct2.ww.rgeorg10'', ''rct2ww.scenery_small.rgeorg10''),
     (''rct2.ww.wropecor'', ''rct2ww.scenery_small.wropecor''),
     (''rct2.ww.tjblock2'', ''rct2ww.scenery_small.tjblock2''),
     (''rct2.ww.wtudor15'', ''rct2ww.scenery_small.wtudor15''),
     (''rct2.ww.wmayan11'', ''rct2ww.scenery_small.wmayan11''),
     (''rct2.ww.inuit'', ''rct2ww.scenery_small.inuit''),
     (''rct2.ww.wmayan26'', ''rct2ww.scenery_small.wmayan26''),
     (''rct2.ww.wcuzco06'', ''rct2ww.scenery_small.wcuzco06''),
     (''rct2.ww.tjblock3'', ''rct2ww.scenery_small.tjblock3''),
     (''rct2.ww.waztec27'', ''rct2ww.scenery_small.waztec27''),
     (''rct2.ww.sbh3plm2'', ''rct2ww.scenery_small.sbh3plm2''),
     (''rct2.ww.wmayan09'', ''rct2ww.scenery_small.wmayan09''),
     (''rct2.ww.sbh3plm1'', ''rct2ww.scenery_small.sbh3plm1''),
     (''rct2.ww.sbwind21'', ''rct2ww.scenery_small.sbwind21''),
     (''rct2.ww.waztec10'', ''rct2ww.scenery_small.waztec10''),
     (''rct2.ww.sbh3cac1'', ''rct2ww.scenery_small.sbh3cac1''),
     (''rct2.ww.1x1kanga'', ''rct2ww.scenery_small.1x1kanga''),
     (''rct2.ww.rbrick08'', ''rct2ww.scenery_small.rbrick08''),
     (''rct2.ww.rgeorg03'', ''rct2ww.scenery_small.rgeorg03''),
     (''rct2.ww.rdrab10'', ''rct2ww.scenery_small.rdrab10''),
     (''rct2.ww.jachtree'', ''rct2ww.scenery_small.jachtree''),
     (''rct2.ww.tnt1'', ''rct2ww.scenery_small.tnt1''),
     (''rct2.ww.wmayan24'', ''rct2ww.scenery_small.wmayan24''),
     (''rct2.ww.wmayan10'', ''rct2ww.scenery_small.wmayan10''),
     (''rct2.ww.roofig03'', ''rct2ww.scenery_small.roofig03''),
     (''rct2.ww.rkreml07'', ''rct2ww.scenery_small.rkreml07''),
     (''rct2.ww.oilpump'', ''rct2ww.scenery_small.oilpump''),
     (''rct2.ww.inflag02'', ''rct2ww.scenery_small.inflag02''),
     (''rct2.ww.roofig04'', ''rct2ww.scenery_small.roofig04''),
     (''rct2.ww.waztec22'', ''rct2ww.scenery_small.waztec22''),
     (''rct2.ww.wmayan05'', ''rct2ww.scenery_small.wmayan05''),
     (''rct2.ww.jpflag06'', ''rct2ww.scenery_small.jpflag06''),
     (''rct2.ww.rgeorg05'', ''rct2ww.scenery_small.rgeorg05''),
     (''rct2.ww.rgeorg02'', ''rct2ww.scenery_small.rgeorg02''),
     (''rct2.ww.ptj'', ''rct2ww.scenery_small.ptj''),
     (''rct2.ww.sbskys10'', ''rct2ww.scenery_small.sbskys10''),
     (''rct2.ww.wcuzco21'', ''rct2ww.scenery_small.wcuzco21''),
     (''rct2.ww.trckprt2'', ''rct2ww.scenery_small.trckprt2''),
     (''rct2.ww.tnt3'', ''rct2ww.scenery_small.tnt3''),
     (''rct2.ww.rcorr09'', ''rct2ww.scenery_small.rcorr09''),
     (''rct2.ww.sbh3plm3'', ''rct2ww.scenery_small.sbh3plm3''),
     (''rct2.ww.rdrab12'', ''rct2ww.scenery_small.rdrab12''),
     (''rct2.ww.sbwplm06'', ''rct2ww.scenery_small.sbwplm06''),
     (''rct2.ww.inuit2'', ''rct2ww.scenery_small.inuit2''),
     (''rct2.ww.rcorr04'', ''rct2ww.scenery_small.rcorr04''),
     (''rct2.ww.1x1emuxx'', ''rct2ww.scenery_small.1x1emuxx''),
     (''rct2.ww.sbskys08'', ''rct2ww.scenery_small.sbskys08''),
     (''rct2.ww.waztec14'', ''rct2ww.scenery_small.waztec14''),
     (''rct2.ww.sbskys16'', ''rct2ww.scenery_small.sbskys16''),
     (''rct2.ww.ukphone'', ''rct2ww.scenery_small.ukphone'')]"

definition oldObjectIds_17 :: "(string \<times> string) list" where
  "oldObjectIds_17 = [(''rct2.ww.rdrab06'', ''rct2ww.scenery_small.rdrab06''),
     (''rct2.ww.waztec09'', ''rct2ww.scenery_small.waztec09''),
     (''rct2.ww.wcuzco17'', ''rct2ww.scenery_small.wcuzco17''),
     (''rct2.ww.jpflag05'', ''rct2ww.scenery_small.jpflag05''),
     (''rct2.ww.wmayan13'', ''rct2ww.scenery_small.wmayan13''),
     (''rct2.ww.sbwind10'', ''rct2ww.scenery_small.sbwind10''),
     (''rct2.ww.wkreml01'', ''rct2ww.scenery_small.wkreml01''),
     (''rct2.ww.waztec24'', ''rct2ww.scenery_small.waztec24''),
     (''rct2.ww.roofice5'', ''rct2ww.scenery_small.roofice5''),
     (''rct2.ww.sbwplm08'', ''rct2ww.scenery_small.sbwplm08''),
     (''rct2.ww.wmayan25'', ''rct2ww.scenery_small.wmayan25''),
     (''rct2.ww.sbwind18'', ''rct2ww.scenery_small.sbwind18''),
     (''rct2.ww.jpflag02'', ''rct2ww.scenery_small.jpflag02''),
     (''rct2.ww.wmayan22'', ''rct2ww.scenery_small.wmayan22''),
     (''rct2.ww.wnauti02'', ''rct2ww.scenery_small.wnauti02''),
     (''rct2.ww.rgeorg11'', ''rct2ww.scenery_small.rgeorg11''),
     (''rct2.ww.sbwind15'', ''rct2ww.scenery_small.sbwind15''),
     (''rct2.ww.wcuzco25'', ''rct2ww.scenery_small.wcuzco25''),
     (''rct2.ww.waztec12'', ''rct2ww.scenery_small.waztec12''),
     (''rct2.ww.wmayan18'', ''rct2ww.scenery_small.wmayan18''),
     (''rct2.ww.jappintr'', ''rct2ww.scenery_small.jappintr''),
     (''rct2.ww.sbwind06'', ''rct2ww.scenery_small.sbwind06''),
     (''rct2.ww.rmud05'', ''rct2ww.scenery_small.rmud05''),
     (''rct2.ww.waztec16'', ''rct2ww.scenery_small.waztec16''),
     (''rct2.ww.sbwind08'', ''rct2ww.scenery_small.sbwind08''),
     (''rct2.ww.sbwplm05'', ''rct2ww.scenery_small.sbwplm05''),
     (''rct2.ww.wmayan23'', ''rct2ww.scenery_small.wmayan23''),
     (''rct2.ww.bamboobs'', ''rct2ww.scenery_small.bamboobs''),
     (''rct2.ww.wcuzco11'', ''rct2ww.scenery_small.wcuzco11''),
     (''rct2.ww.waborg07'', ''rct2ww.scenery_small.waborg07''),
     (''rct2.ww.rshogi2'', ''rct2ww.scenery_small.rshogi2''),
     (''rct2.ww.rkreml02'', ''rct2ww.scenery_small.rkreml02''),
     (''rct2.ww.talllan2'', ''rct2ww.scenery_small.talllan2''),
     (''rct2.ww.wdrab10'', ''rct2ww.scenery_small.wdrab10''),
     (''rct2.ww.wcuzco07'', ''rct2ww.scenery_small.wcuzco07''),
     (''rct2.ww.sbwind17'', ''rct2ww.scenery_small.sbwind17''),
     (''rct2.ww.wmayan06'', ''rct2ww.scenery_small.wmayan06''),
     (''rct2.ww.roofice4'', ''rct2ww.scenery_small.roofice4''),
     (''rct2.ww.rkreml11'', ''rct2ww.scenery_small.rkreml11''),
     (''rct2.ww.wcuzco04'', ''rct2ww.scenery_small.wcuzco04''),
     (''rct2.ww.1x1atre2'', ''rct2ww.scenery_small.1x1atre2''),
     (''rct2.ww.sb1hspb1'', ''rct2ww.scenery_small.sb1hspb1''),
     (''rct2.ww.waborg03'', ''rct2ww.scenery_small.waborg03''),
     (''rct2.ww.sbwind09'', ''rct2ww.scenery_small.sbwind09''),
     (''rct2.ww.waztec01'', ''rct2ww.scenery_small.waztec01''),
     (''rct2.ww.waztec15'', ''rct2ww.scenery_small.waztec15''),
     (''rct2.ww.wgeorg12'', ''rct2ww.scenery_small.wgeorg12''),
     (''rct2.ww.rtudor01'', ''rct2ww.scenery_small.rtudor01''),
     (''rct2.ww.wmayan21'', ''rct2ww.scenery_small.wmayan21''),
     (''rct2.ww.wmayan03'', ''rct2ww.scenery_small.wmayan03''),
     (''rct2.ww.wcuzco03'', ''rct2ww.scenery_small.wcuzco03''),
     (''rct2.ww.sb1hspb3'', ''rct2ww.scenery_small.sb1hspb3''),
     (''rct2.ww.sbwind04'', ''rct2ww.scenery_small.sbwind04''),
     (''rct2.ww.waztec17'', ''rct2ww.scenery_small.waztec17''),
     (''rct2.ww.rdrab05'', ''rct2ww.scenery_small.rdrab05''),
     (''rct2.ww.sbskys09'', ''rct2ww.scenery_small.sbskys09''),
     (''rct2.ww.sbskys14'', ''rct2ww.scenery_small.sbskys14''),
     (''rct2.ww.babyele'', ''rct2ww.scenery_small.babyele''),
     (''rct2.ww.rshogi1'', ''rct2ww.scenery_small.rshogi1''),
     (''rct2.ww.sbh2shlt'', ''rct2ww.scenery_small.sbh2shlt''),
     (''rct2.ww.wnauti04'', ''rct2ww.scenery_small.wnauti04''),
     (''rct2.ww.wtudor14'', ''rct2ww.scenery_small.wtudor14''),
     (''rct2.ww.sbskys04'', ''rct2ww.scenery_small.sbskys04''),
     (''rct2.ww.antilopm'', ''rct2ww.scenery_small.antilopm''),
     (''rct2.ww.wmayan04'', ''rct2ww.scenery_small.wmayan04''),
     (''rct2.ww.campfani'', ''rct2ww.scenery_small.campfani''),
     (''rct2.ww.jpflag01'', ''rct2ww.scenery_small.jpflag01''),
     (''rct2.ww.conveyr4'', ''rct2ww.scenery_small.conveyr4''),
     (''rct2.ww.wcuzco19'', ''rct2ww.scenery_small.wcuzco19''),
     (''rct2.ww.sbwind13'', ''rct2ww.scenery_small.sbwind13''),
     (''rct2.ww.smallgeo'', ''rct2ww.scenery_small.smallgeo''),
     (''rct2.ww.antilopp'', ''rct2ww.scenery_small.antilopp''),
     (''rct2.ww.wdrab12'', ''rct2ww.scenery_small.wdrab12''),
     (''rct2.ww.rcorr02'', ''rct2ww.scenery_small.rcorr02''),
     (''rct2.ww.inflag03'', ''rct2ww.scenery_small.inflag03''),
     (''rct2.ww.sbwind11'', ''rct2ww.scenery_small.sbwind11''),
     (''rct2.ww.waztec13'', ''rct2ww.scenery_small.waztec13''),
     (''rct2.ww.1x1jugt3'', ''rct2ww.scenery_small.1x1jugt3''),
     (''rct2.ww.wcuzco16'', ''rct2ww.scenery_small.wcuzco16''),
     (''rct2.ww.rkreml05'', ''rct2ww.scenery_small.rkreml05''),
     (''rct2.ww.roofice2'', ''rct2ww.scenery_small.roofice2''),
     (''rct2.ww.rgeorg06'', ''rct2ww.scenery_small.rgeorg06''),
     (''rct2.ww.sbwind20'', ''rct2ww.scenery_small.sbwind20''),
     (''rct2.ww.waborg04'', ''rct2ww.scenery_small.waborg04''),
     (''rct2.ww.wcuzco10'', ''rct2ww.scenery_small.wcuzco10''),
     (''rct2.ww.wmayan14'', ''rct2ww.scenery_small.wmayan14''),
     (''rct2.ww.adpanda'', ''rct2ww.scenery_small.adpanda''),
     (''rct2.ww.rwdaub01'', ''rct2ww.scenery_small.rwdaub01''),
     (''rct2.ww.ptk'', ''rct2ww.scenery_small.ptk''),
     (''rct2.ww.roofice6'', ''rct2ww.scenery_small.roofice6''),
     (''rct2.ww.sb2sky01'', ''rct2ww.scenery_small.sb2sky01''),
     (''rct2.ww.sb1hspb2'', ''rct2ww.scenery_small.sb1hspb2''),
     (''rct2.ww.rlog01'', ''rct2ww.scenery_small.rlog01''),
     (''rct2.ww.roofig02'', ''rct2ww.scenery_small.roofig02''),
     (''rct2.ww.rkreml03'', ''rct2ww.scenery_small.rkreml03''),
     (''rct2.ww.wcuzco01'', ''rct2ww.scenery_small.wcuzco01''),
     (''rct2.ww.sbskys05'', ''rct2ww.scenery_small.sbskys05''),
     (''rct2.ww.rwdaub02'', ''rct2ww.scenery_small.rwdaub02''),
     (''rct2.ww.wgeorg07'', ''rct2ww.scenery_small.wgeorg07''),
     (''rct2.ww.rbrick03'', ''rct2ww.scenery_small.rbrick03'')]"

definition oldObjectIds_18 :: "(string \<times> string) list" where
  "oldObjectIds_18 = [(''rct2.ww.conveyr5'', ''rct2ww.scenery_small.conveyr5''),
     (''rct2.ww.rlog02'', ''rct2ww.scenery_small.rlog02''),
     (''rct2.ww.sbskys02'', ''rct2ww.scenery_small.sbskys02''),
     (''rct2.ww.rmud03'', ''rct2ww.scenery_small.rmud03''),
     (''rct2.ww.waztec20'', ''rct2ww.scenery_small.waztec20''),
     (''rct2.ww.rlog05'', ''rct2ww.scenery_small.rlog05''),
     (''rct2.ww.rbrick04'', ''rct2ww.scenery_small.rbrick04''),
     (''rct2.ww.sbskys01'', ''rct2ww.scenery_small.sbskys01''),
     (''rct2.ww.waztec11'', ''rct2ww.scenery_small.waztec11''),
     (''rct2.ww.waztec08'', ''rct2ww.scenery_small.waztec08''),
     (''rct2.ww.wcuzco12'', ''rct2ww.scenery_small.wcuzco12''),
     (''rct2.ww.rbrick07'', ''rct2ww.scenery_small.rbrick07''),
     (''rct2.ww.waborg06'', ''rct2ww.scenery_small.waborg06''),
     (''rct2.ww.wkreml04'', ''rct2ww.scenery_small.wkreml04''),
     (''rct2.ww.postbox'', ''rct2ww.scenery_small.postbox''),
     (''rct2.ww.waztec19'', ''rct2ww.scenery_small.waztec19''),
     (''rct2.ww.conveyr2'', ''rct2ww.scenery_small.conveyr2''),
     (''rct2.ww.talllan1'', ''rct2ww.scenery_small.talllan1''),
     (''rct2.ww.rbrick05'', ''rct2ww.scenery_small.rbrick05''),
     (''rct2.ww.vertpipe'', ''rct2ww.scenery_small.vertpipe''),
     (''rct2.ww.waborg01'', ''rct2ww.scenery_small.waborg01''),
     (''rct2.ww.trckprt7'', ''rct2ww.scenery_small.trckprt7''),
     (''rct2.ww.wgeorg11'', ''rct2ww.scenery_small.wgeorg11''),
     (''rct2.ww.flamngo2'', ''rct2ww.scenery_small.flamngo2''),
     (''rct2.ww.tjblock1'', ''rct2ww.scenery_small.tjblock1''),
     (''rct2.ww.sbskys13'', ''rct2ww.scenery_small.sbskys13''),
     (''rct2.ww.wmayan15'', ''rct2ww.scenery_small.wmayan15''),
     (''rct2.ww.sbskys11'', ''rct2ww.scenery_small.sbskys11''),
     (''rct2.ww.pipevent'', ''rct2ww.scenery_small.pipevent''),
     (''rct2.ww.balllant'', ''rct2ww.scenery_small.balllant''),
     (''rct2.ww.waztec04'', ''rct2ww.scenery_small.waztec04''),
     (''rct2.ww.rshogi3'', ''rct2ww.scenery_small.rshogi3''),
     (''rct2.ww.waztec06'', ''rct2ww.scenery_small.waztec06''),
     (''rct2.ww.wcuzco05'', ''rct2ww.scenery_small.wcuzco05''),
     (''rct2.ww.inflag01'', ''rct2ww.scenery_small.inflag01''),
     (''rct2.ww.roofice1'', ''rct2ww.scenery_small.roofice1''),
     (''rct2.ww.rmarble1'', ''rct2ww.scenery_small.rmarble1''),
     (''rct2.ww.rdrab08'', ''rct2ww.scenery_small.rdrab08''),
     (''rct2.ww.rkreml01'', ''rct2ww.scenery_small.rkreml01''),
     (''rct2.ww.conveyr3'', ''rct2ww.scenery_small.conveyr3''),
     (''rct2.ww.wcuzco28'', ''rct2ww.scenery_small.wcuzco28''),
     (''rct2.ww.wmayan16'', ''rct2ww.scenery_small.wmayan16''),
     (''rct2.ww.rmarble4'', ''rct2ww.scenery_small.rmarble4''),
     (''rct2.ww.wnauti03'', ''rct2ww.scenery_small.wnauti03''),
     (''rct2.ww.waztec07'', ''rct2ww.scenery_small.waztec07''),
     (''rct2.ww.rcorr10'', ''rct2ww.scenery_small.rcorr10''),
     (''rct2.ww.sbskys12'', ''rct2ww.scenery_small.sbskys12''),
     (''rct2.ww.rmud02'', ''rct2ww.scenery_small.rmud02''),
     (''rct2.ww.sbwind05'', ''rct2ww.scenery_small.sbwind05''),
     (''rct2.ww.rwdaub03'', ''rct2ww.scenery_small.rwdaub03''),
     (''rct2.ww.jpflag04'', ''rct2ww.scenery_small.jpflag04''),
     (''rct2.ww.wkreml06'', ''rct2ww.scenery_small.wkreml06''),
     (''rct2.ww.rkreml04'', ''rct2ww.scenery_small.rkreml04''),
     (''rct2.ww.rgeorg09'', ''rct2ww.scenery_small.rgeorg09''),
     (''rct2.ww.wkreml05'', ''rct2ww.scenery_small.wkreml05''),
     (''rct2.ww.pco'', ''rct2ww.scenery_small.pco''),
     (''rct2.ww.sbwind03'', ''rct2ww.scenery_small.sbwind03''),
     (''rct2.ww.rmarble2'', ''rct2ww.scenery_small.rmarble2''),
     (''rct2.ww.wcuzco22'', ''rct2ww.scenery_small.wcuzco22''),
     (''rct2.ww.wcuzco27'', ''rct2ww.scenery_small.wcuzco27''),
     (''rct2.ww.trckprt8'', ''rct2ww.scenery_small.trckprt8''),
     (''rct2.ww.waztec02'', ''rct2ww.scenery_small.waztec02''),
     (''rct2.ww.terrarmy'', ''rct2ww.scenery_small.terrarmy''),
     (''rct2.ww.sbwind19'', ''rct2ww.scenery_small.sbwind19''),
     (''rct2.ww.roofig01'', ''rct2ww.scenery_small.roofig01''),
     (''rct2.ww.icebarl2'', ''rct2ww.scenery_small.icebarl2''),
     (''rct2.ww.wcuzco26'', ''rct2ww.scenery_small.wcuzco26''),
     (''rct2.ww.balllan2'', ''rct2ww.scenery_small.balllan2''),
     (''rct2.ww.tnt4'', ''rct2ww.scenery_small.tnt4''),
     (''rct2.ww.sballoon'', ''rct2ww.scenery_small.sballoon''),
     (''rct2.ww.babpanda'', ''rct2ww.scenery_small.babpanda''),
     (''rct2.ww.trckprt3'', ''rct2ww.scenery_small.trckprt3''),
     (''rct2.ww.wcuzco08'', ''rct2ww.scenery_small.wcuzco08''),
     (''rct2.ww.waztec26'', ''rct2ww.scenery_small.waztec26''),
     (''rct2.ww.rtudor02'', ''rct2ww.scenery_small.rtudor02''),
     (''rct2.ww.rcorr08'', ''rct2ww.scenery_small.rcorr08''),
     (''rct2.ww.wgeorg10'', ''rct2ww.scenery_small.wgeorg10''),
     (''rct2.ww.1x1didge'', ''rct2ww.scenery_small.1x1didge''),
     (''rct2.ww.sbwplm03'', ''rct2ww.scenery_small.sbwplm03''),
     (''rct2.ww.1x1jugt2'', ''rct2ww.scenery_small.1x1jugt2''),
     (''rct2.ww.g2dancer'', ''rct2ww.scenery_small.g2dancer''),
     (''rct2.ww.wcuzco15'', ''rct2ww.scenery_small.wcuzco15''),
     (''rct2.ww.wcuzco14'', ''rct2ww.scenery_small.wcuzco14''),
     (''rct2.ww.rbrick01'', ''rct2ww.scenery_small.rbrick01''),
     (''rct2.ww.flamngo3'', ''rct2ww.scenery_small.flamngo3''),
     (''rct2.ww.sbh4totm'', ''rct2ww.scenery_small.sbh4totm''),
     (''rct2.ww.rgeorg12'', ''rct2ww.scenery_small.rgeorg12''),
     (''rct2.ww.sbh3cskl'', ''rct2ww.scenery_small.sbh3cskl''),
     (''rct2.ww.waztec05'', ''rct2ww.scenery_small.waztec05''),
     (''rct2.ww.wcuzco20'', ''rct2ww.scenery_small.wcuzco20''),
     (''rct2.ww.wcuzco13'', ''rct2ww.scenery_small.wcuzco13''),
     (''rct2.ww.inflag05'', ''rct2ww.scenery_small.inflag05''),
     (''rct2.ww.rmarble3'', ''rct2ww.scenery_small.rmarble3''),
     (''rct2.ww.waborg05'', ''rct2ww.scenery_small.waborg05''),
     (''rct2.ww.wmayan07'', ''rct2ww.scenery_small.wmayan07''),
     (''rct2.ww.tnt2'', ''rct2ww.scenery_small.tnt2''),
     (''rct2.ww.wmayan02'', ''rct2ww.scenery_small.wmayan02''),
     (''rct2.ww.wdrab11'', ''rct2ww.scenery_small.wdrab11''),
     (''rct2.ww.rgeorg08'', ''rct2ww.scenery_small.rgeorg08''),
     (''rct2.ww.pva'', ''rct2ww.scenery_small.pva'')]"

definition oldObjectIds_19 :: "(string \<times> string) list" where
  "oldObjectIds_19 = [(''rct2.ww.wtudor12'', ''rct2ww.scenery_small.wtudor12''),
     (''rct2.ww.wkreml03'', ''rct2ww.scenery_small.wkreml03''),
     (''rct2.ww.jpflag03'', ''rct2ww.scenery_small.jpflag03''),
     (''rct2.ww.fstatue1'', ''rct2ww.scenery_small.fstatue1''),
     (''rct2.ww.wcuzco02'', ''rct2ww.scenery_small.wcuzco02''),
     (''rct2.ww.waztec23'', ''rct2ww.scenery_small.waztec23''),
     (''rct2.ww.sbwind14'', ''rct2ww.scenery_small.sbwind14''),
     (''rct2.ww.wmarble1'', ''rct2ww.scenery_wall.wmarble1''),
     (''rct2.ww.wbambopc'', ''rct2ww.scenery_wall.wbambopc''),
     (''rct2.ww.wshogi07'', ''rct2ww.scenery_wall.wshogi07''),
     (''rct2.ww.wskysc08'', ''rct2ww.scenery_wall.wskysc08''),
     (''rct2.ww.wmud05'', ''rct2ww.scenery_wall.wmud05''),
     (''rct2.ww.wtudor03'', ''rct2ww.scenery_wall.wtudor03''),
     (''rct2.ww.wdrab07'', ''rct2ww.scenery_wall.wdrab07''),
     (''rct2.ww.wshogi10'', ''rct2ww.scenery_wall.wshogi10''),
     (''rct2.ww.wkreml07'', ''rct2ww.scenery_wall.wkreml07''),
     (''rct2.ww.wallna07'', ''rct2ww.scenery_wall.wallna07''),
     (''rct2.ww.wshogi11'', ''rct2ww.scenery_wall.wshogi11''),
     (''rct2.ww.w2corr06'', ''rct2ww.scenery_wall.w2corr06''),
     (''rct2.ww.w3corr08'', ''rct2ww.scenery_wall.w3corr08''),
     (''rct2.ww.wskysc04'', ''rct2ww.scenery_wall.wskysc04''),
     (''rct2.ww.wallice5'', ''rct2ww.scenery_wall.wallice5''),
     (''rct2.ww.wtudor11'', ''rct2ww.scenery_wall.wtudor11''),
     (''rct2.ww.wmud08'', ''rct2ww.scenery_wall.wmud08''),
     (''rct2.ww.wtudor09'', ''rct2ww.scenery_wall.wtudor09''),
     (''rct2.ww.wbambo01'', ''rct2ww.scenery_wall.wbambo01''),
     (''rct2.ww.wallna13'', ''rct2ww.scenery_wall.wallna13''),
     (''rct2.ww.wmarble3'', ''rct2ww.scenery_wall.wmarble3''),
     (''rct2.ww.wmud01'', ''rct2ww.scenery_wall.wmud01''),
     (''rct2.ww.wmud03'', ''rct2ww.scenery_wall.wmud03''),
     (''rct2.ww.wgwoc2'', ''rct2ww.scenery_wall.wgwoc2''),
     (''rct2.ww.wkreml10'', ''rct2ww.scenery_wall.wkreml10''),
     (''rct2.ww.wcorr09'', ''rct2ww.scenery_wall.wcorr09''),
     (''rct2.ww.w3corr05'', ''rct2ww.scenery_wall.w3corr05''),
     (''rct2.ww.wallna05'', ''rct2ww.scenery_wall.wallna05''),
     (''rct2.ww.wskysc05'', ''rct2ww.scenery_wall.wskysc05''),
     (''rct2.ww.wmarbpl7'', ''rct2ww.scenery_wall.wmarbpl7''),
     (''rct2.ww.wallna04'', ''rct2ww.scenery_wall.wallna04''),
     (''rct2.ww.wgeorg03'', ''rct2ww.scenery_wall.wgeorg03''),
     (''rct2.ww.w2corr03'', ''rct2ww.scenery_wall.w2corr03''),
     (''rct2.ww.wbrick01'', ''rct2ww.scenery_wall.wbrick01''),
     (''rct2.ww.wshogi02'', ''rct2ww.scenery_wall.wshogi02''),
     (''rct2.ww.w2corr05'', ''rct2ww.scenery_wall.w2corr05''),
     (''rct2.ww.tmarch1'', ''rct2ww.scenery_wall.tmarch1''),
     (''rct2.ww.wdrab02'', ''rct2ww.scenery_wall.wdrab02''),
     (''rct2.ww.wgeorg01'', ''rct2ww.scenery_wall.wgeorg01''),
     (''rct2.ww.wskysc09'', ''rct2ww.scenery_wall.wskysc09''),
     (''rct2.ww.wbambo15'', ''rct2ww.scenery_wall.wbambo15''),
     (''rct2.ww.wcorr08'', ''rct2ww.scenery_wall.wcorr08''),
     (''rct2.ww.wallna03'', ''rct2ww.scenery_wall.wallna03''),
     (''rct2.ww.wshogi06'', ''rct2ww.scenery_wall.wshogi06''),
     (''rct2.ww.wmud06'', ''rct2ww.scenery_wall.wmud06''),
     (''rct2.ww.wwdaub05'', ''rct2ww.scenery_wall.wwdaub05''),
     (''rct2.ww.wtudor04'', ''rct2ww.scenery_wall.wtudor04''),
     (''rct2.ww.wcorr12'', ''rct2ww.scenery_wall.wcorr12''),
     (''rct2.ww.wskysc03'', ''rct2ww.scenery_wall.wskysc03''),
     (''rct2.ww.w2corr07'', ''rct2ww.scenery_wall.w2corr07''),
     (''rct2.ww.wwdaub02'', ''rct2ww.scenery_wall.wwdaub02''),
     (''rct2.ww.wcorr03'', ''rct2ww.scenery_wall.wcorr03''),
     (''rct2.ww.wwdaub04'', ''rct2ww.scenery_wall.wwdaub04''),
     (''rct2.ww.wcorr10'', ''rct2ww.scenery_wall.wcorr10''),
     (''rct2.ww.wallice7'', ''rct2ww.scenery_wall.wallice7''),
     (''rct2.ww.wwdaub03'', ''rct2ww.scenery_wall.wwdaub03''),
     (''rct2.ww.wdrab03'', ''rct2ww.scenery_wall.wdrab03''),
     (''rct2.ww.wlog01'', ''rct2ww.scenery_wall.wlog01''),
     (''rct2.ww.wbrick05'', ''rct2ww.scenery_wall.wbrick05''),
     (''rct2.ww.wwind06'', ''rct2ww.scenery_wall.wwind06''),
     (''rct2.ww.wshogi14'', ''rct2ww.scenery_wall.wshogi14''),
     (''rct2.ww.wbrick04'', ''rct2ww.scenery_wall.wbrick04''),
     (''rct2.ww.wgeorg02'', ''rct2ww.scenery_wall.wgeorg02''),
     (''rct2.ww.wbambo21'', ''rct2ww.scenery_wall.wbambo21''),
     (''rct2.ww.wtudor06'', ''rct2ww.scenery_wall.wtudor06''),
     (''rct2.ww.wgeorg04'', ''rct2ww.scenery_wall.wgeorg04''),
     (''rct2.ww.wshogi04'', ''rct2ww.scenery_wall.wshogi04''),
     (''rct2.ww.w3corr04'', ''rct2ww.scenery_wall.w3corr04''),
     (''rct2.ww.wtudor02'', ''rct2ww.scenery_wall.wtudor02''),
     (''rct2.ww.wbrick03'', ''rct2ww.scenery_wall.wbrick03''),
     (''rct2.ww.wallna08'', ''rct2ww.scenery_wall.wallna08''),
     (''rct2.ww.wmarble2'', ''rct2ww.scenery_wall.wmarble2''),
     (''rct2.ww.wkreml09'', ''rct2ww.scenery_wall.wkreml09''),
     (''rct2.ww.wgeorg06'', ''rct2ww.scenery_wall.wgeorg06''),
     (''rct2.ww.wallice3'', ''rct2ww.scenery_wall.wallice3''),
     (''rct2.ww.wigloo2'', ''rct2ww.scenery_wall.wigloo2''),
     (''rct2.ww.wskysc10'', ''rct2ww.scenery_wall.wskysc10''),
     (''rct2.ww.wallice9'', ''rct2ww.scenery_wall.wallice9''),
     (''rct2.ww.w3corr02'', ''rct2ww.scenery_wall.w3corr02''),
     (''rct2.ww.wmarbpl3'', ''rct2ww.scenery_wall.wmarbpl3''),
     (''rct2.ww.w3corr07'', ''rct2ww.scenery_wall.w3corr07''),
     (''rct2.ww.wlog05'', ''rct2ww.scenery_wall.wlog05''),
     (''rct2.ww.wgwoc3'', ''rct2ww.scenery_wall.wgwoc3''),
     (''rct2.ww.wskysc06'', ''rct2ww.scenery_wall.wskysc06''),
     (''rct2.ww.wcorr14'', ''rct2ww.scenery_wall.wcorr14''),
     (''rct2.ww.wbrick13'', ''rct2ww.scenery_wall.wbrick13''),
     (''rct2.ww.wmarble5'', ''rct2ww.scenery_wall.wmarble5''),
     (''rct2.ww.wkreml08'', ''rct2ww.scenery_wall.wkreml08''),
     (''rct2.ww.wmarbpl4'', ''rct2ww.scenery_wall.wmarbpl4''),
     (''rct2.ww.wlog06'', ''rct2ww.scenery_wall.wlog06''),
     (''rct2.ww.wdrab06'', ''rct2ww.scenery_wall.wdrab06''),
     (''rct2.ww.wbrick12'', ''rct2ww.scenery_wall.wbrick12''),
     (''rct2.ww.wshogi17'', ''rct2ww.scenery_wall.wshogi17'')]"

definition oldObjectIds_20 :: "(string \<times> string) list" where
  "oldObjectIds_20 = [(''rct2.ww.wtudor05'', ''rct2ww.scenery_wall.wtudor05''),
     (''rct2.ww.wallna01'', ''rct2ww.scenery_wall.wallna01''),
     (''rct2.ww.wmarbpl6'', ''rct2ww.scenery_wall.wmarbpl6''),
     (''rct2.ww.wcorr07'', ''rct2ww.scenery_wall.wcorr07''),
     (''rct2.ww.wbambo05'', ''rct2ww.scenery_wall.wbambo05''),
     (''rct2.ww.wmud04'', ''rct2ww.scenery_wall.wmud04''),
     (''rct2.ww.wmarbpl5'', ''rct2ww.scenery_wall.wmarbpl5''),
     (''rct2.ww.wallice4'', ''rct2ww.scenery_wall.wallice4''),
     (''rct2.ww.wallice2'', ''rct2ww.scenery_wall.wallice2''),
     (''rct2.ww.wbambo13'', ''rct2ww.scenery_wall.wbambo13''),
     (''rct2.ww.wbambo04'', ''rct2ww.scenery_wall.wbambo04''),
     (''rct2.ww.wcorr01'', ''rct2ww.scenery_wall.wcorr01''),
     (''rct2.ww.wpalm01'', ''rct2ww.scenery_wall.wpalm01''),
     (''rct2.ww.wshogi16'', ''rct2ww.scenery_wall.wshogi16''),
     (''rct2.ww.wallice8'', ''rct2ww.scenery_wall.wallice8''),
     (''rct2.ww.wlog02'', ''rct2ww.scenery_wall.wlog02''),
     (''rct2.ww.wtudor01'', ''rct2ww.scenery_wall.wtudor01''),
     (''rct2.ww.wshogi08'', ''rct2ww.scenery_wall.wshogi08''),
     (''rct2.ww.wcorr04'', ''rct2ww.scenery_wall.wcorr04''),
     (''rct2.ww.wgwoc1'', ''rct2ww.scenery_wall.wgwoc1''),
     (''rct2.ww.w2corr02'', ''rct2ww.scenery_wall.w2corr02''),
     (''rct2.ww.wallice6'', ''rct2ww.scenery_wall.wallice6''),
     (''rct2.ww.wallna10'', ''rct2ww.scenery_wall.wallna10''),
     (''rct2.ww.wbrick11'', ''rct2ww.scenery_wall.wbrick11''),
     (''rct2.ww.wshogi13'', ''rct2ww.scenery_wall.wshogi13''),
     (''rct2.ww.wskysc01'', ''rct2ww.scenery_wall.wskysc01''),
     (''rct2.ww.wcorr05'', ''rct2ww.scenery_wall.wcorr05''),
     (''rct2.ww.w2corr01'', ''rct2ww.scenery_wall.w2corr01''),
     (''rct2.ww.wshogi15'', ''rct2ww.scenery_wall.wshogi15''),
     (''rct2.ww.wdrab01'', ''rct2ww.scenery_wall.wdrab01''),
     (''rct2.ww.wallna09'', ''rct2ww.scenery_wall.wallna09''),
     (''rct2.ww.wshogi12'', ''rct2ww.scenery_wall.wshogi12''),
     (''rct2.ww.wmud07'', ''rct2ww.scenery_wall.wmud07''),
     (''rct2.ww.wpalm02'', ''rct2ww.scenery_wall.wpalm02''),
     (''rct2.ww.wmarbpl2'', ''rct2ww.scenery_wall.wmarbpl2''),
     (''rct2.ww.wwind04'', ''rct2ww.scenery_wall.wwind04''),
     (''rct2.ww.wbambo14'', ''rct2ww.scenery_wall.wbambo14''),
     (''rct2.ww.wshogi09'', ''rct2ww.scenery_wall.wshogi09''),
     (''rct2.ww.wwdaub07'', ''rct2ww.scenery_wall.wwdaub07''),
     (''rct2.ww.wallna12'', ''rct2ww.scenery_wall.wallna12''),
     (''rct2.ww.wmarble6'', ''rct2ww.scenery_wall.wmarble6''),
     (''rct2.ww.wbrick08'', ''rct2ww.scenery_wall.wbrick08''),
     (''rct2.ww.wpalm04'', ''rct2ww.scenery_wall.wpalm04''),
     (''rct2.ww.tmarch2'', ''rct2ww.scenery_wall.tmarch2''),
     (''rct2.ww.wallna14'', ''rct2ww.scenery_wall.wallna14''),
     (''rct2.ww.wmarbpl1'', ''rct2ww.scenery_wall.wmarbpl1''),
     (''rct2.ww.wwind05'', ''rct2ww.scenery_wall.wwind05''),
     (''rct2.ww.wpalm05'', ''rct2ww.scenery_wall.wpalm05''),
     (''rct2.ww.wallice1'', ''rct2ww.scenery_wall.wallice1''),
     (''rct2.ww.wbambo02'', ''rct2ww.scenery_wall.wbambo02''),
     (''rct2.ww.wskysc11'', ''rct2ww.scenery_wall.wskysc11''),
     (''rct2.ww.wtudor08'', ''rct2ww.scenery_wall.wtudor08''),
     (''rct2.ww.w3corr03'', ''rct2ww.scenery_wall.w3corr03''),
     (''rct2.ww.w2corr08'', ''rct2ww.scenery_wall.w2corr08''),
     (''rct2.ww.wwind03'', ''rct2ww.scenery_wall.wwind03''),
     (''rct2.ww.wmarble4'', ''rct2ww.scenery_wall.wmarble4''),
     (''rct2.ww.wwdaub06'', ''rct2ww.scenery_wall.wwdaub06''),
     (''rct2.ww.wmud02'', ''rct2ww.scenery_wall.wmud02''),
     (''rct2.ww.wtudor10'', ''rct2ww.scenery_wall.wtudor10''),
     (''rct2.ww.wbambo03'', ''rct2ww.scenery_wall.wbambo03''),
     (''rct2.ww.wskysc02'', ''rct2ww.scenery_wall.wskysc02''),
     (''rct2.ww.wdrab04'', ''rct2ww.scenery_wall.wdrab04''),
     (''rct2.ww.wcorr02'', ''rct2ww.scenery_wall.wcorr02''),
     (''rct2.ww.wallna02'', ''rct2ww.scenery_wall.wallna02''),
     (''rct2.ww.wdrab05'', ''rct2ww.scenery_wall.wdrab05''),
     (''rct2.ww.wbrick02'', ''rct2ww.scenery_wall.wbrick02''),
     (''rct2.ww.wigloo1'', ''rct2ww.scenery_wall.wigloo1''),
     (''rct2.ww.wcorr13'', ''rct2ww.scenery_wall.wcorr13''),
     (''rct2.ww.wskysc07'', ''rct2ww.scenery_wall.wskysc07''),
     (''rct2.ww.wcorr15'', ''rct2ww.scenery_wall.wcorr15''),
     (''rct2.ww.wcorr16'', ''rct2ww.scenery_wall.wcorr16''),
     (''rct2.ww.w2corr04'', ''rct2ww.scenery_wall.w2corr04''),
     (''rct2.ww.wdrab08'', ''rct2ww.scenery_wall.wdrab08''),
     (''rct2.ww.wlog04'', ''rct2ww.scenery_wall.wlog04''),
     (''rct2.ww.wskysc12'', ''rct2ww.scenery_wall.wskysc12''),
     (''rct2.ww.wbambo12'', ''rct2ww.scenery_wall.wbambo12''),
     (''rct2.ww.wbambo11'', ''rct2ww.scenery_wall.wbambo11''),
     (''rct2.ww.w3corr01'', ''rct2ww.scenery_wall.w3corr01''),
     (''rct2.ww.wshogi03'', ''rct2ww.scenery_wall.wshogi03''),
     (''rct2.ww.wwdaub01'', ''rct2ww.scenery_wall.wwdaub01''),
     (''rct2.ww.wcorr06'', ''rct2ww.scenery_wall.wcorr06''),
     (''rct2.ww.wtudor07'', ''rct2ww.scenery_wall.wtudor07''),
     (''rct2.ww.wgeorg05'', ''rct2ww.scenery_wall.wgeorg05''),
     (''rct2.ww.wallna11'', ''rct2ww.scenery_wall.wallna11''),
     (''rct2.ww.wshogi05'', ''rct2ww.scenery_wall.wshogi05''),
     (''rct2.ww.wlog03'', ''rct2ww.scenery_wall.wlog03''),
     (''rct2.ww.w3corr06'', ''rct2ww.scenery_wall.w3corr06''),
     (''rct2.ww.wshogi01'', ''rct2ww.scenery_wall.wshogi01''),
     (''rct2.ww.wallic10'', ''rct2ww.scenery_wall.wallic10''),
     (''rct2.ww.wcorr11'', ''rct2ww.scenery_wall.wcorr11''),
     (''rct2.ww.wpalm03'', ''rct2ww.scenery_wall.wpalm03''),
     (''rct2.ww.wallna06'', ''rct2ww.scenery_wall.wallna06''),
     (''rct2.ww.lionride'', ''rct2ww.ride.lionride''),
     (''rct2.ww.tigrtwst'', ''rct2ww.ride.tigrtwst''),
     (''rct2.ww.tgvtrain'', ''rct2ww.ride.tgvtrain''),
     (''rct2.ww.caddilac'', ''rct2ww.ride.caddilac''),
     (''rct2.ww.bomerang'', ''rct2ww.ride.bomerang''),
     (''rct2.ww.coffeecu'', ''rct2ww.ride.coffeecu''),
     (''rct2.ww.football'', ''rct2ww.ride.football''),
     (''rct2.ww.dolphinr'', ''rct2ww.ride.dolphinr'')]"

definition oldObjectIds_21 :: "(string \<times> string) list" where
  "oldObjectIds_21 = [(''rct2.ww.mandarin'', ''rct2ww.ride.mandarin''),
     (''rct2.ww.crnvbfly'', ''rct2ww.ride.crnvbfly''),
     (''rct2.ww.mantaray'', ''rct2ww.ride.mantaray''),
     (''rct2.ww.blackcab'', ''rct2ww.ride.blackcab''),
     (''rct2.ww.skidoo'', ''rct2ww.ride.skidoo''),
     (''rct2.ww.dhowwatr'', ''rct2ww.ride.dhowwatr''),
     (''rct2.ww.minelift'', ''rct2ww.ride.minelift''),
     (''rct2.ww.sloth'', ''rct2ww.ride.sloth''),
     (''rct2.ww.huskie'', ''rct2ww.ride.huskie''),
     (''rct2.ww.condorrd'', ''rct2ww.ride.condorrd''),
     (''rct2.ww.junkswng'', ''rct2ww.ride.junkswng''),
     (''rct2.ww.congaeel'', ''rct2ww.ride.congaeel''),
     (''rct2.ww.dragdodg'', ''rct2ww.ride.dragdodg''),
     (''rct2.ww.diamondr'', ''rct2ww.ride.diamondr''),
     (''rct2.ww.fightkit'', ''rct2ww.ride.fightkit''),
     (''rct2.ww.faberge'', ''rct2ww.ride.faberge''),
     (''rct2.ww.penguinb'', ''rct2ww.ride.penguinb''),
     (''rct2.ww.crnvlzrd'', ''rct2ww.ride.crnvlzrd''),
     (''rct2.ww.killwhal'', ''rct2ww.ride.killwhal''),
     (''rct2.ww.rocket'', ''rct2ww.ride.rocket''),
     (''rct2.ww.tutlboat'', ''rct2ww.ride.tutlboat''),
     (''rct2.ww.gratwhte'', ''rct2ww.ride.gratwhte''),
     (''rct2.ww.steamtrn'', ''rct2ww.ride.steamtrn''),
     (''rct2.ww.londonbs'', ''rct2ww.ride.londonbs''),
     (''rct2.ww.rhinorid'', ''rct2ww.ride.rhinorid''),
     (''rct2.ww.anaconda'', ''rct2ww.ride.anaconda''),
     (''rct2.ww.italypor'', ''rct2ww.ride.italypor''),
     (''rct2.ww.gorilla'', ''rct2ww.ride.gorilla''),
     (''rct2.ww.ostrich'', ''rct2ww.ride.ostrich''),
     (''rct2.ww.crnvfrog'', ''rct2ww.ride.crnvfrog''),
     (''rct2.ww.dragon'', ''rct2ww.ride.dragon''),
     (''rct2.ww.minecart'', ''rct2ww.ride.minecart''),
     (''rct2.ww.firecrak'', ''rct2ww.ride.firecrak''),
     (''rct2.ww.hipporid'', ''rct2ww.ride.hipporid''),
     (''rct2.ww.rssncrrd'', ''rct2ww.ride.rssncrrd''),
     (''rct2.ww.kolaride'', ''rct2ww.ride.kolaride''),
     (''rct2.ww.seals'', ''rct2ww.ride.seals''),
     (''rct2.ww.polarber'', ''rct2ww.ride.polarber''),
     (''rct2.ww.taxicstr'', ''rct2ww.ride.taxicstr''),
     (''rct2.ww.whicgrub'', ''rct2ww.ride.whicgrub''),
     (''rct2.ww.jaguarrd'', ''rct2ww.ride.jaguarrd''),
     (''rct2.ww.sputnikr'', ''rct2ww.ride.sputnikr''),
     (''rct2.ww.outriggr'', ''rct2ww.ride.outriggr''),
     (''rct2.ww.stgccstr'', ''rct2ww.ride.stgccstr''),
     (''rct2.ww.surfbrdc'', ''rct2ww.ride.surfbrdc''),
     (''rct2.ww.bullet'', ''rct2ww.ride.bullet''),
     (''rct2.ww.crocflum'', ''rct2ww.ride.crocflum''),
     (''rct2.ww.sanftram'', ''rct2ww.ride.sanftram''),
     (''rct2.ww.ozentran'', ''rct2ww.park_entrance.ozentran''),
     (''rct2.ww.euroent'', ''rct2ww.park_entrance.euroent''),
     (''rct2.ww.iceent'', ''rct2ww.park_entrance.iceent''),
     (''rct2.ww.japent'', ''rct2ww.park_entrance.japent''),
     (''rct2.ww.africent'', ''rct2ww.park_entrance.africent''),
     (''rct2.ww.naent'', ''rct2ww.park_entrance.naent''),
     (''rct2.ww.samerent'', ''rct2ww.park_entrance.samerent''),
     (''rct1.wooden_fence_red'', ''rct1.scenery_wall.wooden_fence_red''),
     (''rct1.ll.railings.bamboo'', ''rct1ll.footpath_railings.bamboo''),
     (''rct1.ll.railings.space'', ''rct1ll.footpath_railings.space''),
     (''rct1.toilets'', ''rct1.ride.toilets''),
     (''rct1.pathsurface.crazy'', ''rct1.footpath_surface.crazy_paving''),
     (''rct1.ll.pathsurface.tile.red'', ''rct1ll.footpath_surface.tiles_red''),
     (''rct1.pathsurface.tarmac'', ''rct1.footpath_surface.tarmac''),
     (''rct1.aa.pathsurface.tile.grey'', ''rct1aa.footpath_surface.tiles_grey''),
     (''rct1.pathsurface.dirt'', ''rct1.footpath_surface.dirt''),
     (''rct1.aa.pathsurface.space'', ''rct1aa.footpath_surface.tarmac_red''),
     (''rct1.ll.pathsurface.tile.green'', ''rct1ll.footpath_surface.tiles_green''),
     (''rct1.pathsurface.queue.blue'', ''rct1.footpath_surface.queue_blue''),
     (''rct1.aa.pathsurface.queue.yellow'', ''rct1aa.footpath_surface.queue_yellow''),
     (''rct1.aa.pathsurface.ash'', ''rct1aa.footpath_surface.ash''),
     (''rct1.aa.pathsurface.tarmac.green'', ''rct1aa.footpath_surface.tarmac_green''),
     (''rct1.pathsurface.tile.pink'', ''rct1.footpath_surface.tiles_brown''),
     (''rct1.aa.pathsurface.tarmac.brown'', ''rct1aa.footpath_surface.tarmac_brown''),
     (''rct1.aa.pathsurface.queue.red'', ''rct1aa.footpath_surface.queue_red''),
     (''rct1.aa.pathsurface.queue.green'', ''rct1aa.footpath_surface.queue_green''),
     (''rct1.ll.surface.roofgrey'', ''rct1ll.terrain_surface.roof_grey''),
     (''rct1.ll.surface.wood'', ''rct1ll.terrain_surface.wood''),
     (''rct1.aa.surface.roofred'', ''rct1aa.terrain_surface.roof_red''),
     (''rct1.ll.surface.rust'', ''rct1ll.terrain_surface.rust''),
     (''rct1.ll.edge.green'', ''rct1ll.terrain_edge.green''),
     (''rct1.aa.edge.yellow'', ''rct1aa.terrain_edge.yellow''),
     (''rct1.ll.edge.stonegrey'', ''rct1ll.terrain_edge.stone_grey''),
     (''rct1.aa.edge.red'', ''rct1aa.terrain_edge.red''),
     (''rct1.ll.edge.skyscraperb'', ''rct1ll.terrain_edge.skyscraper_b''),
     (''rct1.ll.edge.stonebrown'', ''rct1ll.terrain_edge.stone_brown''),
     (''rct1.edge.iron'', ''rct1.terrain_edge.iron''),
     (''rct1.ll.edge.skyscrapera'', ''rct1ll.terrain_edge.skyscraper_a''),
     (''rct1.aa.edge.grey'', ''rct1aa.terrain_edge.grey''),
     (''rct1.ll.edge.purple'', ''rct1ll.terrain_edge.purple''),
     (''rct1.edge.brick'', ''rct1.terrain_edge.brick''),
     (''rct2.pathsurface.queue.red'', ''rct2.footpath_surface.queue_red''),
     (''rct2.pathsurface.queue.yellow'', ''rct2.footpath_surface.queue_yellow''),
     (''rct2.pathsurface.crazy'', ''rct2.footpath_surface.crazy_paving''),
     (''rct2.pathsurface.queue.green'', ''rct2.footpath_surface.queue_green''),
     (''rct2.pathsurface.queue.blue'', ''rct2.footpath_surface.queue_blue''),
     (''rct1.pathsurface.tile.brown'', ''rct1.footpath_surface.tiles_brown'')]"

definition oldObjectIds_init :: "(string \<times> string) list" where
  "oldObjectIds_init =
     oldObjectIds_0
     @ oldObjectIds_1
     @ oldObjectIds_2
     @ oldObjectIds_3
     @ oldObjectIds_4
     @ oldObjectIds_5
     @ oldObjectIds_6
     @ oldObjectIds_7
     @ oldObjectIds_8
     @ oldObjectIds_9
     @ oldObjectIds_10
     @ oldObjectIds_11
     @ oldObjectIds_12
     @ oldObjectIds_13
     @ oldObjectIds_14
     @ oldObjectIds_15
     @ oldObjectIds_16
     @ oldObjectIds_17
     @ oldObjectIds_18
     @ oldObjectIds_19
     @ oldObjectIds_20
     @ oldObjectIds_21"

text \<open>
  The \<open>std::map\<close> is built from the initializer list by inserting the entries in order;
  inserting a key that is already present leaves the map as it is. \<open>find\<close> is the lookup.
\<close>

definition map_insert :: "(string \<rightharpoonup> string) \<Rightarrow> string \<times> string \<Rightarrow> (string \<rightharpoonup> string)" where
  "map_insert m kv = (case m (fst kv) of None \<Rightarrow> m(fst kv \<mapsto> snd kv) | Some v \<Rightarrow> m)"

definition oldObjectIds :: "string \<rightharpoonup> string" where
  "oldObjectIds = foldl map_insert Map.empty oldObjectIds_init"

text \<open>\<open>MapToNewObjectIdentifier\<close> (lines 4532 to 4540).\<close>

definition MapToNewObjectIdentifier :: "string \<Rightarrow> string" where
  "MapToNewObjectIdentifier s = (case oldObjectIds s of Some second \<Rightarrow> second | None \<Rightarrow> s)"

section \<open>Objects chunk, reading: the footpath migration\<close>

text \<open>
  The object categories this file tells apart, the two generations of descriptor, and the
  legacy binary entry with the two accessors the reader uses.
\<close>

datatype ObjectType = Paths | FootpathSurface | FootpathRailings | OtherObjectType nat

datatype ObjectGeneration = DAT | JSON

record rct_object_entry =
  GetType :: ObjectType
  GetName :: string

record ObjectEntryDescriptor =
  Generation :: ObjectGeneration
  Type :: ObjectType
  Entry :: rct_object_entry
  Identifier :: string
  Version :: string

text \<open>
  \<open>ObjectEntryDescriptor(datEntry)\<close>, \<open>ObjectEntryDescriptor(identifier)\<close> with its type
  set, and \<open>desc.GetName()\<close>: the name of the binary entry for a legacy descriptor, the
  identifier for a modern one.
\<close>

definition DescriptorOfEntry :: "rct_object_entry \<Rightarrow> ObjectEntryDescriptor" where
  "DescriptorOfEntry e =
     \<lparr>Generation = DAT, Type = GetType e, Entry = e, Identifier = [], Version = []\<rparr>"

definition DescriptorOfIdentifier :: "ObjectType \<Rightarrow> string \<Rightarrow> string \<Rightarrow> ObjectEntryDescriptor" where
  "DescriptorOfIdentifier t ident ver =
     \<lparr>Generation = JSON, Type = t, Entry = \<lparr>GetType = t, GetName = []\<rparr>,
      Identifier = ident, Version = ver\<rparr>"

definition DescriptorName :: "ObjectEntryDescriptor \<Rightarrow> string" where
  "DescriptorName desc = (if Generation desc = JSON then Identifier desc else GetName (Entry desc))"

text \<open>
  Modelled from the spec: the Object List (object/ObjectList.cpp is not part of
  ParkFile.cpp): per category an ordered sequence of slots, a slot empty or holding a
  descriptor. \<open>Find\<close> gives the index of the first slot of the category that holds the
  identifier, or \<open>OBJECT_ENTRY_INDEX_NULL\<close>; \<open>SetObject\<close> stores a descriptor in the slot
  of the given index of its category, growing the sequence with empty slots up to it.
\<close>

type_synonym ObjectList = "ObjectType \<Rightarrow> ObjectEntryDescriptor option list"

fun FindFrom :: "nat \<Rightarrow> ObjectEntryDescriptor option list \<Rightarrow> string \<Rightarrow> nat option" where
  "FindFrom i [] x = None"
| "FindFrom i (d # ds) x =
     (if (case d of Some desc \<Rightarrow> Identifier desc = x | None \<Rightarrow> False) then Some i
      else FindFrom (Suc i) ds x)"

definition Find :: "16 word \<Rightarrow> ObjectList \<Rightarrow> ObjectType \<Rightarrow> string \<Rightarrow> 16 word" where
  "Find OBJECT_ENTRY_INDEX_NULL ol t x =
     (case FindFrom 0 (ol t) x of Some i \<Rightarrow> of_nat i | None \<Rightarrow> OBJECT_ENTRY_INDEX_NULL)"

definition SetObject :: "ObjectList \<Rightarrow> 16 word \<Rightarrow> ObjectEntryDescriptor \<Rightarrow> ObjectList" where
  "SetObject ol index entry =
     (let subList = ol (Type entry);
          subList' = (if length subList \<le> unat index
                      then subList @ replicate (unat index + 1 - length subList) None
                      else subList)
      in ol(Type entry := subList'[unat index := Some entry]))"

text \<open>
  \<open>FootpathMapping\<close>, \<open>DATPathNames\<close> with \<open>GetDATPathName\<close> (lines 4542 to 4558),
  \<open>_extendedFootpathMappings\<close> and \<open>GetFootpathMapping\<close> (lines 4560 to 4591).
  \<open>GetFootpathSurfaceId\<close> belongs to a file outside ParkFile.cpp and is a parameter, from
  the name of a legacy entry to its mapping.
\<close>

record FootpathMapping =
  Original :: string
  NormalSurface :: string
  QueueSurface :: string
  Railing :: string

definition DATPathNames :: "(string \<times> string) list" where
  "DATPathNames =
     [(''rct2.pathash'', ''PATHASH ''), (''rct2.pathcrzy'', ''PATHCRZY''),
      (''rct2.pathdirt'', ''PATHDIRT''), (''rct2.pathspce'', ''PATHSPCE''),
      (''rct2.road'', ''ROAD    ''), (''rct2.tarmacb'', ''TARMACB ''),
      (''rct2.tarmacg'', ''TARMACG ''), (''rct2.tarmac'', ''TARMAC  ''),
      (''rct2.1920path'', ''1920PATH''), (''rct2.futrpath'', ''FUTRPATH''),
      (''rct2.futrpat2'', ''FUTRPAT2''), (''rct2.jurrpath'', ''JURRPATH''),
      (''rct2.medipath'', ''MEDIPATH''), (''rct2.mythpath'', ''MYTHPATH''),
      (''rct2.ranbpath'', ''RANBPATH'')]"

definition GetDATPathName :: "string \<Rightarrow> string option" where
  "GetDATPathName newPathName = map_of DATPathNames newPathName"

definition extendedFootpathMappings :: "FootpathMapping list" where
  "extendedFootpathMappings =
     [\<lparr>Original = ''rct1.path.tarmac'', NormalSurface = ''rct1.footpath_surface.tarmac'',
       QueueSurface = ''rct1.footpath_surface.queue_blue'',
       Railing = ''rct2.footpath_railings.wood''\<rparr>]"

definition GetFootpathMapping ::
  "(string \<Rightarrow> FootpathMapping option) \<Rightarrow> ObjectEntryDescriptor \<Rightarrow> FootpathMapping option" where
  "GetFootpathMapping GetFootpathSurfaceId desc =
     (case List.find (\<lambda>mapping. Original mapping = DescriptorName desc) extendedFootpathMappings of
        Some mapping \<Rightarrow> Some mapping
      | None \<Rightarrow>
          if Generation desc = JSON then
            (case GetDATPathName (Identifier desc) of
               Some datPathName \<Rightarrow> GetFootpathSurfaceId datPathName
             | None \<Rightarrow> None)
          else GetFootpathSurfaceId (DescriptorName desc))"

text \<open>
  The state of one read of the Objects chunk: the list under construction, the three
  legacy-mapping arrays, and the two counters of the lambda.
\<close>

record ObjectsRead =
  requiredObjects :: ObjectList
  footpathMaps :: FootpathMaps
  surfaceCount :: "16 word"
  railingsCount :: "16 word"

text \<open>
  The three writes \<open>pathToSurfaceMap[entryIndex] = ...\<close>,
  \<open>pathToQueueSurfaceMap[entryIndex] = ...\<close> and \<open>pathToRailingsMap[entryIndex] = ...\<close>
  of lines 4604, 4612 and 4620: each goes through the raw pointer to the cell that the
  index reaches, whatever the index.
\<close>

definition set_pathToSurfaceMap :: "FootpathMaps \<Rightarrow> nat \<Rightarrow> 16 word \<Rightarrow> FootpathMaps" where
  "set_pathToSurfaceMap m i v = m\<lparr>cells := (cells m)(i := v)\<rparr>"

definition set_pathToQueueSurfaceMap :: "FootpathMaps \<Rightarrow> nat \<Rightarrow> 16 word \<Rightarrow> FootpathMaps" where
  "set_pathToQueueSurfaceMap m i v = m\<lparr>cells := (cells m)(MAX_PATH_OBJECTS m + i := v)\<rparr>"

definition set_pathToRailingsMap :: "FootpathMaps \<Rightarrow> nat \<Rightarrow> 16 word \<Rightarrow> FootpathMaps" where
  "set_pathToRailingsMap m i v = m\<lparr>cells := (cells m)(2 * MAX_PATH_OBJECTS m + i := v)\<rparr>"

text \<open>
  \<open>UpdateFootpathsFromMapping\<close> (lines 4593 to 4621). The source writes the block
  \<open>index = Find(...); if (index == OBJECT_ENTRY_INDEX_NULL) { SetObject(..., count, ...);
  index = count++; }\<close> three times; \<open>FindOrRegister\<close> is that block, giving the list, the
  counter and the index.
\<close>

definition FindOrRegister ::
  "16 word \<Rightarrow> ObjectType \<Rightarrow> string \<Rightarrow> ObjectList \<Rightarrow> 16 word \<Rightarrow> ObjectList \<times> 16 word \<times> 16 word" where
  "FindOrRegister OBJECT_ENTRY_INDEX_NULL t ident ol count =
     (let index = Find OBJECT_ENTRY_INDEX_NULL ol t ident in
      if index = OBJECT_ENTRY_INDEX_NULL
      then (SetObject ol count (DescriptorOfIdentifier t ident []), count + 1, count)
      else (ol, count, index))"

definition UpdateFootpathsFromMapping ::
  "16 word \<Rightarrow> ObjectsRead \<Rightarrow> nat \<Rightarrow> FootpathMapping \<Rightarrow> ObjectsRead" where
  "UpdateFootpathsFromMapping OBJECT_ENTRY_INDEX_NULL st entryIndex footpathMapping =
     (let (ol, sc, surfaceIndex) =
            FindOrRegister OBJECT_ENTRY_INDEX_NULL FootpathSurface (NormalSurface footpathMapping)
              (requiredObjects st) (surfaceCount st);
          maps = set_pathToSurfaceMap (footpathMaps st) entryIndex surfaceIndex;
          (ol, sc, surfaceIndex) =
            FindOrRegister OBJECT_ENTRY_INDEX_NULL FootpathSurface (QueueSurface footpathMapping) ol sc;
          maps = set_pathToQueueSurfaceMap maps entryIndex surfaceIndex;
          (ol, rc, railingIndex) =
            FindOrRegister OBJECT_ENTRY_INDEX_NULL FootpathRailings (Railing footpathMapping) ol
              (railingsCount st);
          maps = set_pathToRailingsMap maps entryIndex railingIndex
      in \<lparr>requiredObjects = ol, footpathMaps = maps, surfaceCount = sc, railingsCount = rc\<rparr>)"

text \<open>
  The reading branch of \<open>ReadWriteObjectsChunk\<close> (lines 253 to 335). The chunk is taken
  as decoded by the codec: the sub-lists with their object type, each entry its kind and
  what the kind carries. \<open>descriptor_of\<close> and \<open>footpath_mapping_of\<close> name, for the
  statement of the claim, the descriptor the source builds for an entry and the mapping it
  looks up for it under the version gate of its \<open>case\<close>.
\<close>

datatype ChunkEntry =
  DESCRIPTOR_NONE
  | DESCRIPTOR_DAT rct_object_entry
  | DESCRIPTOR_JSON string string
  | DESCRIPTOR_OTHER "8 word"

definition descriptor_of :: "ObjectType \<Rightarrow> ChunkEntry \<Rightarrow> ObjectEntryDescriptor option" where
  "descriptor_of objectType e =
     (case e of
        DESCRIPTOR_DAT datEntry \<Rightarrow> Some (DescriptorOfEntry datEntry)
      | DESCRIPTOR_JSON ident ver \<Rightarrow>
          Some (DescriptorOfIdentifier objectType (MapToNewObjectIdentifier ident) ver)
      | _ \<Rightarrow> None)"

definition footpath_mapping_of ::
  "(string \<Rightarrow> FootpathMapping option) \<Rightarrow> 32 word \<Rightarrow> ObjectType \<Rightarrow> ChunkEntry
     \<Rightarrow> FootpathMapping option" where
  "footpath_mapping_of GetFootpathSurfaceId version objectType e =
     (case e of
        DESCRIPTOR_DAT datEntry \<Rightarrow>
          if version \<le> 2 \<and> GetType datEntry = Paths
          then GetFootpathMapping GetFootpathSurfaceId (DescriptorOfEntry datEntry) else None
      | DESCRIPTOR_JSON ident ver \<Rightarrow>
          if version \<le> 2
          then GetFootpathMapping GetFootpathSurfaceId
                 (DescriptorOfIdentifier objectType (MapToNewObjectIdentifier ident) ver)
          else None
      | _ \<Rightarrow> None)"

definition ReadEntry ::
  "16 word \<Rightarrow> (string \<Rightarrow> FootpathMapping option) \<Rightarrow> 32 word \<Rightarrow> ObjectType \<Rightarrow> nat
     \<Rightarrow> ChunkEntry \<Rightarrow> ObjectsRead \<Rightarrow> exn + ObjectsRead" where
  "ReadEntry N GetFootpathSurfaceId version objectType j kind st =
     (case kind of
        DESCRIPTOR_NONE \<Rightarrow> Inr st
      | DESCRIPTOR_DAT datEntry \<Rightarrow>
          (let desc = DescriptorOfEntry datEntry in
           case (if version \<le> 2 \<and> GetType datEntry = Paths
                 then GetFootpathMapping GetFootpathSurfaceId desc else None) of
             Some footpathMapping \<Rightarrow> Inr (UpdateFootpathsFromMapping N st j footpathMapping)
           | None \<Rightarrow>
               Inr (st\<lparr>requiredObjects := SetObject (requiredObjects st) (of_nat j) desc\<rparr>))
      | DESCRIPTOR_JSON ident ver \<Rightarrow>
          (let desc = DescriptorOfIdentifier objectType (MapToNewObjectIdentifier ident) ver in
           case (if version \<le> 2
                 then GetFootpathMapping GetFootpathSurfaceId desc else None) of
             Some footpathMapping \<Rightarrow> Inr (UpdateFootpathsFromMapping N st j footpathMapping)
           | None \<Rightarrow>
               Inr (st\<lparr>requiredObjects := SetObject (requiredObjects st) (of_nat j) desc\<rparr>))
      | DESCRIPTOR_OTHER k \<Rightarrow> Inl (runtime_error ''Unknown object descriptor kind.''))"

fun ReadSubList ::
  "16 word \<Rightarrow> (string \<Rightarrow> FootpathMapping option) \<Rightarrow> 32 word \<Rightarrow> ObjectType \<Rightarrow> nat
     \<Rightarrow> ChunkEntry list \<Rightarrow> ObjectsRead \<Rightarrow> exn + ObjectsRead" where
  "ReadSubList N g version objectType j [] st = Inr st"
| "ReadSubList N g version objectType j (kind # kinds) st =
     bind (ReadEntry N g version objectType j kind st) (\<lambda>st'.
       ReadSubList N g version objectType (Suc j) kinds st')"

fun ReadSubLists ::
  "16 word \<Rightarrow> (string \<Rightarrow> FootpathMapping option) \<Rightarrow> 32 word
     \<Rightarrow> (ObjectType \<times> ChunkEntry list) list \<Rightarrow> ObjectsRead \<Rightarrow> exn + ObjectsRead" where
  "ReadSubLists N g version [] st = Inr st"
| "ReadSubLists N g version ((objectType, kinds) # rest) st =
     bind (ReadSubList N g version objectType 0 kinds st) (\<lambda>st'.
       ReadSubLists N g version rest st')"

text \<open>
  The whole read: the three arrays filled with \<open>OBJECT_ENTRY_INDEX_NULL\<close> (lines 255 to
  257), an empty list, both counters 0. \<open>M\<close> is \<open>MAX_PATH_OBJECTS\<close> and \<open>memory\<close> is
  what the cells hold before the read; the fill leaves the cells past the three arrays as
  they are.
\<close>

definition ReadObjectsChunk ::
  "16 word \<Rightarrow> nat \<Rightarrow> (nat \<Rightarrow> 16 word) \<Rightarrow> (string \<Rightarrow> FootpathMapping option) \<Rightarrow> 32 word
     \<Rightarrow> (ObjectType \<times> ChunkEntry list) list \<Rightarrow> exn + ObjectsRead" where
  "ReadObjectsChunk N M memory g version subLists =
     ReadSubLists N g version subLists
       \<lparr>requiredObjects = (\<lambda>t. []),
        footpathMaps = \<lparr>MAX_PATH_OBJECTS = M,
                        cells = (\<lambda>k. if k < 3 * M then N else memory k)\<rparr>,
        surfaceCount = 0, railingsCount = 0\<rparr>"

text \<open>
  For the statement of the claim: the entries of a chunk in stream order, each with its
  slot index and the object type of its sub-list; the nested iteration as one pass over them; the
  triple of a mapping; and how many slots of a category hold an identifier.
\<close>

definition chunk_entries :: "(ObjectType \<times> ChunkEntry list) list \<Rightarrow> (nat \<times> ObjectType \<times> ChunkEntry) list" where
  "chunk_entries subLists =
     concat (map (\<lambda>(t, kinds). map (\<lambda>(j, k). (j, t, k)) (enumerate 0 kinds)) subLists)"

fun ReadEntries ::
  "16 word \<Rightarrow> (string \<Rightarrow> FootpathMapping option) \<Rightarrow> 32 word
     \<Rightarrow> (nat \<times> ObjectType \<times> ChunkEntry) list \<Rightarrow> ObjectsRead \<Rightarrow> exn + ObjectsRead" where
  "ReadEntries N g version [] st = Inr st"
| "ReadEntries N g version ((j, t, k) # es) st =
     bind (ReadEntry N g version t j k st) (\<lambda>st'. ReadEntries N g version es st')"

definition triple :: "FootpathMapping \<Rightarrow> string \<times> string \<times> string" where
  "triple m = (NormalSurface m, QueueSurface m, Railing m)"

definition registrations :: "ObjectList \<Rightarrow> ObjectType \<Rightarrow> string \<Rightarrow> nat" where
  "registrations ol t x =
     length (filter (\<lambda>d. case d of Some desc \<Rightarrow> Identifier desc = x | None \<Rightarrow> False) (ol t))"

definition direct_type ::
  "(string \<Rightarrow> FootpathMapping option) \<Rightarrow> 32 word \<Rightarrow> ObjectType \<Rightarrow> ChunkEntry \<Rightarrow> ObjectType option" where
  "direct_type g version t k =
     (case descriptor_of t k of
        None \<Rightarrow> None
      | Some d \<Rightarrow> if footpath_mapping_of g version t k = None then Some (Type d) else None)"

text \<open>
  The kinds the \<open>switch\<close> of the reader knows; any other kind is the \<open>default\<close> branch,
  which throws.
\<close>

definition known_kind :: "ChunkEntry \<Rightarrow> bool" where
  "known_kind k = (case k of DESCRIPTOR_OTHER b \<Rightarrow> False | _ \<Rightarrow> True)"

text \<open>
  For the proofs: the slots that the footpath migration registers in a category, given the
  identifiers in the order of registration; the triple last mapped at each slot index; and
  the invariant of the read after \<open>n\<close> entries.
\<close>

definition registered :: "ObjectType \<Rightarrow> string list \<Rightarrow> ObjectEntryDescriptor option list" where
  "registered t xs = map (\<lambda>x. Some (DescriptorOfIdentifier t x [])) xs"

definition note_triple ::
  "(string \<Rightarrow> FootpathMapping option) \<Rightarrow> 32 word \<Rightarrow> nat \<times> ObjectType \<times> ChunkEntry
     \<Rightarrow> (nat \<rightharpoonup> string \<times> string \<times> string) \<Rightarrow> (nat \<rightharpoonup> string \<times> string \<times> string)" where
  "note_triple g version e L =
     (case e of (j, t, k) \<Rightarrow>
        (case footpath_mapping_of g version t k of Some m \<Rightarrow> L(j \<mapsto> triple m) | None \<Rightarrow> L))"

definition slot_points :: "16 word \<Rightarrow> string list \<Rightarrow> string \<Rightarrow> bool" where
  "slot_points w xs a = (\<exists>i<length xs. xs ! i = a \<and> w = of_nat i)"

definition objects_inv ::
  "16 word \<Rightarrow> nat \<Rightarrow> nat \<Rightarrow> ObjectsRead \<Rightarrow> (nat \<rightharpoonup> string \<times> string \<times> string)
     \<Rightarrow> string list \<Rightarrow> string list \<Rightarrow> bool" where
  "objects_inv N M n st L xs ys =
     (requiredObjects st FootpathSurface = registered FootpathSurface xs \<and> distinct xs
      \<and> unat (surfaceCount st) = length xs \<and> length xs \<le> 2 * n
      \<and> requiredObjects st FootpathRailings = registered FootpathRailings ys \<and> distinct ys
      \<and> unat (railingsCount st) = length ys \<and> length ys \<le> n
      \<and> MAX_PATH_OBJECTS (footpathMaps st) = M
      \<and> (\<forall>j a b c. L j = Some (a, b, c) \<longrightarrow>
            j < M
            \<and> slot_points (pathToSurfaceMap (footpathMaps st) j) xs a
            \<and> slot_points (pathToQueueSurfaceMap (footpathMaps st) j) xs b
            \<and> slot_points (pathToRailingsMap (footpathMaps st) j) ys c))"
section \<open>Theorems\<close>

lemma bind_Inl [simp]: "bind (Inl e) f = Inl e"
  by (simp add: bind_def)

lemma bind_Inr [simp]: "bind (Inr x) f = f x"
  by (simp add: bind_def)


lemma drop_bit_4_byte: "unat (drop_bit 4 (v :: 8 word)) = unat v div 16"
  by (simp add: drop_bit_eq_div unat_div)

lemma and_15_byte: "unat ((v :: 8 word) AND 0xF) = unat v mod 16"
proof -
  have "(v AND 0xF) = take_bit 4 v"
    by (simp add: take_bit_eq_mask mask_eq_exp_minus_1)
  then show ?thesis
    by (simp add: take_bit_eq_mod unat_mod)
qed

text \<open>
  C7. Reading the cars-per-train fields of a ride: for a header version below 5 one byte
  is consumed, \<open>MinCarsPerTrain\<close> is its high nibble (the byte divided by 16) and
  \<open>MaxCarsPerTrain\<close> its low nibble (the byte modulo 16); for a header version of 5 or
  more two bytes are consumed, the first is \<open>MinCarsPerTrain\<close> and the second
  \<open>MaxCarsPerTrain\<close>, unchanged.
\<close>

theorem C7_cars_per_train:
  "(version < 0x5 \<longrightarrow>
      ReadCarsPerTrain version (v # cs) ride
        = Inr (ride\<lparr>MinCarsPerTrain := drop_bit 4 v, MaxCarsPerTrain := v AND 0xF\<rparr>, cs)
      \<and> unat (GetMinCarsPerTrain v) = unat v div 16
      \<and> unat (GetMaxCarsPerTrain v) = unat v mod 16)
   \<and> (\<not> version < 0x5 \<longrightarrow>
      ReadCarsPerTrain version (a # b # cs) ride
        = Inr (ride\<lparr>MinCarsPerTrain := a, MaxCarsPerTrain := b\<rparr>, cs))"
  by (simp add: ReadCarsPerTrain_def bind_def GetMinCarsPerTrain_def GetMaxCarsPerTrain_def
      drop_bit_4_byte and_15_byte)

theorem C7_cars_per_train_witness:
  "(4 :: 32 word) < 0x5 \<and> \<not> (5 :: 32 word) < 0x5
   \<and> ReadCarsPerTrain 4 [0x3A, 7] \<lparr>MinCarsPerTrain = 0, MaxCarsPerTrain = 0\<rparr>
       = Inr (\<lparr>MinCarsPerTrain = 3, MaxCarsPerTrain = 10\<rparr>, [7])
   \<and> ReadCarsPerTrain 5 [0x3A, 7] \<lparr>MinCarsPerTrain = 0, MaxCarsPerTrain = 0\<rparr>
       = Inr (\<lparr>MinCarsPerTrain = 0x3A, MaxCarsPerTrain = 7\<rparr>, [])"
  using C7_cars_per_train [of 4 "0x3A" "[7]" "\<lparr>MinCarsPerTrain = 0, MaxCarsPerTrain = 0\<rparr>"]
        C7_cars_per_train [of 5 _ "[]" "\<lparr>MinCarsPerTrain = 0, MaxCarsPerTrain = 0\<rparr>" "0x3A" 7]
  by (simp add: drop_bit_eq_div)

text \<open>
  C8. Writing the Scenario chunk: the value written right after the completed company
  value is the empty string when that value is \<open>MONEY64_UNDEFINED\<close> or
  \<open>COMPANY_VALUE_ON_FAILED_OBJECTIVE\<close>, and the stored name of the completing player
  otherwise.
\<close>

theorem C8_completed_by_blanked:
  "WriteScenarioChunk U F version s ! 9 = WMoney64 (gScenarioCompletedCompanyValue s)
   \<and> (gScenarioCompletedCompanyValue s = U \<or> gScenarioCompletedCompanyValue s = F
        \<longrightarrow> WriteScenarioChunk U F version s ! 10 = WStr [])
   \<and> (gScenarioCompletedCompanyValue s \<noteq> U \<and> gScenarioCompletedCompanyValue s \<noteq> F
        \<longrightarrow> WriteScenarioChunk U F version s ! 10 = WStr (gScenarioCompletedBy s))"
  by (simp add: WriteScenarioChunk_def WriteStringTable_def)

theorem C8_completed_by_blanked_witness:
  "WriteScenarioChunk 0x8000000000000000 0x80000001 6
     \<lparr>gScenarioCategory = 3, gScenarioName = ''A'', parkName = ''P'', gScenarioDetails = ''D'',
      gScenarioObjectiveType = 1, gScenarioObjectiveYear = 3, gScenarioObjectiveNumGuests = 1000,
      gScenarioObjectiveCurrency = 0, gScenarioParkRatingWarningDays = 0,
      gScenarioCompletedCompanyValue = 0x80000001, gScenarioCompletedBy = ''Ted'',
      AllowEarlyCompletion = False, gScenarioFileName = ''a.park''\<rparr> ! 10 = WStr []
   \<and> WriteScenarioChunk 0x8000000000000000 0x80000001 6
     \<lparr>gScenarioCategory = 3, gScenarioName = ''A'', parkName = ''P'', gScenarioDetails = ''D'',
      gScenarioObjectiveType = 1, gScenarioObjectiveYear = 3, gScenarioObjectiveNumGuests = 1000,
      gScenarioObjectiveCurrency = 0, gScenarioParkRatingWarningDays = 0,
      gScenarioCompletedCompanyValue = 500, gScenarioCompletedBy = ''Ted'',
      AllowEarlyCompletion = False, gScenarioFileName = ''a.park''\<rparr> ! 10 = WStr ''Ted''"
  using C8_completed_by_blanked [of "0x8000000000000000" "0x80000001" 6
     "\<lparr>gScenarioCategory = 3, gScenarioName = ''A'', parkName = ''P'', gScenarioDetails = ''D'',
      gScenarioObjectiveType = 1, gScenarioObjectiveYear = 3, gScenarioObjectiveNumGuests = 1000,
      gScenarioObjectiveCurrency = 0, gScenarioParkRatingWarningDays = 0,
      gScenarioCompletedCompanyValue = 0x80000001, gScenarioCompletedBy = ''Ted'',
      AllowEarlyCompletion = False, gScenarioFileName = ''a.park''\<rparr>"]
    C8_completed_by_blanked [of "0x8000000000000000" "0x80000001" 6
     "\<lparr>gScenarioCategory = 3, gScenarioName = ''A'', parkName = ''P'', gScenarioDetails = ''D'',
      gScenarioObjectiveType = 1, gScenarioObjectiveYear = 3, gScenarioObjectiveNumGuests = 1000,
      gScenarioObjectiveCurrency = 0, gScenarioParkRatingWarningDays = 0,
      gScenarioCompletedCompanyValue = 500, gScenarioCompletedBy = ''Ted'',
      AllowEarlyCompletion = False, gScenarioFileName = ''a.park''\<rparr>"]
  by simp


lemma bind_fails: "(\<And>x. \<exists>e. f x = Inl e) \<Longrightarrow> \<exists>e. bind m f = Inl e"
  by (cases m) auto

lemma bind_InlE:
  "bind m f = Inl e \<Longrightarrow> (m = Inl e \<Longrightarrow> Q) \<Longrightarrow> (\<And>x. m = Inr x \<Longrightarrow> f x = Inl e \<Longrightarrow> Q) \<Longrightarrow> Q"
  by (cases m) auto

lemma optional_absent: "map_of (Chunks os) t = None \<Longrightarrow> ReadWriteOptionalChunk t dec os s = Inr s"
  by (simp add: ReadWriteOptionalChunk_def ReadWriteChunk_def)

lemma tiles_absent:
  "map_of (Chunks os) TILES = None
   \<Longrightarrow> ReadWriteTilesChunk dec os s = Inl (runtime_error ''No tiles chunk found.'')"
  by (simp add: ReadWriteTilesChunk_def ReadWriteChunk_def)

lemma general_absent:
  "map_of (Chunks os) GENERAL = None
   \<Longrightarrow> ReadWriteGeneralChunk dec os s = Inl (runtime_error ''No general chunk found.'')"
  by (simp add: ReadWriteGeneralChunk_def ReadWriteChunk_def)

lemma chunks_general_absent_fails:
  "map_of (Chunks os) GENERAL = None \<Longrightarrow> \<exists>e. ImportChunks dec os s = Inl e"
  unfolding ImportChunks_def
  apply (rule bind_fails, rule bind_fails, rule bind_fails, rule bind_fails, rule bind_fails)
  apply (simp add: general_absent)
  done

lemma optional_error:
  "ReadWriteOptionalChunk t dec os s = Inl e
   \<Longrightarrow> \<exists>t p s'. map_of (Chunks os) t = Some p \<and> dec t p s' = Inl e"
  by (auto simp: ReadWriteOptionalChunk_def ReadWriteChunk_def bind_def
      split: option.splits sum.splits)

lemma tiles_error:
  "ReadWriteTilesChunk dec os s = Inl e
   \<Longrightarrow> (e = runtime_error ''No tiles chunk found.'' \<and> map_of (Chunks os) TILES = None)
       \<or> (\<exists>t p s'. map_of (Chunks os) t = Some p \<and> dec t p s' = Inl e)"
  by (auto simp: ReadWriteTilesChunk_def ReadWriteChunk_def bind_def
      split: option.splits sum.splits)

lemma general_error:
  "ReadWriteGeneralChunk dec os s = Inl e
   \<Longrightarrow> (e = runtime_error ''No general chunk found.'' \<and> map_of (Chunks os) GENERAL = None)
       \<or> (\<exists>t p s'. map_of (Chunks os) t = Some p \<and> dec t p s' = Inl e)"
  by (auto simp: ReadWriteGeneralChunk_def ReadWriteChunk_def bind_def
      split: option.splits sum.splits)

lemma chunks_error:
  assumes "ImportChunks dec os s = Inl e"
  shows "(e = runtime_error ''No tiles chunk found.'' \<and> map_of (Chunks os) TILES = None)
       \<or> (e = runtime_error ''No general chunk found.'' \<and> map_of (Chunks os) GENERAL = None)
       \<or> (\<exists>t p s'. map_of (Chunks os) t = Some p \<and> dec t p s' = Inl e)"
  using assms unfolding ImportChunks_def
  apply (elim bind_InlE)
  apply (drule tiles_error, blast)
  apply (drule optional_error, blast)
  apply (drule optional_error, blast)
  apply (drule optional_error, blast)
  apply (drule optional_error, blast)
  apply (drule general_error, blast)
  apply (drule optional_error, blast)
  apply (drule optional_error, blast)
  apply (drule optional_error, blast)
  apply (drule optional_error, blast)
  apply (drule optional_error, blast)
  apply (drule optional_error, blast)
  apply (drule optional_error, blast)
  done

lemma chunks_only_mandatory:
  assumes t: "map_of (Chunks os) TILES = Some p" "dec TILES p s = Inr s1"
    and g: "map_of (Chunks os) GENERAL = Some q" "dec GENERAL q s1 = Inr s2"
    and n: "\<forall>t. t \<noteq> TILES \<and> t \<noteq> GENERAL \<longrightarrow> map_of (Chunks os) t = None"
  shows "ImportChunks dec os s = Inr s2"
proof -
  have o: "\<And>t s. t \<noteq> TILES \<Longrightarrow> t \<noteq> GENERAL \<Longrightarrow> ReadWriteOptionalChunk t dec os s = Inr s"
    using n by (simp add: optional_absent)
  have 1: "ReadWriteTilesChunk dec os s = Inr s1"
    using t by (simp add: ReadWriteTilesChunk_def ReadWriteChunk_def)
  have 2: "ReadWriteGeneralChunk dec os s1 = Inr s2"
    using g by (simp add: ReadWriteGeneralChunk_def ReadWriteChunk_def)
  have d: "BANNERS \<noteq> TILES" "BANNERS \<noteq> GENERAL" "RIDES \<noteq> TILES" "RIDES \<noteq> GENERAL"
    "ENTITIES \<noteq> TILES" "ENTITIES \<noteq> GENERAL" "SCENARIO \<noteq> TILES" "SCENARIO \<noteq> GENERAL"
    "PARK \<noteq> TILES" "PARK \<noteq> GENERAL" "CLIMATE \<noteq> TILES" "CLIMATE \<noteq> GENERAL"
    "RESEARCH \<noteq> TILES" "RESEARCH \<noteq> GENERAL" "NOTIFICATIONS \<noteq> TILES" "NOTIFICATIONS \<noteq> GENERAL"
    "INTERFACE \<noteq> TILES" "INTERFACE \<noteq> GENERAL" "CHEATS \<noteq> TILES" "CHEATS \<noteq> GENERAL"
    "RESTRICTED_OBJECTS \<noteq> TILES" "RESTRICTED_OBJECTS \<noteq> GENERAL"
    by (simp_all add: BANNERS_def RIDES_def ENTITIES_def SCENARIO_def PARK_def CLIMATE_def
        RESEARCH_def NOTIFICATIONS_def INTERFACE_def CHEATS_def RESTRICTED_OBJECTS_def
        TILES_def GENERAL_def)
  show ?thesis
    unfolding ImportChunks_def by (simp add: 1 2 o d)
qed

text \<open>
  C5. During Import a file without a Tiles chunk fails with "No tiles chunk found."; a
  file without a General chunk fails, and with "No general chunk found." when the five
  reads before it (Tiles, Banners, Rides, Entities, Scenario) have returned on this file.
  The absence of any other chunk raises nothing: the function of an absent chunk returns
  the state as it is; a file with a Tiles and a General chunk that both decode, and no
  other chunk at all, is imported; and every error of Import is one of the two messages,
  with that chunk absent, or the error raised while decoding a chunk that the file has.
\<close>

theorem C5_mandatory_chunks:
  "(map_of (Chunks os) TILES = None \<longrightarrow>
      ReadWriteTilesChunk dec os s = Inl (runtime_error ''No tiles chunk found.'')
      \<and> Import M dec os s = Inl (runtime_error ''No tiles chunk found.''))
   \<and> (map_of (Chunks os) GENERAL = None \<longrightarrow>
      ReadWriteGeneralChunk dec os s = Inl (runtime_error ''No general chunk found.'')
      \<and> (\<exists>e. Import M dec os s = Inl e))
   \<and> (map_of (Chunks os) GENERAL = None
        \<and> ReadWriteTilesChunk dec os s = Inr s1
        \<and> ReadWriteOptionalChunk BANNERS dec os s1 = Inr s2
        \<and> ReadWriteOptionalChunk RIDES dec os s2 = Inr s3
        \<and> ReadWriteOptionalChunk ENTITIES dec os s3 = Inr s4
        \<and> ReadWriteOptionalChunk SCENARIO dec os s4 = Inr s5 \<longrightarrow>
      Import M dec os s = Inl (runtime_error ''No general chunk found.''))
   \<and> (\<forall>t. map_of (Chunks os) t = None \<longrightarrow> ReadWriteOptionalChunk t dec os s = Inr s)
   \<and> (map_of (Chunks os) TILES = Some p \<and> dec TILES p s = Inr s1
        \<and> map_of (Chunks os) GENERAL = Some q \<and> dec GENERAL q s1 = Inr s2
        \<and> (\<forall>t. t \<noteq> TILES \<and> t \<noteq> GENERAL \<longrightarrow> map_of (Chunks os) t = None) \<longrightarrow>
      Import M dec os s
        = Inr ((if TargetVersion os < 0x4 then UpdateTrackElementsRideType M s2 else s2)
                 \<lparr>gInitialCash :=
                    gCash (if TargetVersion os < 0x4 then UpdateTrackElementsRideType M s2 else s2)\<rparr>))
   \<and> (Import M dec os s = Inl e \<longrightarrow>
        (e = runtime_error ''No tiles chunk found.'' \<and> map_of (Chunks os) TILES = None)
        \<or> (e = runtime_error ''No general chunk found.'' \<and> map_of (Chunks os) GENERAL = None)
        \<or> (\<exists>t p s'. map_of (Chunks os) t = Some p \<and> dec t p s' = Inl e))"
proof (intro conjI impI allI)
  assume "map_of (Chunks os) TILES = None"
  then show "ReadWriteTilesChunk dec os s = Inl (runtime_error ''No tiles chunk found.'')"
    by (rule tiles_absent)
next
  assume "map_of (Chunks os) TILES = None"
  then show "Import M dec os s = Inl (runtime_error ''No tiles chunk found.'')"
    by (simp add: Import_def ImportChunks_def tiles_absent)
next
  assume "map_of (Chunks os) GENERAL = None"
  then show "ReadWriteGeneralChunk dec os s = Inl (runtime_error ''No general chunk found.'')"
    by (rule general_absent)
next
  assume "map_of (Chunks os) GENERAL = None"
  then obtain e where "ImportChunks dec os s = Inl e"
    using chunks_general_absent_fails [of os dec s] by blast
  then show "\<exists>e. Import M dec os s = Inl e"
    by (simp add: Import_def)
next
  assume a: "map_of (Chunks os) GENERAL = None
        \<and> ReadWriteTilesChunk dec os s = Inr s1
        \<and> ReadWriteOptionalChunk BANNERS dec os s1 = Inr s2
        \<and> ReadWriteOptionalChunk RIDES dec os s2 = Inr s3
        \<and> ReadWriteOptionalChunk ENTITIES dec os s3 = Inr s4
        \<and> ReadWriteOptionalChunk SCENARIO dec os s4 = Inr s5"
  then have "ImportChunks dec os s = Inl (runtime_error ''No general chunk found.'')"
    by (simp add: ImportChunks_def general_absent)
  then show "Import M dec os s = Inl (runtime_error ''No general chunk found.'')"
    by (simp add: Import_def)
next
  fix t assume "map_of (Chunks os) t = None"
  then show "ReadWriteOptionalChunk t dec os s = Inr s" by (rule optional_absent)
next
  assume a: "map_of (Chunks os) TILES = Some p \<and> dec TILES p s = Inr s1
        \<and> map_of (Chunks os) GENERAL = Some q \<and> dec GENERAL q s1 = Inr s2
        \<and> (\<forall>t. t \<noteq> TILES \<and> t \<noteq> GENERAL \<longrightarrow> map_of (Chunks os) t = None)"
  then have "ImportChunks dec os s = Inr s2"
    using chunks_only_mandatory [of os p dec s s1 q s2] by blast
  then show "Import M dec os s
        = Inr ((if TargetVersion os < 0x4 then UpdateTrackElementsRideType M s2 else s2)
                 \<lparr>gInitialCash :=
                    gCash (if TargetVersion os < 0x4 then UpdateTrackElementsRideType M s2 else s2)\<rparr>)"
    by (simp add: Import_def Let_def)
next
  assume "Import M dec os s = Inl e"
  then have "ImportChunks dec os s = Inl e"
    by (cases "ImportChunks dec os s") (simp_all add: Import_def Let_def)
  then show "(e = runtime_error ''No tiles chunk found.'' \<and> map_of (Chunks os) TILES = None)
        \<or> (e = runtime_error ''No general chunk found.'' \<and> map_of (Chunks os) GENERAL = None)
        \<or> (\<exists>t p s'. map_of (Chunks os) t = Some p \<and> dec t p s' = Inl e)"
    by (rule chunks_error)
qed

theorem C5_mandatory_chunks_witness:
  "Import 2 (\<lambda>t p s. case p of [] \<Rightarrow> Inl IOException | b # bs \<Rightarrow> Inr (s\<lparr>gCash := ucast b\<rparr>))
       \<lparr>TargetVersion = 6, Chunks = [(0x04, [9])]\<rparr>
       \<lparr>gTiles = (\<lambda>_. []), gRides = (\<lambda>_. None), gCash = 5, gInitialCash = 0\<rparr>
     = Inl (runtime_error ''No tiles chunk found.'')
   \<and> Import 2 (\<lambda>t p s. case p of [] \<Rightarrow> Inl IOException | b # bs \<Rightarrow> Inr (s\<lparr>gCash := ucast b\<rparr>))
       \<lparr>TargetVersion = 6, Chunks = [(0x30, [1]), (0x33, [2])]\<rparr>
       \<lparr>gTiles = (\<lambda>_. []), gRides = (\<lambda>_. None), gCash = 5, gInitialCash = 0\<rparr>
     = Inl (runtime_error ''No general chunk found.'')
   \<and> ReadWriteOptionalChunk 0x05
       (\<lambda>t p s. case p of [] \<Rightarrow> Inl IOException | b # bs \<Rightarrow> Inr (s\<lparr>gCash := ucast b\<rparr>))
       \<lparr>TargetVersion = 6, Chunks = [(0x30, [1]), (0x04, [9])]\<rparr>
       \<lparr>gTiles = (\<lambda>_. []), gRides = (\<lambda>_. None), gCash = 5, gInitialCash = 0\<rparr>
     = Inr \<lparr>gTiles = (\<lambda>_. []), gRides = (\<lambda>_. None), gCash = 5, gInitialCash = 0\<rparr>
   \<and> Import 2 (\<lambda>t p s. case p of [] \<Rightarrow> Inl IOException | b # bs \<Rightarrow> Inr (s\<lparr>gCash := ucast b\<rparr>))
       \<lparr>TargetVersion = 6, Chunks = [(0x30, [1]), (0x04, [9])]\<rparr>
       \<lparr>gTiles = (\<lambda>_. []), gRides = (\<lambda>_. None), gCash = 5, gInitialCash = 0\<rparr>
     = Inr \<lparr>gTiles = (\<lambda>_. []), gRides = (\<lambda>_. None), gCash = 9, gInitialCash = 9\<rparr>
   \<and> (Import 2 (\<lambda>t p s. case p of [] \<Rightarrow> Inl IOException | b # bs \<Rightarrow> Inr (s\<lparr>gCash := ucast b\<rparr>))
       \<lparr>TargetVersion = 6, Chunks = [(0x30, [])]\<rparr>
       \<lparr>gTiles = (\<lambda>_. []), gRides = (\<lambda>_. None), gCash = 5, gInitialCash = 0\<rparr>
     = Inl IOException
     \<and> (\<exists>t p s'. map_of [(0x30 :: 32 word, [] :: byte list)] t = Some p
           \<and> (case p of [] \<Rightarrow> Inl IOException
               | b # bs \<Rightarrow> Inr (s'\<lparr>gCash := ucast b\<rparr>)) = (Inl IOException :: exn + GameState)))"
proof -
  let ?dec = "\<lambda>(t :: 32 word) (p :: byte list) (s :: GameState).
      case p of [] \<Rightarrow> Inl IOException | b # bs \<Rightarrow> Inr (s\<lparr>gCash := ucast b\<rparr>)"
  let ?s = "\<lparr>gTiles = (\<lambda>_. []), gRides = (\<lambda>_. None), gCash = 5, gInitialCash = 0\<rparr>"
  let ?o1 = "\<lparr>TargetVersion = 6, Chunks = [(0x04, [9])]\<rparr>"
  let ?o2 = "\<lparr>TargetVersion = 6, Chunks = [(0x30, [1]), (0x33, [2])]\<rparr>"
  let ?o3 = "\<lparr>TargetVersion = 6, Chunks = [(0x30, [1]), (0x04, [9])]\<rparr>"
  let ?o4 = "\<lparr>TargetVersion = 6, Chunks = [(0x30, [])]\<rparr>"
  have p1: "Import 2 ?dec ?o1 ?s = Inl (runtime_error ''No tiles chunk found.'')"
    using C5_mandatory_chunks [where os = ?o1 and dec = ?dec and s = ?s and M = 2]
    by (simp add: TILES_def)
  have c1: "ReadWriteTilesChunk ?dec ?o2 ?s = Inr (?s\<lparr>gCash := 1\<rparr>)"
    by (simp add: ReadWriteTilesChunk_def ReadWriteChunk_def TILES_def)
  have c2: "ReadWriteOptionalChunk BANNERS ?dec ?o2 (?s\<lparr>gCash := 1\<rparr>) = Inr (?s\<lparr>gCash := 2\<rparr>)"
    by (simp add: ReadWriteOptionalChunk_def ReadWriteChunk_def BANNERS_def)
  have c3: "ReadWriteOptionalChunk RIDES ?dec ?o2 (?s\<lparr>gCash := 2\<rparr>) = Inr (?s\<lparr>gCash := 2\<rparr>)"
    by (simp add: ReadWriteOptionalChunk_def ReadWriteChunk_def RIDES_def)
  have c4: "ReadWriteOptionalChunk ENTITIES ?dec ?o2 (?s\<lparr>gCash := 2\<rparr>) = Inr (?s\<lparr>gCash := 2\<rparr>)"
    by (simp add: ReadWriteOptionalChunk_def ReadWriteChunk_def ENTITIES_def)
  have c5: "ReadWriteOptionalChunk SCENARIO ?dec ?o2 (?s\<lparr>gCash := 2\<rparr>) = Inr (?s\<lparr>gCash := 2\<rparr>)"
    by (simp add: ReadWriteOptionalChunk_def ReadWriteChunk_def SCENARIO_def)
  have g2: "map_of (Chunks ?o2) GENERAL = None"
    by (simp add: GENERAL_def)
  have p2: "Import 2 ?dec ?o2 ?s = Inl (runtime_error ''No general chunk found.'')"
    using C5_mandatory_chunks [where os = ?o2 and dec = ?dec and s = ?s and M = 2
        and ?s1.0 = "?s\<lparr>gCash := 1\<rparr>" and ?s2.0 = "?s\<lparr>gCash := 2\<rparr>"
        and ?s3.0 = "?s\<lparr>gCash := 2\<rparr>" and ?s4.0 = "?s\<lparr>gCash := 2\<rparr>"
        and ?s5.0 = "?s\<lparr>gCash := 2\<rparr>"] g2 c1 c2 c3 c4 c5
    by blast
  have a3: "map_of (Chunks ?o3) 0x05 = None"
    by simp
  have p3: "ReadWriteOptionalChunk 0x05 ?dec ?o3 ?s = Inr ?s"
    using C5_mandatory_chunks [where os = ?o3 and dec = ?dec and s = ?s and M = 2] a3
    by blast
  have t3: "map_of (Chunks ?o3) TILES = Some [1] \<and> ?dec TILES [1] ?s = Inr (?s\<lparr>gCash := 1\<rparr>)
      \<and> map_of (Chunks ?o3) GENERAL = Some [9] \<and> ?dec GENERAL [9] (?s\<lparr>gCash := 1\<rparr>) = Inr (?s\<lparr>gCash := 9\<rparr>)
      \<and> (\<forall>t. t \<noteq> TILES \<and> t \<noteq> GENERAL \<longrightarrow> map_of (Chunks ?o3) t = None)"
    by (simp add: TILES_def GENERAL_def)
  have "Import 2 ?dec ?o3 ?s
      = Inr ((if TargetVersion ?o3 < 0x4 then UpdateTrackElementsRideType 2 (?s\<lparr>gCash := 9\<rparr>)
              else ?s\<lparr>gCash := 9\<rparr>)
               \<lparr>gInitialCash :=
                  gCash (if TargetVersion ?o3 < 0x4 then UpdateTrackElementsRideType 2 (?s\<lparr>gCash := 9\<rparr>)
                         else ?s\<lparr>gCash := 9\<rparr>)\<rparr>)"
    using C5_mandatory_chunks [where os = ?o3 and dec = ?dec and s = ?s and M = 2
        and p = "[1]" and q = "[9]"
        and ?s1.0 = "?s\<lparr>gCash := 1\<rparr>" and ?s2.0 = "?s\<lparr>gCash := 9\<rparr>"] t3
    by blast
  then have p4: "Import 2 ?dec ?o3 ?s
      = Inr \<lparr>gTiles = (\<lambda>_. []), gRides = (\<lambda>_. None), gCash = 9, gInitialCash = 9\<rparr>"
    by simp
  have i4: "Import 2 ?dec ?o4 ?s = Inl IOException"
    by (simp add: Import_def ImportChunks_def ReadWriteTilesChunk_def ReadWriteChunk_def TILES_def)
  have "(IOException = runtime_error ''No tiles chunk found.'' \<and> map_of (Chunks ?o4) TILES = None)
        \<or> (IOException = runtime_error ''No general chunk found.'' \<and> map_of (Chunks ?o4) GENERAL = None)
        \<or> (\<exists>t p s'. map_of (Chunks ?o4) t = Some p \<and> ?dec t p s' = Inl IOException)"
    using C5_mandatory_chunks [where os = ?o4 and dec = ?dec and s = ?s and M = 2
        and e = IOException] i4
    by blast
  then have p5: "\<exists>t p s'. map_of [(0x30 :: 32 word, [] :: byte list)] t = Some p
           \<and> (case p of [] \<Rightarrow> Inl IOException
               | b # bs \<Rightarrow> Inr (s'\<lparr>gCash := ucast b\<rparr>)) = (Inl IOException :: exn + GameState)"
    by simp
  from p1 p2 p3 p4 i4 p5 show ?thesis
    by blast
qed

lemma UpdateTile_map: "UpdateTile g es = map (UpdateTrackElement g) es"
  by (induction es) auto

lemma UpdateTileAt_simps:
  "gTiles (UpdateTileAt x y s) p = (if p = (x, y) then UpdateTile (gRides s) (gTiles s p) else gTiles s p)"
  "gRides (UpdateTileAt x y s) = gRides s"
  "gCash (UpdateTileAt x y s) = gCash s"
  by (simp_all add: UpdateTileAt_def)

lemma inner_fold:
  "distinct ys \<Longrightarrow>
   gTiles (foldl (\<lambda>s y. UpdateTileAt x y s) s ys) (a, b)
     = (if a = x \<and> b \<in> set ys then UpdateTile (gRides s) (gTiles s (a, b)) else gTiles s (a, b))
   \<and> gRides (foldl (\<lambda>s y. UpdateTileAt x y s) s ys) = gRides s
   \<and> gCash (foldl (\<lambda>s y. UpdateTileAt x y s) s ys) = gCash s"
  by (induction ys arbitrary: s) (auto simp: UpdateTileAt_simps)

lemma outer_fold:
  "distinct xs \<Longrightarrow> distinct ys \<Longrightarrow>
   gTiles (foldl (\<lambda>s x. foldl (\<lambda>s y. UpdateTileAt x y s) s ys) s xs) (a, b)
     = (if a \<in> set xs \<and> b \<in> set ys then UpdateTile (gRides s) (gTiles s (a, b)) else gTiles s (a, b))
   \<and> gRides (foldl (\<lambda>s x. foldl (\<lambda>s y. UpdateTileAt x y s) s ys) s xs) = gRides s
   \<and> gCash (foldl (\<lambda>s x. foldl (\<lambda>s y. UpdateTileAt x y s) s ys) s xs) = gCash s"
  by (induction xs arbitrary: s) (auto simp: inner_fold)

lemma UpdateTrackElementsRideType_eq:
  "gTiles (UpdateTrackElementsRideType M s) (x, y)
     = (if x < M \<and> y < M then map (UpdateTrackElement (gRides s)) (gTiles s (x, y)) else gTiles s (x, y))"
  "gRides (UpdateTrackElementsRideType M s) = gRides s"
  "gCash (UpdateTrackElementsRideType M s) = gCash s"
  using outer_fold [of "[0..<M]" "[0..<M]" s x y]
  by (auto simp: UpdateTrackElementsRideType_def UpdateTile_map)

text \<open>
  C10. After the chunks are applied, for a header target version below 4 every track
  element on the map whose ride exists carries that ride's type, and every other element is
  as the chunks left it; for a target version of 4 or more the tile grid is as the chunks
  left it.
\<close>

theorem C10_track_ride_type:
  assumes "ImportChunks dec os s = Inr s1"
  shows "\<exists>s'. Import M dec os s = Inr s' \<and> gRides s' = gRides s1
     \<and> (TargetVersion os < 0x4 \<longrightarrow>
          (\<forall>x<M. \<forall>y<M. length (gTiles s' (x, y)) = length (gTiles s1 (x, y))
             \<and> (\<forall>i<length (gTiles s1 (x, y)).
                  (case gTiles s1 (x, y) ! i of
                     TrackEl t \<Rightarrow>
                       (case gRides s1 (RideIndex t) of
                          Some ride \<Rightarrow> gTiles s' (x, y) ! i = TrackEl (t\<lparr>RideType := ride_type ride\<rparr>)
                        | None \<Rightarrow> gTiles s' (x, y) ! i = TrackEl t)
                   | e \<Rightarrow> gTiles s' (x, y) ! i = e))))
     \<and> (\<not> TargetVersion os < 0x4 \<longrightarrow> gTiles s' = gTiles s1)"
  using assms
  by (auto simp: Import_def Let_def UpdateTrackElementsRideType_eq UpdateTrackElement_def
      split: TileElement.splits option.splits)

theorem C10_track_ride_type_witness:
  "ImportChunks (\<lambda>t p s. Inr s) \<lparr>TargetVersion = 3, Chunks = [(0x30, []), (0x04, [])]\<rparr>
      \<lparr>gTiles = (\<lambda>p. if p = (0, 0) then [TrackEl \<lparr>RideIndex = 1, RideType = 0, TrackRest = []\<rparr>] else []),
       gRides = (\<lambda>i. if i = 1 then Some \<lparr>ride_type = 7\<rparr> else None), gCash = 5, gInitialCash = 0\<rparr>
    = Inr \<lparr>gTiles = (\<lambda>p. if p = (0, 0) then [TrackEl \<lparr>RideIndex = 1, RideType = 0, TrackRest = []\<rparr>] else []),
       gRides = (\<lambda>i. if i = 1 then Some \<lparr>ride_type = 7\<rparr> else None), gCash = 5, gInitialCash = 0\<rparr>
   \<and> (\<exists>s'. Import 2 (\<lambda>t p s. Inr s) \<lparr>TargetVersion = 3, Chunks = [(0x30, []), (0x04, [])]\<rparr>
      \<lparr>gTiles = (\<lambda>p. if p = (0, 0) then [TrackEl \<lparr>RideIndex = 1, RideType = 0, TrackRest = []\<rparr>] else []),
       gRides = (\<lambda>i. if i = 1 then Some \<lparr>ride_type = 7\<rparr> else None), gCash = 5, gInitialCash = 0\<rparr> = Inr s'
      \<and> gTiles s' (0, 0) ! 0 = TrackEl \<lparr>RideIndex = 1, RideType = 7, TrackRest = []\<rparr>)"
proof -
  let ?os = "\<lparr>TargetVersion = 3, Chunks = [(0x30, []), (0x04, [])]\<rparr>"
  let ?st = "\<lparr>gTiles = (\<lambda>p. if p = (0, 0) then [TrackEl \<lparr>RideIndex = 1, RideType = 0, TrackRest = []\<rparr>] else []),
       gRides = (\<lambda>i. if i = 1 then Some \<lparr>ride_type = 7\<rparr> else None), gCash = 5, gInitialCash = 0\<rparr>"
  have h: "ImportChunks (\<lambda>t p s. Inr s) ?os ?st = Inr ?st"
    by (simp add: ImportChunks_def ReadWriteTilesChunk_def ReadWriteGeneralChunk_def
        ReadWriteOptionalChunk_def ReadWriteChunk_def bind_def TILES_def GENERAL_def BANNERS_def
        RIDES_def ENTITIES_def SCENARIO_def PARK_def CLIMATE_def RESEARCH_def NOTIFICATIONS_def
        INTERFACE_def CHEATS_def RESTRICTED_OBJECTS_def)
  from C10_track_ride_type [OF h, of 2] obtain s' where
    a: "Import 2 (\<lambda>t p s. Inr s) ?os ?st = Inr s'" and
    b: "\<forall>x<2. \<forall>y<2. length (gTiles s' (x, y)) = length (gTiles ?st (x, y))
             \<and> (\<forall>i<length (gTiles ?st (x, y)).
                  (case gTiles ?st (x, y) ! i of
                     TrackEl t \<Rightarrow>
                       (case gRides ?st (RideIndex t) of
                          Some ride \<Rightarrow> gTiles s' (x, y) ! i = TrackEl (t\<lparr>RideType := ride_type ride\<rparr>)
                        | None \<Rightarrow> gTiles s' (x, y) ! i = TrackEl t)
                   | e \<Rightarrow> gTiles s' (x, y) ! i = e))"
    by auto
  from b have "gTiles s' (0, 0) ! 0 = TrackEl \<lparr>RideIndex = 1, RideType = 7, TrackRest = []\<rparr>"
    by (auto dest!: spec [of _ 0])
  with a h show ?thesis by blast
qed








lemma of_nat_16_inj:
  "a < 65536 \<Longrightarrow> b < 65536 \<Longrightarrow> ((of_nat a :: 16 word) = of_nat b) = (a = b)"
  by (simp add: word_of_nat_eq_iff take_bit_nat_eq_self)

lemma Assign_other:
  "\<not> cc j \<or> (\<forall>n. k \<le> n \<and> n < k + length bs \<longrightarrow> (of_nat n :: 16 word) \<noteq> j)
   \<Longrightarrow> AssignBannersByPosition cc k bs tbl j = tbl j"
proof (induction bs arbitrary: k tbl)
  case Nil
  then show ?case by simp
next
  case (Cons b bs)
  have "\<not> cc j \<or> (\<forall>n. Suc k \<le> n \<and> n < Suc k + length bs \<longrightarrow> (of_nat n :: 16 word) \<noteq> j)"
    using Cons.prems by auto
  moreover have "\<not> cc j \<or> (of_nat k :: 16 word) \<noteq> j"
    using Cons.prems by auto
  ultimately show ?case
    using Cons.IH [of "Suc k"] by (auto simp: GetOrCreateBanner_def Let_def simp del: of_nat_Suc)
qed

lemma Assign_nth:
  "k \<le> n \<Longrightarrow> n < k + length bs \<Longrightarrow> cc (of_nat n)
   \<Longrightarrow> (\<forall>n'. n < n' \<and> n' < k + length bs \<longrightarrow> (of_nat n' :: 16 word) \<noteq> of_nat n)
   \<Longrightarrow> AssignBannersByPosition cc k bs tbl (of_nat n)
       = Some ((bs ! (n - k))\<lparr>id := of_nat n\<rparr>)"
proof (induction bs arbitrary: k tbl)
  case Nil
  then show ?case by simp
next
  case (Cons b bs)
  show ?case
  proof (cases "n = k")
    case True
    have "\<not> cc (of_nat k)
        \<or> (\<forall>n'. Suc k \<le> n' \<and> n' < Suc k + length bs \<longrightarrow> (of_nat n' :: 16 word) \<noteq> of_nat k)"
      using Cons.prems(4) True by auto
    then have "\<And>t. AssignBannersByPosition cc (Suc k) bs t (of_nat k) = t (of_nat k)"
      by (rule Assign_other)
    with True Cons.prems show ?thesis
      by (simp add: GetOrCreateBanner_def Let_def del: of_nat_Suc)
  next
    case False
    with Cons.prems have p: "Suc k \<le> n" "n < Suc k + length bs" "cc (of_nat n)"
      "\<forall>n'. n < n' \<and> n' < Suc k + length bs \<longrightarrow> (of_nat n' :: 16 word) \<noteq> of_nat n"
      by simp_all
    from False Cons.prems have "n - k = Suc (n - Suc k)"
      by arith
    then have "(b # bs) ! (n - k) = bs ! (n - Suc k)"
      by simp
    with Cons.IH [OF p] show ?thesis
      by (simp add: GetOrCreateBanner_def Let_def del: of_nat_Suc)
  qed
qed

lemma ReadElements_noid:
  "ReadElements (\<lambda>cs. ReadWriteBanner rd 0 cs dflt) n cs = Inr (bs, cs')
   \<Longrightarrow> \<forall>b\<in>set bs. id b = id dflt"
proof (induction n arbitrary: cs bs)
  case 0
  then show ?case by simp
next
  case (Suc n)
  then obtain r c1 rs1 where
    r: "ReadWriteBanner rd 0 cs dflt = Inr (r, c1)" and
    rs1: "ReadElements (\<lambda>cs. ReadWriteBanner rd 0 cs dflt) n c1 = Inr (rs1, cs')" and
    eq: "bs = r # rs1"
    by (auto simp: bind_def split: sum.splits)
  have "id r = id dflt"
    using r by (auto simp: ReadWriteBanner_def bind_def split: sum.splits)
  with Suc.IH [OF rs1] eq show ?case by simp
qed

lemma ReadElements_bytes:
  "n = length xs \<Longrightarrow>
   ReadElements (\<lambda>cs. ReadWriteBanner Read_u8 0 cs dflt) n (xs @ rest)
     = Inr (map (\<lambda>x. dflt\<lparr>body := x\<rparr>) xs, rest)"
proof (induction xs arbitrary: n)
  case Nil
  then show ?case by simp
next
  case (Cons x xs)
  then obtain n' where n: "n = Suc n'" "n' = length xs" by simp
  from Cons.IH [OF n(2)] n(1) show ?case
    by (simp add: ReadWriteBanner_def bind_def)
qed

lemma ReadBannersById_eq:
  "ReadElements (\<lambda>cs. ReadWriteBanner rd version cs dflt) n cs = Inr (rs, cs')
   \<Longrightarrow> ReadBannersById rd version cc dflt n cs tbl
       = (if \<forall>r\<in>set rs. cc (id r) then Inr (PlaceBanners rs tbl, cs')
          else Inl (runtime_error ''Invalid banner index''))"
proof (induction n arbitrary: cs tbl rs)
  case 0
  then show ?case by simp
next
  case (Suc n)
  then obtain r cs1 rs1 where
    r: "ReadWriteBanner rd version cs dflt = Inr (r, cs1)" and
    rs1: "ReadElements (\<lambda>cs. ReadWriteBanner rd version cs dflt) n cs1 = Inr (rs1, cs')" and
    eq: "rs = r # rs1"
    by (auto simp: bind_def split: sum.splits)
  from Suc.IH [OF rs1] r eq show ?case
    by (simp add: GetOrCreateBanner_def)
qed

lemma fold_upd_notin:
  "k \<notin> id ` set rs \<Longrightarrow> PlaceBanners rs tbl k = tbl k"
  by (induction rs arbitrary: tbl) auto

lemma fold_upd_distinct:
  "distinct (map id rs) \<Longrightarrow> r \<in> set rs \<Longrightarrow> PlaceBanners rs tbl (id r) = Some r"
proof (induction rs arbitrary: tbl)
  case Nil
  then show ?case by simp
next
  case (Cons a rs)
  then show ?case by (auto simp: fold_upd_notin)
qed

lemma ReadWriteBanner_id:
  "version \<ge> 1 \<Longrightarrow> ReadWriteBanner rd version cs dflt = Inr (b, cs')
   \<Longrightarrow> \<exists>cs1. Read_u16 cs = Inr (id b, cs1) \<and> rd cs1 = Inr (body b, cs')"
  by (auto simp: ReadWriteBanner_def bind_def split: sum.splits)

lemma ReadWriteBanner_noid:
  "version = 0 \<Longrightarrow> ReadWriteBanner rd version cs dflt = Inr (b, cs')
   \<Longrightarrow> id b = id dflt \<and> rd cs = Inr (body b, cs')"
  by (auto simp: ReadWriteBanner_def bind_def split: sum.splits)

text \<open>
  C4. Reading the Banners chunk. For header version 0 the records are an unindexed list
  (no id is read, each record keeps the default id until it is placed), and the read does
  not fail for a slot: a record whose slot can be created, and which no later record of
  the list reaches again (the slot index is the low 16 bits of the position), ends up in
  the live slot of its position with its id set to that index; a slot that cannot be
  created is left as it was, the record is dropped; and in a list of at most 65536 records
  every record whose slot can be created is in the slot equal to its position. For header
  version 1 or more each record carries its id on the stream and is placed into the live
  slot of that id; when the slot of some record cannot be created the read fails with
  "Invalid banner index".
\<close>

theorem C4_banners:
  "(version = 0 \<and> ReadWriteVector (\<lambda>cs. ReadWriteBanner rd version cs dflt) cs = Inr (banners, cs')
      \<longrightarrow>
      (\<forall>b\<in>set banners. id b = id dflt)
      \<and> (\<exists>tbl'. ReadBannersChunk rd cc dflt version cs tbl = Inr (tbl', cs')
            \<and> (\<forall>i<length banners.
                  cc (of_nat i)
                  \<and> (\<forall>i'. i < i' \<and> i' < length banners \<longrightarrow> (of_nat i' :: 16 word) \<noteq> of_nat i)
                  \<longrightarrow> tbl' (of_nat i) = Some ((banners ! i)\<lparr>id := of_nat i\<rparr>))
            \<and> (\<forall>j. \<not> cc j \<longrightarrow> tbl' j = tbl j)
            \<and> (length banners \<le> 65536 \<longrightarrow>
                 (\<forall>i<length banners. cc (of_nat i) \<longrightarrow>
                    tbl' (of_nat i) = Some ((banners ! i)\<lparr>id := of_nat i\<rparr>)))))
   \<and> (version \<ge> 1 \<and> Read_u32 cs = Inr (n, cs1)
      \<and> ReadElements (\<lambda>cs. ReadWriteBanner rd version cs dflt) (unat n) cs1 = Inr (rs, cs') \<longrightarrow>
      ((\<forall>r\<in>set rs. cc (id r)) \<longrightarrow>
          ReadBannersChunk rd cc dflt version cs tbl = Inr (PlaceBanners rs tbl, cs')
          \<and> (distinct (map id rs) \<longrightarrow>
                (\<forall>r\<in>set rs. PlaceBanners rs tbl (id r) = Some r)))
      \<and> ((\<exists>r\<in>set rs. \<not> cc (id r)) \<longrightarrow>
          ReadBannersChunk rd cc dflt version cs tbl = Inl (runtime_error ''Invalid banner index'')))
   \<and> (version \<ge> 1 \<and> ReadWriteBanner rd version cs dflt = Inr (b, cs') \<longrightarrow>
      (\<exists>cs1. Read_u16 cs = Inr (id b, cs1) \<and> rd cs1 = Inr (body b, cs')))"
proof (intro conjI impI)
  assume a: "version = 0 \<and> ReadWriteVector (\<lambda>cs. ReadWriteBanner rd version cs dflt) cs = Inr (banners, cs')"
  from a show "\<forall>b\<in>set banners. id b = id dflt"
    by (auto simp: ReadWriteVector_def bind_def split: sum.splits dest!: ReadElements_noid)
  from a have v0: "version = 0"
    and rv: "ReadWriteVector (\<lambda>cs. ReadWriteBanner rd 0 cs dflt) cs = Inr (banners, cs')"
    by auto
  let ?t = "AssignBannersByPosition cc 0 banners tbl"
  from v0 rv have r: "ReadBannersChunk rd cc dflt version cs tbl = Inr (?t, cs')"
    by (simp add: ReadBannersChunk_def)
  have p1: "\<forall>i<length banners.
      cc (of_nat i)
      \<and> (\<forall>i'. i < i' \<and> i' < length banners \<longrightarrow> (of_nat i' :: 16 word) \<noteq> of_nat i)
      \<longrightarrow> ?t (of_nat i) = Some ((banners ! i)\<lparr>id := of_nat i\<rparr>)"
    using Assign_nth [of 0 _ banners cc tbl] by simp
  have p2: "\<forall>j. \<not> cc j \<longrightarrow> ?t j = tbl j"
    using Assign_other [of cc _ 0 banners tbl] by simp
  have p3: "length banners \<le> 65536 \<longrightarrow>
      (\<forall>i<length banners. cc (of_nat i) \<longrightarrow> ?t (of_nat i) = Some ((banners ! i)\<lparr>id := of_nat i\<rparr>))"
  proof (intro impI allI)
    fix i assume l: "length banners \<le> 65536" and i: "i < length banners" and c: "cc (of_nat i)"
    have "\<forall>i'. i < i' \<and> i' < length banners \<longrightarrow> (of_nat i' :: 16 word) \<noteq> of_nat i"
      using l i by (auto simp: of_nat_16_inj)
    with p1 i c show "?t (of_nat i) = Some ((banners ! i)\<lparr>id := of_nat i\<rparr>)" by blast
  qed
  from r p1 p2 p3
  show "\<exists>tbl'. ReadBannersChunk rd cc dflt version cs tbl = Inr (tbl', cs')
            \<and> (\<forall>i<length banners.
                  cc (of_nat i)
                  \<and> (\<forall>i'. i < i' \<and> i' < length banners \<longrightarrow> (of_nat i' :: 16 word) \<noteq> of_nat i)
                  \<longrightarrow> tbl' (of_nat i) = Some ((banners ! i)\<lparr>id := of_nat i\<rparr>))
            \<and> (\<forall>j. \<not> cc j \<longrightarrow> tbl' j = tbl j)
            \<and> (length banners \<le> 65536 \<longrightarrow>
                 (\<forall>i<length banners. cc (of_nat i) \<longrightarrow>
                    tbl' (of_nat i) = Some ((banners ! i)\<lparr>id := of_nat i\<rparr>)))"
    by blast
next
  assume a: "version \<ge> 1 \<and> Read_u32 cs = Inr (n, cs1)
      \<and> ReadElements (\<lambda>cs. ReadWriteBanner rd version cs dflt) (unat n) cs1 = Inr (rs, cs')"
  then have v: "version \<noteq> 0" by auto
  assume "\<forall>r\<in>set rs. cc (id r)"
  with a v show "ReadBannersChunk rd cc dflt version cs tbl
      = Inr (PlaceBanners rs tbl, cs')"
    by (simp add: ReadBannersChunk_def ReadBannersById_eq)
next
  assume "distinct (map id rs)"
  then show "\<forall>r\<in>set rs. PlaceBanners rs tbl (id r) = Some r"
    by (simp add: fold_upd_distinct)
next
  assume a: "version \<ge> 1 \<and> Read_u32 cs = Inr (n, cs1)
      \<and> ReadElements (\<lambda>cs. ReadWriteBanner rd version cs dflt) (unat n) cs1 = Inr (rs, cs')"
  then have v: "version \<noteq> 0" by auto
  assume "\<exists>r\<in>set rs. \<not> cc (id r)"
  with a v show "ReadBannersChunk rd cc dflt version cs tbl
      = Inl (runtime_error ''Invalid banner index'')"
    by (auto simp: ReadBannersChunk_def ReadBannersById_eq)
next
  assume "version \<ge> 1 \<and> ReadWriteBanner rd version cs dflt = Inr (b, cs')"
  then show "\<exists>cs1. Read_u16 cs = Inr (id b, cs1) \<and> rd cs1 = Inr (body b, cs')"
    using ReadWriteBanner_id by blast
qed

theorem C4_banners_witness:
  "(\<exists>tbl'. ReadBannersChunk Read_u8 (\<lambda>i. i < 0x2000) \<lparr>id = 0xFFFF, body = 0\<rparr> 0
        [2, 0, 0, 0, 7, 9] Map.empty = Inr (tbl', [])
      \<and> tbl' 0 = Some \<lparr>id = 0, body = 7\<rparr> \<and> tbl' 1 = Some \<lparr>id = 1, body = 9\<rparr>
      \<and> tbl' 0x2000 = None)
   \<and> (\<exists>tbl'. ReadBannersChunk Read_u8 (\<lambda>i. i < 0x2000) \<lparr>id = 0xFFFF, body = 0\<rparr> 2
        [1, 0, 0, 0, 5, 0, 7] Map.empty = Inr (tbl', [])
      \<and> tbl' 5 = Some \<lparr>id = 5, body = 7\<rparr>)
   \<and> ReadBannersChunk Read_u8 (\<lambda>i. i < 0x2000) \<lparr>id = 0xFFFF, body = 0\<rparr> 2
        [1, 0, 0, 0, 0xFF, 0xFF, 7] Map.empty = Inl (runtime_error ''Invalid banner index'')"
proof -
  let ?cc = "\<lambda>i :: 16 word. i < 0x2000"
  let ?d = "\<lparr>id = 0xFFFF :: 16 word, body = 0 :: 8 word\<rparr>"
  have h0: "ReadWriteVector (\<lambda>cs. ReadWriteBanner Read_u8 0 cs ?d) [2, 0, 0, 0, 7, 9]
      = Inr ([\<lparr>id = 0xFFFF, body = 7\<rparr>, \<lparr>id = 0xFFFF, body = 9\<rparr>], [])"
  proof -
    have u: "Read_u32 [2, 0, 0, 0, 7, 9] = Inr (2, [7, 9])"
      by (simp add: Read_u32_def Read_bytes_def bind_def)
    have e: "ReadElements (\<lambda>cs. ReadWriteBanner Read_u8 0 cs ?d) 2 [7, 9]
        = Inr ([\<lparr>id = 0xFFFF, body = 7\<rparr>, \<lparr>id = 0xFFFF, body = 9\<rparr>], [])"
      by (simp add: numeral_2_eq_2 ReadWriteBanner_def bind_def)
    show ?thesis
      unfolding ReadWriteVector_def u by (simp add: bind_def e)
  qed
  from C4_banners [of 0 Read_u8 ?d "[2, 0, 0, 0, 7, 9]"
      "[\<lparr>id = 0xFFFF, body = 7\<rparr>, \<lparr>id = 0xFFFF, body = 9\<rparr>]" "[]" ?cc Map.empty] h0
  obtain tbl' where
    a: "ReadBannersChunk Read_u8 ?cc ?d 0 [2, 0, 0, 0, 7, 9] Map.empty = Inr (tbl', [])" and
    b: "\<forall>i<2. ?cc (of_nat i) \<longrightarrow>
          tbl' (of_nat i) = Some (([\<lparr>id = 0xFFFF, body = 7\<rparr>, \<lparr>id = 0xFFFF, body = 9\<rparr>] ! i)\<lparr>id := of_nat i\<rparr>)" and
    c: "\<forall>j. \<not> ?cc j \<longrightarrow> tbl' j = Map.empty j"
    by auto
  from b have "tbl' 0 = Some \<lparr>id = 0, body = 7\<rparr>"
    by (auto dest!: spec [of _ 0])
  moreover from b have "tbl' 1 = Some \<lparr>id = 1, body = 9\<rparr>"
    by (auto dest!: spec [of _ 1])
  moreover from c have "tbl' 0x2000 = None"
    by (auto dest!: spec [of _ "0x2000"])
  ultimately have p0: "\<exists>tbl'. ReadBannersChunk Read_u8 ?cc ?d 0 [2, 0, 0, 0, 7, 9] Map.empty = Inr (tbl', [])
      \<and> tbl' 0 = Some \<lparr>id = 0, body = 7\<rparr> \<and> tbl' 1 = Some \<lparr>id = 1, body = 9\<rparr>
      \<and> tbl' 0x2000 = None"
    using a by blast
  have h1: "Read_u32 [1, 0, 0, 0, 5, 0, 7] = Inr (1, [5, 0, 7])"
    by (simp add: Read_u32_def Read_bytes_def bind_def)
  have h2: "ReadElements (\<lambda>cs. ReadWriteBanner Read_u8 2 cs ?d) (unat (1 :: 32 word)) [5, 0, 7]
      = Inr ([\<lparr>id = 5, body = 7\<rparr>], [])"
    by (simp add: ReadWriteBanner_def Read_u16_def Read_bytes_def bind_def)
  from C4_banners [of 2 Read_u8 ?d "[1, 0, 0, 0, 5, 0, 7]" _ "[]" ?cc Map.empty 1 "[5, 0, 7]"
      "[\<lparr>id = 5, body = 7\<rparr>]"] h1 h2
  have p1: "\<exists>tbl'. ReadBannersChunk Read_u8 ?cc ?d 2 [1, 0, 0, 0, 5, 0, 7] Map.empty = Inr (tbl', [])
      \<and> tbl' 5 = Some \<lparr>id = 5, body = 7\<rparr>"
    by simp
  have h3: "Read_u32 [1, 0, 0, 0, 0xFF, 0xFF, 7] = Inr (1, [0xFF, 0xFF, 7])"
    by (simp add: Read_u32_def Read_bytes_def bind_def)
  have h4: "ReadElements (\<lambda>cs. ReadWriteBanner Read_u8 2 cs ?d) (unat (1 :: 32 word)) [0xFF, 0xFF, 7]
      = Inr ([\<lparr>id = 0xFFFF, body = 7\<rparr>], [])"
    by (simp add: ReadWriteBanner_def Read_u16_def Read_bytes_def bind_def)
  from C4_banners [of 2 Read_u8 ?d "[1, 0, 0, 0, 0xFF, 0xFF, 7]" _ "[]" ?cc Map.empty 1 "[0xFF, 0xFF, 7]"
      "[\<lparr>id = 0xFFFF, body = 7\<rparr>]"] h3 h4
  have p2: "ReadBannersChunk Read_u8 ?cc ?d 2 [1, 0, 0, 0, 0xFF, 0xFF, 7] Map.empty
      = Inl (runtime_error ''Invalid banner index'')"
    by simp
  from p0 p1 p2 show ?thesis by blast
qed

lemma Read_u32_cons:
  "Read_u32 (a # b # c # d # rest) = Inr (le_word [a, b, c, d], rest)"
  by (simp add: Read_u32_def Read_bytes_def bind_def)

lemma ReadBannersChunk_bytes:
  assumes n: "unat (le_word [a, b, c, d] :: 32 word) = length xs"
  shows "ReadBannersChunk Read_u8 cc dflt 0 (a # b # c # d # xs) tbl
     = Inr (AssignBannersByPosition cc 0 (map (\<lambda>x. dflt\<lparr>body := x\<rparr>) xs) tbl, [])"
  using ReadElements_bytes [of "length xs" xs dflt "[]"] n
  by (simp add: ReadBannersChunk_def ReadWriteVector_def Read_u32_cons)

text \<open>
  C4, where the claim fails. Version 0, the slots 0 to 0x1FFF can be created, the live
  table is empty. First chunk: 8193 records. The read returns, and slot 0x2000 is empty:
  the record at position 8192 is in no slot (lines 994 to 1000 skip a slot that cannot be
  created, without an error). Second chunk: 65537 records, the last one with another
  content. The read returns, and slot 0 holds the last record: position 65536 is cast to
  the banner index 0, so the record at position 0 is not in the slot of its position.
\<close>

theorem C4_version0_record_not_in_slot:
  "(case ReadBannersChunk Read_u8 (\<lambda>i. i < 0x2000) \<lparr>id = 0xFFFF, body = 0\<rparr> 0
           ([0x01, 0x20, 0, 0] @ replicate 8193 7) Map.empty of
      Inl e \<Rightarrow> False
    | Inr (tbl', cs') \<Rightarrow> cs' = [] \<and> tbl' 0x2000 = None)
   \<and> (case ReadBannersChunk Read_u8 (\<lambda>i. i < 0x2000) \<lparr>id = 0xFFFF, body = 0\<rparr> 0
           ([0x01, 0, 0x01, 0] @ replicate 65536 7 @ [9]) Map.empty of
      Inl e \<Rightarrow> False
    | Inr (tbl', cs') \<Rightarrow> cs' = [] \<and> tbl' 0 = Some \<lparr>id = 0, body = 9\<rparr>)"
proof -
  let ?cc = "\<lambda>i :: 16 word. i < 0x2000"
  let ?d = "\<lparr>id = 0xFFFF :: 16 word, body = 0 :: 8 word\<rparr>"
  define xs :: "byte list" where "xs = replicate 8193 7"
  define ys :: "byte list" where "ys = replicate 65536 7 @ [9]"
  have lx: "length xs = 8193" by (simp add: xs_def)
  have ly: "length ys = 65537" by (simp add: ys_def)
  have "unat (le_word [0x01, 0x20, 0, 0] :: 32 word) = length xs"
    by (simp add: lx)
  from ReadBannersChunk_bytes [OF this, of ?cc ?d Map.empty]
  have r1: "ReadBannersChunk Read_u8 ?cc ?d 0 ([0x01, 0x20, 0, 0] @ xs) Map.empty
      = Inr (AssignBannersByPosition ?cc 0 (map (\<lambda>x. ?d\<lparr>body := x\<rparr>) xs) Map.empty, [])"
    by simp
  have d1: "AssignBannersByPosition ?cc 0 (map (\<lambda>x. ?d\<lparr>body := x\<rparr>) xs) Map.empty 0x2000 = None"
    using Assign_other [of ?cc "0x2000" 0 "map (\<lambda>x. ?d\<lparr>body := x\<rparr>) xs" Map.empty] by simp
  have "unat (le_word [0x01, 0, 0x01, 0] :: 32 word) = length ys"
    by (simp add: ly)
  from ReadBannersChunk_bytes [OF this, of ?cc ?d Map.empty]
  have r2: "ReadBannersChunk Read_u8 ?cc ?d 0 ([0x01, 0, 0x01, 0] @ ys) Map.empty
      = Inr (AssignBannersByPosition ?cc 0 (map (\<lambda>x. ?d\<lparr>body := x\<rparr>) ys) Map.empty, [])"
    by simp
  have z: "(of_nat 65536 :: 16 word) = 0" by simp
  have z': "(65536 :: 16 word) = 0" by simp
  have "AssignBannersByPosition ?cc 0 (map (\<lambda>x. ?d\<lparr>body := x\<rparr>) ys) Map.empty (of_nat 65536)
      = Some ((map (\<lambda>x. ?d\<lparr>body := x\<rparr>) ys ! (65536 - 0))\<lparr>id := of_nat 65536\<rparr>)"
  proof (rule Assign_nth)
    show "0 \<le> (65536 :: nat)" by simp
    show "65536 < 0 + length (map (\<lambda>x. ?d\<lparr>body := x\<rparr>) ys)" by (simp add: ly)
    show "?cc (of_nat 65536)" by (simp add: z)
    show "\<forall>n'. 65536 < n' \<and> n' < 0 + length (map (\<lambda>x. ?d\<lparr>body := x\<rparr>) ys)
        \<longrightarrow> (of_nat n' :: 16 word) \<noteq> of_nat 65536"
    proof (intro allI impI)
      fix n' :: nat
      assume "65536 < n' \<and> n' < 0 + length (map (\<lambda>x. ?d\<lparr>body := x\<rparr>) ys)"
      then have "65536 < n'" "n' < 65537" using ly by simp_all
      then have False by arith
      then show "(of_nat n' :: 16 word) \<noteq> of_nat 65536" by simp
    qed
  qed
  moreover have "ys ! 65536 = 9"
    by (simp add: ys_def nth_append)
  ultimately have d2: "AssignBannersByPosition ?cc 0 (map (\<lambda>x. ?d\<lparr>body := x\<rparr>) ys) Map.empty 0
      = Some \<lparr>id = 0, body = 9\<rparr>"
    using ly by (simp add: z')
  from r1 d1 r2 d2 show ?thesis
    by (simp add: xs_def ys_def)
qed

lemma interleaved_simps:
  "version \<le> 1 \<Longrightarrow> interleaved version GuestKind g s = g"
  "version \<le> 1 \<Longrightarrow> interleaved version StaffKind g s = s"
  "\<not> version \<le> 1 \<Longrightarrow> interleaved version kind g s = []"
  by (simp_all add: interleaved_def)

lemma version_le_1 [simp]: "\<not> (6 :: 32 word) \<le> 1" "\<not> (2 :: 32 word) \<le> 1"
  by (simp_all add: word_le_nat_alt)

lemma peep_legacy: "version \<le> 1 \<Longrightarrow> ReadWritePeep version kind = ReadWritePeep 0 kind"
  by (simp add: ReadWritePeep_def interleaved_def)

lemma peep_disjoint: "\<not> version \<le> 1 \<Longrightarrow> ReadWritePeep version kind = ReadWritePeep 6 kind"
  by (simp add: ReadWritePeep_def interleaved_def)

lemma peep_disjoint_shared: "\<not> version \<le> 1 \<Longrightarrow> \<not> interleaved_layout (ReadWritePeep version kind)"
  by (simp add: ReadWritePeep_def interleaved_simps interleaved_layout_def ReadWriteEntityCommon_def)

lemma peep_interleaved: "version \<le> 1 \<Longrightarrow> interleaved_layout (ReadWritePeep version kind)"
  by (cases kind) (simp_all add: ReadWritePeep_def interleaved_simps interleaved_layout_def)

lemma version_facts [simp]:
  "(0 :: 32 word) \<le> 1" "(0 :: 32 word) < 3" "(2 :: 32 word) < 3" "(2 :: 32 word) \<le> 2"
  "\<not> (6 :: 32 word) < 3" "\<not> (6 :: 32 word) \<le> 2"
  by (simp_all add: word_le_nat_alt word_less_nat_alt)

lemma version_cases:
  fixes version :: "32 word"
  shows "\<not> version \<le> 1 \<Longrightarrow> version < 3 \<Longrightarrow> version = 2"
    and "\<not> version < 3 \<Longrightarrow> \<not> version \<le> 1 \<and> \<not> version \<le> 2"
    and "version \<le> 1 \<Longrightarrow> version < 3 \<and> version \<le> 2"
    and "version \<le> 2 \<longleftrightarrow> version < 3"
  by (simp_all add: word_less_nat_alt word_le_nat_alt word_unat_eq_iff) arith+

lemma guest_legacy: "version \<le> 1 \<Longrightarrow> ReadWriteEntity_Guest version = ReadWriteEntity_Guest 0"
  by (simp add: ReadWriteEntity_Guest_def ReadWritePeep_def interleaved_def)

lemma staff_legacy: "version \<le> 1 \<Longrightarrow> ReadWriteEntity_Staff version = ReadWriteEntity_Staff 0"
  by (simp add: ReadWriteEntity_Staff_def ReadWritePeep_def interleaved_def)

lemma guest_modern: "\<not> version < 3 \<Longrightarrow> ReadWriteEntity_Guest version = ReadWriteEntity_Guest 6"
  using version_cases(2) [of version]
  by (simp add: ReadWriteEntity_Guest_def ReadWritePeep_def interleaved_def)

lemma staff_modern: "\<not> version < 3 \<Longrightarrow> ReadWriteEntity_Staff version = ReadWriteEntity_Staff 6"
  using version_cases(2) [of version]
  by (simp add: ReadWriteEntity_Staff_def ReadWritePeep_def interleaved_def)

lemma peep_0_positional:
  "positionally_interleaved (ReadWritePeep 0 GuestKind) (ReadWritePeep 0 StaffKind)"
  by code_simp

lemma peep_6_shared: "list_all shared_field (ReadWritePeep 6 kind)"
  by (simp add: ReadWritePeep_def interleaved_def ReadWriteEntityCommon_def shared_field_def)

lemma peep_6_same: "ReadWritePeep 6 GuestKind = ReadWritePeep 6 StaffKind"
  by (simp add: ReadWritePeep_def interleaved_def)

lemma history_0:
  "reads_all ride_history_bitmaps (ReadWriteEntity_Guest 0)"
  "reads_none version3_only_fields (ReadWriteEntity_Guest 0)"
  "reads_none version3_only_fields (ReadWriteEntity_Staff 0)"
  by code_simp+

lemma history_2:
  "reads_all ride_history_bitmaps (ReadWriteEntity_Guest 2)"
  "reads_none version3_only_fields (ReadWriteEntity_Guest 2)"
  "reads_none version3_only_fields (ReadWriteEntity_Staff 2)"
  by code_simp+

lemma history_6:
  "reads_all version3_only_fields (ReadWriteEntity_Guest 6)"
  "reads_none ride_history_bitmaps (ReadWriteEntity_Guest 6)"
  by code_simp+

lemma tails_2:
  "drop (length (ReadWritePeep 2 GuestKind)) (ReadWriteEntity_Guest 2) \<noteq> []
   \<and> list_all guest_only (drop (length (ReadWritePeep 2 GuestKind)) (ReadWriteEntity_Guest 2))
   \<and> ReadWriteEntity_Guest 2
       = ReadWritePeep 2 GuestKind
         @ drop (length (ReadWritePeep 2 GuestKind)) (ReadWriteEntity_Guest 2)"
  "drop (length (ReadWritePeep 2 StaffKind)) (ReadWriteEntity_Staff 2) \<noteq> []
   \<and> list_all (\<lambda>op. staff_only op \<or> skip_padding op)
         (drop (length (ReadWritePeep 2 StaffKind)) (ReadWriteEntity_Staff 2))
   \<and> list_ex skip_padding (drop (length (ReadWritePeep 2 StaffKind)) (ReadWriteEntity_Staff 2))
   \<and> ReadWriteEntity_Staff 2
       = ReadWritePeep 2 StaffKind
         @ drop (length (ReadWritePeep 2 StaffKind)) (ReadWriteEntity_Staff 2)"
  by code_simp+

lemma tails_6:
  "drop (length (ReadWritePeep 6 GuestKind)) (ReadWriteEntity_Guest 6) \<noteq> []
   \<and> list_all guest_only (drop (length (ReadWritePeep 6 GuestKind)) (ReadWriteEntity_Guest 6))
   \<and> ReadWriteEntity_Guest 6
       = ReadWritePeep 6 GuestKind
         @ drop (length (ReadWritePeep 6 GuestKind)) (ReadWriteEntity_Guest 6)"
  "drop (length (ReadWritePeep 6 StaffKind)) (ReadWriteEntity_Staff 6) \<noteq> []
   \<and> list_all (\<lambda>op. staff_only op \<or> skip_padding op)
         (drop (length (ReadWritePeep 6 StaffKind)) (ReadWriteEntity_Staff 6))
   \<and> \<not> list_ex skip_padding (drop (length (ReadWritePeep 6 StaffKind)) (ReadWriteEntity_Staff 6))
   \<and> ReadWriteEntity_Staff 6
       = ReadWritePeep 6 StaffKind
         @ drop (length (ReadWritePeep 6 StaffKind)) (ReadWriteEntity_Staff 6)"
  by code_simp+

text \<open>
  C2, as stated, fails: for target version 2 the \<open>Peep\<close> part of a Guest or Staff record
  holds no guest-only field, no staff-only field and no skip-padding; it is the layout of
  version 6, not the layout of version 1.
\<close>

theorem C2_version2_not_interleaved:
  "\<not> interleaved_layout (ReadWritePeep 2 GuestKind)
   \<and> \<not> interleaved_layout (ReadWritePeep 2 StaffKind)
   \<and> \<not> positionally_interleaved (ReadWritePeep 2 GuestKind) (ReadWritePeep 2 StaffKind)
   \<and> ReadWritePeep 2 GuestKind = ReadWritePeep 6 GuestKind
   \<and> ReadWritePeep 2 StaffKind = ReadWritePeep 6 StaffKind
   \<and> ReadWritePeep 2 GuestKind \<noteq> ReadWritePeep 1 GuestKind
   \<and> ReadWritePeep 2 StaffKind \<noteq> ReadWritePeep 1 StaffKind"
  by code_simp

text \<open>
  C2, amended. For a target version of 1 or less the Guest and the Staff record have the
  interleaved legacy layout: position by position the two read the same shared \<open>Peep\<close>
  field, or the Guest record reads a guest-only field where the Staff record reads a
  staff-only field or skips padding, and nothing but the staff patrol area follows. For
  every target version above 1, so for 2 as for 6, the \<open>Peep\<close> part holds the shared
  fields only, the same for both kinds and in all these versions, and the guest or staff
  fields follow it as a separate tail: guest-only fields for a Guest; for Staff the patrol
  area and staff-only fields, with one skipped byte in version 2 and none after it. A
  target version below 3 reads the ride history as the two fixed-size bitmaps and reads
  neither of the two id lists that only versions from 3 on have; a Guest record of version
  3 or more reads both id lists and neither bitmap.
\<close>

theorem C2_peep_layout_by_version:
  "(version \<le> 1 \<longrightarrow>
      positionally_interleaved (ReadWritePeep version GuestKind) (ReadWritePeep version StaffKind)
      \<and> interleaved_layout (ReadWritePeep version kind)
      \<and> ReadWriteEntity_Guest version = ReadWritePeep version GuestKind
      \<and> ReadWriteEntity_Staff version
          = ReadWritePeep version StaffKind @ [RWVector StaffField ''patrolArea''])
   \<and> (\<not> version \<le> 1 \<longrightarrow>
      \<not> interleaved_layout (ReadWritePeep version kind)
      \<and> list_all shared_field (ReadWritePeep version kind)
      \<and> ReadWritePeep version GuestKind = ReadWritePeep version StaffKind
      \<and> ReadWritePeep version kind = ReadWritePeep 6 kind
      \<and> (\<exists>tail. tail \<noteq> [] \<and> list_all guest_only tail
            \<and> ReadWriteEntity_Guest version = ReadWritePeep version GuestKind @ tail)
      \<and> (\<exists>tail. tail \<noteq> [] \<and> list_all (\<lambda>op. staff_only op \<or> skip_padding op) tail
            \<and> (list_ex skip_padding tail \<longleftrightarrow> version \<le> 2)
            \<and> ReadWriteEntity_Staff version = ReadWritePeep version StaffKind @ tail))
   \<and> (version < 3 \<longrightarrow>
        reads_all ride_history_bitmaps (ReadWriteEntity_Guest version)
        \<and> reads_none version3_only_fields (ReadWriteEntity_Guest version)
        \<and> reads_none version3_only_fields (ReadWriteEntity_Staff version))
   \<and> (\<not> version < 3 \<longrightarrow>
        reads_all version3_only_fields (ReadWriteEntity_Guest version)
        \<and> reads_none ride_history_bitmaps (ReadWriteEntity_Guest version))"
proof (intro conjI impI)
  assume v: "version \<le> 1"
  show "positionally_interleaved (ReadWritePeep version GuestKind) (ReadWritePeep version StaffKind)"
    by (simp only: peep_legacy [OF v] peep_0_positional)
  show "interleaved_layout (ReadWritePeep version kind)" using v by (rule peep_interleaved)
  show "ReadWriteEntity_Guest version = ReadWritePeep version GuestKind"
    using v by (simp add: ReadWriteEntity_Guest_def)
  show "ReadWriteEntity_Staff version
          = ReadWritePeep version StaffKind @ [RWVector StaffField ''patrolArea'']"
    using v by (simp add: ReadWriteEntity_Staff_def)
next
  assume v: "\<not> version \<le> 1"
  show "\<not> interleaved_layout (ReadWritePeep version kind)" using v by (rule peep_disjoint_shared)
  show "list_all shared_field (ReadWritePeep version kind)"
    by (simp only: peep_disjoint [OF v] peep_6_shared)
  show "ReadWritePeep version GuestKind = ReadWritePeep version StaffKind"
    by (simp only: peep_disjoint [OF v] peep_6_same)
  show "ReadWritePeep version kind = ReadWritePeep 6 kind" using v by (rule peep_disjoint)
  show "\<exists>tail. tail \<noteq> [] \<and> list_all guest_only tail
            \<and> ReadWriteEntity_Guest version = ReadWritePeep version GuestKind @ tail"
  proof (cases "version < 3")
    case True
    with v have v2: "version = 2" by (rule version_cases(1))
    from tails_2(1) show ?thesis unfolding v2 by blast
  next
    case False
    from tails_6(1) show ?thesis
      by (simp only: guest_modern [OF False] peep_disjoint [OF v]) blast
  qed
  show "\<exists>tail. tail \<noteq> [] \<and> list_all (\<lambda>op. staff_only op \<or> skip_padding op) tail
            \<and> (list_ex skip_padding tail \<longleftrightarrow> version \<le> 2)
            \<and> ReadWriteEntity_Staff version = ReadWritePeep version StaffKind @ tail"
  proof (cases "version < 3")
    case True
    with v have v2: "version = 2" by (rule version_cases(1))
    have "(2 :: 32 word) \<le> 2" by simp
    with tails_2(2) show ?thesis unfolding v2 by blast
  next
    case False
    then have "\<not> version \<le> 2" using version_cases(2) by blast
    with tails_6(2) show ?thesis
      by (simp only: staff_modern [OF False] peep_disjoint [OF v]) blast
  qed
next
  assume v: "version < 3"
  show "reads_all ride_history_bitmaps (ReadWriteEntity_Guest version)"
  proof (cases "version \<le> 1")
    case True
    show ?thesis by (simp only: guest_legacy [OF True] history_0(1))
  next
    case False
    from False v have "version = 2" by (rule version_cases(1))
    with history_2(1) show ?thesis by simp
  qed
  show "reads_none version3_only_fields (ReadWriteEntity_Guest version)"
  proof (cases "version \<le> 1")
    case True
    show ?thesis by (simp only: guest_legacy [OF True] history_0(2))
  next
    case False
    from False v have "version = 2" by (rule version_cases(1))
    with history_2(2) show ?thesis by simp
  qed
  show "reads_none version3_only_fields (ReadWriteEntity_Staff version)"
  proof (cases "version \<le> 1")
    case True
    show ?thesis by (simp only: staff_legacy [OF True] history_0(3))
  next
    case False
    from False v have "version = 2" by (rule version_cases(1))
    with history_2(3) show ?thesis by simp
  qed
next
  assume v: "\<not> version < 3"
  show "reads_all version3_only_fields (ReadWriteEntity_Guest version)"
    by (simp only: guest_modern [OF v] history_6(1))
  show "reads_none ride_history_bitmaps (ReadWriteEntity_Guest version)"
    by (simp only: guest_modern [OF v] history_6(2))
qed

theorem C2_peep_layout_by_version_witness:
  "positionally_interleaved (ReadWritePeep 1 GuestKind) (ReadWritePeep 1 StaffKind)
   \<and> reads_all ride_history_bitmaps (ReadWriteEntity_Guest 1)
   \<and> \<not> interleaved_layout (ReadWritePeep 2 GuestKind)
   \<and> ReadWritePeep 2 GuestKind = ReadWritePeep 2 StaffKind
   \<and> reads_all ride_history_bitmaps (ReadWriteEntity_Guest 2)
   \<and> reads_none version3_only_fields (ReadWriteEntity_Guest 2)
   \<and> \<not> interleaved_layout (ReadWritePeep 6 GuestKind)
   \<and> reads_all version3_only_fields (ReadWriteEntity_Guest 6)
   \<and> reads_none ride_history_bitmaps (ReadWriteEntity_Guest 6)"
proof -
  have v: "(1 :: 32 word) \<le> 1" "(1 :: 32 word) < 3" "\<not> (2 :: 32 word) \<le> 1" "(2 :: 32 word) < 3"
    "\<not> (6 :: 32 word) \<le> 1" "\<not> (6 :: 32 word) < 3"
    by (simp_all add: word_le_nat_alt word_less_nat_alt)
  from C2_peep_layout_by_version [of 1 GuestKind] v(1,2)
  have a: "positionally_interleaved (ReadWritePeep 1 GuestKind) (ReadWritePeep 1 StaffKind)
      \<and> reads_all ride_history_bitmaps (ReadWriteEntity_Guest 1)"
    by blast
  from C2_peep_layout_by_version [of 2 GuestKind] v(3,4)
  have b: "\<not> interleaved_layout (ReadWritePeep 2 GuestKind)
      \<and> ReadWritePeep 2 GuestKind = ReadWritePeep 2 StaffKind
      \<and> reads_all ride_history_bitmaps (ReadWriteEntity_Guest 2)
      \<and> reads_none version3_only_fields (ReadWriteEntity_Guest 2)"
    by blast
  from C2_peep_layout_by_version [of 6 GuestKind] v(5,6)
  have c: "\<not> interleaved_layout (ReadWritePeep 6 GuestKind)
      \<and> reads_all version3_only_fields (ReadWriteEntity_Guest 6)
      \<and> reads_none ride_history_bitmaps (ReadWriteEntity_Guest 6)"
    by blast
  from a b c show ?thesis by blast
qed

text \<open>
  C1. With the live table 16 months by 14 types, a stored table of 1 month by 15 types
  followed by the historical profit 999 is read without error, but the fifteenth entry is
  not skipped: it is decoded as the historical profit, and the bytes of the stored profit
  are left for the next field. A stored table of 1 month by 14 types is read in full.
\<close>

theorem C1_expenditure_excess_not_skipped:
  "(case ReadParkFinances 16 14 (WriteParkFinances 1 15 (\<lambda>i j. of_nat (100 + j)) 999) (\<lambda>i j. 0) of
      Inl e \<Rightarrow> False
    | Inr ((tbl, gHistoricalProfit), rest) \<Rightarrow>
        tbl 0 13 = 113 \<and> gHistoricalProfit = 114 \<and> gHistoricalProfit \<noteq> 999
        \<and> rest = le_bytes 8 (999 :: 64 word))
   \<and> (case ReadParkFinances 16 14 (WriteParkFinances 1 14 (\<lambda>i j. of_nat (100 + j)) 999) (\<lambda>i j. 0) of
      Inl e \<Rightarrow> False
    | Inr ((tbl, gHistoricalProfit), rest) \<Rightarrow>
        tbl 0 13 = 113 \<and> gHistoricalProfit = 999 \<and> rest = [])"
  by code_simp

lemma foldl_map_insert:
  "foldl map_insert m xs k = (case m k of Some v \<Rightarrow> Some v | None \<Rightarrow> map_of xs k)"
  by (induction xs arbitrary: m) (auto simp: map_insert_def split: option.splits)

lemma oldObjectIds_map_of: "oldObjectIds = map_of oldObjectIds_init"
  by (rule ext) (simp add: oldObjectIds_def foldl_map_insert)

text \<open>
  C6. \<open>MapToNewObjectIdentifier\<close> is a function of its argument alone, defined on every
  string: for an identifier that is a key of the table the result is the identifier that
  the table maps it to, and for every other identifier the result is the input.
\<close>

theorem C6_remap_lookup:
  "(s \<in> fst ` set oldObjectIds_init \<longrightarrow>
      (s, MapToNewObjectIdentifier s) \<in> set oldObjectIds_init
      \<and> map_of oldObjectIds_init s = Some (MapToNewObjectIdentifier s))
   \<and> (s \<notin> fst ` set oldObjectIds_init \<longrightarrow> MapToNewObjectIdentifier s = s)"
proof (intro conjI impI)
  assume "s \<in> fst ` set oldObjectIds_init"
  then obtain v where v: "map_of oldObjectIds_init s = Some v"
    by (meson domD domI map_of_eq_None_iff option.exhaust)
  then have m: "MapToNewObjectIdentifier s = v"
    by (simp add: MapToNewObjectIdentifier_def oldObjectIds_map_of)
  from v m show "(s, MapToNewObjectIdentifier s) \<in> set oldObjectIds_init"
    by (auto dest: map_of_SomeD)
  from v m show "map_of oldObjectIds_init s = Some (MapToNewObjectIdentifier s)"
    by simp
next
  assume "s \<notin> fst ` set oldObjectIds_init"
  then have "map_of oldObjectIds_init s = None"
    by (simp add: map_of_eq_None_iff)
  then show "MapToNewObjectIdentifier s = s"
    by (simp add: MapToNewObjectIdentifier_def oldObjectIds_map_of)
qed

lemma absent_parts:
  "map_of oldObjectIds_0 ''rct2.ride.twist1'' = None"
  "map_of oldObjectIds_1 ''rct2.ride.twist1'' = None"
  "map_of oldObjectIds_2 ''rct2.ride.twist1'' = None"
  "map_of oldObjectIds_3 ''rct2.ride.twist1'' = None"
  "map_of oldObjectIds_4 ''rct2.ride.twist1'' = None"
  "map_of oldObjectIds_5 ''rct2.ride.twist1'' = None"
  "map_of oldObjectIds_6 ''rct2.ride.twist1'' = None"
  "map_of oldObjectIds_7 ''rct2.ride.twist1'' = None"
  "map_of oldObjectIds_8 ''rct2.ride.twist1'' = None"
  "map_of oldObjectIds_9 ''rct2.ride.twist1'' = None"
  "map_of oldObjectIds_10 ''rct2.ride.twist1'' = None"
  "map_of oldObjectIds_11 ''rct2.ride.twist1'' = None"
  "map_of oldObjectIds_12 ''rct2.ride.twist1'' = None"
  "map_of oldObjectIds_13 ''rct2.ride.twist1'' = None"
  "map_of oldObjectIds_14 ''rct2.ride.twist1'' = None"
  "map_of oldObjectIds_15 ''rct2.ride.twist1'' = None"
  "map_of oldObjectIds_16 ''rct2.ride.twist1'' = None"
  "map_of oldObjectIds_17 ''rct2.ride.twist1'' = None"
  "map_of oldObjectIds_18 ''rct2.ride.twist1'' = None"
  "map_of oldObjectIds_19 ''rct2.ride.twist1'' = None"
  "map_of oldObjectIds_20 ''rct2.ride.twist1'' = None"
  "map_of oldObjectIds_21 ''rct2.ride.twist1'' = None"
  by code_simp+

lemma absent: "''rct2.ride.twist1'' \<notin> fst ` set oldObjectIds_init"
proof -
  have "map_of oldObjectIds_init ''rct2.ride.twist1'' = None"
    by (simp add: oldObjectIds_init_def map_add_def absent_parts)
  then show ?thesis
    by (rule iffD1 [OF map_of_eq_None_iff])
qed

lemma present: "map_of oldObjectIds_init ''official.scgpanda'' = Some ''rct2dlc.scenery_group.scgpanda''"
proof -
  have "map_of oldObjectIds_0 ''official.scgpanda'' = Some ''rct2dlc.scenery_group.scgpanda''"
    by code_simp
  then show ?thesis
    by (simp add: oldObjectIds_init_def map_add_def)
qed

theorem C6_remap_lookup_witness:
  "''official.scgpanda'' \<in> fst ` set oldObjectIds_init
   \<and> MapToNewObjectIdentifier ''official.scgpanda'' = ''rct2dlc.scenery_group.scgpanda''
   \<and> ''rct2.ride.twist1'' \<notin> fst ` set oldObjectIds_init
   \<and> MapToNewObjectIdentifier ''rct2.ride.twist1'' = ''rct2.ride.twist1''"
proof -
  have q: "''official.scgpanda'' \<in> fst ` set oldObjectIds_init"
    using present by (metis map_of_eq_None_iff option.distinct(1))
  from C6_remap_lookup [of "''official.scgpanda''"] present q
  have "MapToNewObjectIdentifier ''official.scgpanda'' = ''rct2dlc.scenery_group.scgpanda''"
    by simp
  moreover from C6_remap_lookup [of "''rct2.ride.twist1''"] absent
  have "MapToNewObjectIdentifier ''rct2.ride.twist1'' = ''rct2.ride.twist1''"
    by simp
  ultimately show ?thesis using q absent by simp
qed

lemma FindFrom_None: "(FindFrom k (registered t xs) x = None) = (x \<notin> set xs)"
  by (induction xs arbitrary: k) (auto simp: registered_def DescriptorOfIdentifier_def)

lemma FindFrom_Some:
  "FindFrom k (registered t xs) x = Some i \<Longrightarrow> k \<le> i \<and> i - k < length xs \<and> xs ! (i - k) = x"
proof (induction xs arbitrary: k)
  case Nil
  then show ?case by (simp add: registered_def)
next
  case (Cons a xs)
  show ?case
  proof (cases "a = x")
    case True
    with Cons.prems show ?thesis
      by (simp add: registered_def DescriptorOfIdentifier_def)
  next
    case False
    with Cons.prems have "FindFrom (Suc k) (registered t xs) x = Some i"
      by (simp add: registered_def DescriptorOfIdentifier_def)
    from Cons.IH [OF this] have "Suc k \<le> i" "i - Suc k < length xs" "xs ! (i - Suc k) = x"
      by simp_all
    moreover then have "i - k = Suc (i - Suc k)" by arith
    ultimately show ?thesis by simp
  qed
qed

lemma SetObject_append:
  "ol t = registered t xs \<Longrightarrow> unat c = length xs
   \<Longrightarrow> SetObject ol c (DescriptorOfIdentifier t x []) = ol(t := registered t (xs @ [x]))"
proof -
  assume ol: "ol t = registered t xs" and c: "unat c = length xs"
  have "(registered t xs @ [None])[length xs := Some (DescriptorOfIdentifier t x [])]
      = registered t xs @ [Some (DescriptorOfIdentifier t x [])]"
    using list_update_length [of "registered t xs" None "[]" "Some (DescriptorOfIdentifier t x [])"]
    by (simp add: registered_def)
  moreover have "Type (DescriptorOfIdentifier t x []) = t"
    by (simp add: DescriptorOfIdentifier_def)
  ultimately show ?thesis
    using ol c by (simp add: SetObject_def Let_def registered_def)
qed

lemma of_nat_16_unat: "i < 65536 \<Longrightarrow> unat (of_nat i :: 16 word) = i"
  by (simp add: unat_of_nat)

lemma unat_N_bound: "unat (N :: 16 word) < 65536"
  using unsigned_less [of N, where 'a = nat] by simp

lemma FindOrRegister_inv:
  assumes ol: "ol t = registered t xs" and d: "distinct xs" and c: "unat c = length xs"
    and b: "length xs + 1 < unat N"
    and r: "FindOrRegister N t x ol c = (ol', c', idx)"
  shows "\<exists>xs'. ol' = ol(t := registered t xs') \<and> distinct xs' \<and> unat c' = length xs'
           \<and> (xs' = xs \<or> xs' = xs @ [x]) \<and> slot_points idx xs' x"
proof (cases "FindFrom 0 (ol t) x")
  case None
  then have nx: "x \<notin> set xs" using ol by (simp add: FindFrom_None)
  from None r have r': "ol' = SetObject ol c (DescriptorOfIdentifier t x [])" "c' = c + 1" "idx = c"
    by (auto simp: FindOrRegister_def Find_def Let_def)
  have "unat (c + 1) = length xs + 1"
    using c b unat_N_bound [of N] by (simp add: unat_word_ariths)
  moreover have "idx = of_nat (length xs)"
  proof -
    have "of_nat (unat c) = c" by simp
    with r'(3) c show ?thesis by simp
  qed
  ultimately have u: "unat (c + 1) = length (xs @ [x])" and ix: "idx = of_nat (length xs)"
    by simp_all
  have e: "ol' = ol(t := registered t (xs @ [x]))"
    using r'(1) SetObject_append [of ol t xs c x] ol c by simp
  have dd: "distinct (xs @ [x])"
    using d nx by simp
  have sp: "slot_points idx (xs @ [x]) x"
    unfolding slot_points_def using ix by (intro exI [of _ "length xs"]) simp
  show ?thesis
    using e dd u sp r'(2) by (intro exI [of _ "xs @ [x]"]) simp
next
  case (Some i)
  from FindFrom_Some [of 0 t xs x i] Some ol have i: "i < length xs" "xs ! i = x"
    by simp_all
  have "unat (of_nat i :: 16 word) = i"
    using i(1) b unat_N_bound [of N] by (simp add: of_nat_16_unat)
  then have "(of_nat i :: 16 word) \<noteq> N"
    using i(1) b by auto
  with Some r have r': "ol' = ol" "c' = c" "idx = of_nat i"
    by (auto simp: FindOrRegister_def Find_def Let_def)
  have "ol = ol(t := registered t xs)"
    using ol by auto
  with r' i d c show ?thesis
    by (intro exI [of _ xs]) (auto simp: slot_points_def)
qed

lemma slot_points_append: "slot_points w xs a \<Longrightarrow> slot_points w (xs @ zs) a"
  by (auto simp: slot_points_def nth_append)

lemma set_maps_cells:
  fixes fm :: FootpathMaps and va vb vc :: "16 word"
  assumes M: "MAX_PATH_OBJECTS fm = M" and j: "j < M"
  defines "fm' \<equiv> set_pathToRailingsMap
                    (set_pathToQueueSurfaceMap (set_pathToSurfaceMap fm j va) j vb) j vc"
  shows "MAX_PATH_OBJECTS fm' = M"
    and "pathToSurfaceMap fm' j = va"
    and "pathToQueueSurfaceMap fm' j = vb"
    and "pathToRailingsMap fm' j = vc"
    and "\<And>j'. j' < M \<Longrightarrow> j' \<noteq> j \<Longrightarrow>
           pathToSurfaceMap fm' j' = pathToSurfaceMap fm j'
           \<and> pathToQueueSurfaceMap fm' j' = pathToQueueSurfaceMap fm j'
           \<and> pathToRailingsMap fm' j' = pathToRailingsMap fm j'"
  using M j
  by (simp_all add: fm'_def set_pathToRailingsMap_def set_pathToQueueSurfaceMap_def
      set_pathToSurfaceMap_def pathToSurfaceMap_def pathToQueueSurfaceMap_def
      pathToRailingsMap_def)

lemma Update_inv:
  assumes inv: "objects_inv N M n st L xs ys"
    and b: "2 * (n + 1) < unat N"
    and jM: "j < M"
  shows "\<exists>xs' ys'. objects_inv N M (n + 1) (UpdateFootpathsFromMapping N st j m)
           (L(j \<mapsto> triple m)) xs' ys'"
proof -
  let ?ol = "requiredObjects st"
  let ?fm = "footpathMaps st"
  let ?st' = "UpdateFootpathsFromMapping N st j m"
  from inv have
    S: "?ol FootpathSurface = registered FootpathSurface xs" and dx: "distinct xs" and
    sc: "unat (surfaceCount st) = length xs" and lx: "length xs \<le> 2 * n" and
    R: "?ol FootpathRailings = registered FootpathRailings ys" and dy: "distinct ys" and
    rc: "unat (railingsCount st) = length ys" and ly: "length ys \<le> n" and
    MM: "MAX_PATH_OBJECTS ?fm = M" and
    pts: "\<And>j a b c. L j = Some (a, b, c) \<Longrightarrow>
            j < M \<and> slot_points (pathToSurfaceMap ?fm j) xs a
            \<and> slot_points (pathToQueueSurfaceMap ?fm j) xs b
            \<and> slot_points (pathToRailingsMap ?fm j) ys c"
    by (simp_all add: objects_inv_def)
  obtain ol1 sc1 i1 where f1:
    "FindOrRegister N FootpathSurface (NormalSurface m) ?ol (surfaceCount st) = (ol1, sc1, i1)"
    by (metis prod_cases3)
  obtain ol2 sc2 i2 where f2:
    "FindOrRegister N FootpathSurface (QueueSurface m) ol1 sc1 = (ol2, sc2, i2)"
    by (metis prod_cases3)
  obtain ol3 rc3 i3 where f3:
    "FindOrRegister N FootpathRailings (Railing m) ol2 (railingsCount st) = (ol3, rc3, i3)"
    by (metis prod_cases3)
  let ?fm' = "set_pathToRailingsMap
                (set_pathToQueueSurfaceMap (set_pathToSurfaceMap ?fm j i1) j i2) j i3"
  from f1 f2 f3 have
    st': "?st' = \<lparr>requiredObjects = ol3, footpathMaps = ?fm',
                  surfaceCount = sc2, railingsCount = rc3\<rparr>"
    by (simp add: UpdateFootpathsFromMapping_def)
  note cells = set_maps_cells [OF MM jM, where va = i1 and vb = i2 and vc = i3]
  from FindOrRegister_inv [OF S dx sc _ f1] lx b obtain xs1 where
    o1: "ol1 = ?ol(FootpathSurface := registered FootpathSurface xs1)" and d1: "distinct xs1" and
    c1: "unat sc1 = length xs1" and a1: "xs1 = xs \<or> xs1 = xs @ [NormalSurface m]" and
    p1: "slot_points i1 xs1 (NormalSurface m)"
    by auto
  have S1: "ol1 FootpathSurface = registered FootpathSurface xs1" using o1 by simp
  have b1: "length xs1 + 1 < unat N" using a1 lx b by auto
  from FindOrRegister_inv [OF S1 d1 c1 b1 f2] obtain xs2 where
    o2: "ol2 = ol1(FootpathSurface := registered FootpathSurface xs2)" and d2: "distinct xs2" and
    c2: "unat sc2 = length xs2" and a2: "xs2 = xs1 \<or> xs2 = xs1 @ [QueueSurface m]" and
    p2: "slot_points i2 xs2 (QueueSurface m)"
    by auto
  have R2: "ol2 FootpathRailings = registered FootpathRailings ys" using o2 o1 R by simp
  have b2: "length ys + 1 < unat N" using ly b by auto
  from FindOrRegister_inv [OF R2 dy rc b2 f3] obtain ys3 where
    o3: "ol3 = ol2(FootpathRailings := registered FootpathRailings ys3)" and d3: "distinct ys3" and
    c3: "unat rc3 = length ys3" and a3: "ys3 = ys \<or> ys3 = ys @ [Railing m]" and
    p3: "slot_points i3 ys3 (Railing m)"
    by auto
  have S3: "ol3 FootpathSurface = registered FootpathSurface xs2" using o3 o2 by simp
  have R3: "ol3 FootpathRailings = registered FootpathRailings ys3" using o3 by simp
  obtain zs where zs: "xs2 = xs @ zs" using a1 a2 by auto
  obtain zs1 where zs1: "xs2 = xs1 @ zs1" using a2 by auto
  obtain ws where ws: "ys3 = ys @ ws" using a3 by auto
  have lx2: "length xs2 \<le> 2 * (n + 1)" using a1 a2 lx by auto
  have ly3: "length ys3 \<le> n + 1" using a3 ly by auto
  have "\<forall>j' a b c. (L(j \<mapsto> triple m)) j' = Some (a, b, c) \<longrightarrow>
            j' < M
            \<and> slot_points (pathToSurfaceMap ?fm' j') xs2 a
            \<and> slot_points (pathToQueueSurfaceMap ?fm' j') xs2 b
            \<and> slot_points (pathToRailingsMap ?fm' j') ys3 c"
  proof (intro allI impI)
    fix j' a b c assume h: "(L(j \<mapsto> triple m)) j' = Some (a, b, c)"
    show "j' < M
            \<and> slot_points (pathToSurfaceMap ?fm' j') xs2 a
            \<and> slot_points (pathToQueueSurfaceMap ?fm' j') xs2 b
            \<and> slot_points (pathToRailingsMap ?fm' j') ys3 c"
    proof (cases "j' = j")
      case True
      with h have abc: "a = NormalSurface m" "b = QueueSurface m" "c = Railing m"
        by (simp_all add: triple_def)
      have "slot_points i1 xs2 a" using p1 zs1 abc slot_points_append by simp
      with True jM cells(2,3,4) p2 p3 abc show ?thesis by simp
    next
      case False
      with h have L: "L j' = Some (a, b, c)" by simp
      from pts [OF L] have j'M: "j' < M" by simp
      from cells(5) [OF j'M False] pts [OF L] zs ws show ?thesis
        by (simp add: slot_points_append)
    qed
  qed
  with S3 R3 d2 d3 c2 c3 lx2 ly3 cells(1) st'
  have "objects_inv N M (n + 1) ?st' (L(j \<mapsto> triple m)) xs2 ys3"
    by (simp add: objects_inv_def)
  then show ?thesis by blast
qed

lemma SetObject_other: "Type d \<noteq> t \<Longrightarrow> SetObject ol i d t = ol t"
  by (simp add: SetObject_def Let_def)

lemma direct_inv:
  assumes inv: "objects_inv N M n st L xs ys"
    and t: "Type d \<noteq> FootpathSurface" "Type d \<noteq> FootpathRailings"
  shows "objects_inv N M (n + 1) (st\<lparr>requiredObjects := SetObject (requiredObjects st) i d\<rparr>) L xs ys"
  using inv t by (auto simp: objects_inv_def SetObject_other)

lemma none_inv: "objects_inv N M n st L xs ys \<Longrightarrow> objects_inv N M (n + 1) st L xs ys"
  by (auto simp: objects_inv_def)

lemma ReadEntry_total:
  "known_kind k \<Longrightarrow> \<exists>st'. ReadEntry N g version t j k st = Inr st'"
  by (cases k) (simp_all add: known_kind_def ReadEntry_def Let_def split: option.splits)

lemma ReadEntry_inv:
  assumes inv: "objects_inv N M n st L xs ys"
    and b: "2 * (n + 1) < unat N"
    and res: "ReadEntry N g version t j k st = Inr st'"
    and nd: "direct_type g version t k \<noteq> Some FootpathSurface"
            "direct_type g version t k \<noteq> Some FootpathRailings"
    and jM: "footpath_mapping_of g version t k \<noteq> None \<longrightarrow> j < M"
  shows "\<exists>xs' ys'. objects_inv N M (n + 1) st' (note_triple g version (j, t, k) L) xs' ys'"
proof (cases k)
  case DESCRIPTOR_NONE
  with res inv show ?thesis
    using none_inv [OF inv]
    by (auto simp: ReadEntry_def note_triple_def footpath_mapping_of_def)
next
  case (DESCRIPTOR_DAT e)
  show ?thesis
  proof (cases "footpath_mapping_of g version t k")
    case None
    with DESCRIPTOR_DAT res have
      "st' = st\<lparr>requiredObjects := SetObject (requiredObjects st) (of_nat j) (DescriptorOfEntry e)\<rparr>"
      by (auto simp: ReadEntry_def footpath_mapping_of_def Let_def split: if_splits option.splits)
    moreover from None DESCRIPTOR_DAT nd have
      "Type (DescriptorOfEntry e) \<noteq> FootpathSurface" "Type (DescriptorOfEntry e) \<noteq> FootpathRailings"
      by (auto simp: direct_type_def descriptor_of_def)
    ultimately show ?thesis
      using direct_inv [OF inv] None by (auto simp: note_triple_def)
  next
    case (Some m)
    with DESCRIPTOR_DAT res have "st' = UpdateFootpathsFromMapping N st j m"
      by (auto simp: ReadEntry_def footpath_mapping_of_def Let_def split: if_splits option.splits)
    moreover from Some jM have "j < M" by simp
    ultimately show ?thesis
      using Update_inv [OF inv b, of j m] Some by (simp add: note_triple_def)
  qed
next
  case (DESCRIPTOR_JSON ident ver)
  let ?d = "DescriptorOfIdentifier t (MapToNewObjectIdentifier ident) ver"
  show ?thesis
  proof (cases "footpath_mapping_of g version t k")
    case None
    with DESCRIPTOR_JSON res have
      "st' = st\<lparr>requiredObjects := SetObject (requiredObjects st) (of_nat j) ?d\<rparr>"
      by (auto simp: ReadEntry_def footpath_mapping_of_def Let_def split: if_splits option.splits)
    moreover from None DESCRIPTOR_JSON nd have
      "Type ?d \<noteq> FootpathSurface" "Type ?d \<noteq> FootpathRailings"
      by (auto simp: direct_type_def descriptor_of_def)
    ultimately show ?thesis
      using direct_inv [OF inv] None by (auto simp: note_triple_def)
  next
    case (Some m)
    with DESCRIPTOR_JSON res have "st' = UpdateFootpathsFromMapping N st j m"
      by (auto simp: ReadEntry_def footpath_mapping_of_def Let_def split: if_splits option.splits)
    moreover from Some jM have "j < M" by simp
    ultimately show ?thesis
      using Update_inv [OF inv b, of j m] Some by (simp add: note_triple_def)
  qed
next
  case (DESCRIPTOR_OTHER x)
  with res show ?thesis by (simp add: ReadEntry_def)
qed

lemma ReadEntries_total:
  "\<forall>(j, t, k)\<in>set es. known_kind k \<Longrightarrow> \<exists>st'. ReadEntries N g version es st = Inr st'"
proof (induction es arbitrary: st)
  case Nil
  then show ?case by simp
next
  case (Cons e es)
  obtain j t k where e: "e = (j, t, k)" by (metis prod_cases3)
  with Cons.prems have "known_kind k" by simp
  from ReadEntry_total [OF this] obtain st1 where "ReadEntry N g version t j k st = Inr st1"
    by blast
  moreover from Cons.prems have "\<forall>(j, t, k)\<in>set es. known_kind k" by simp
  from Cons.IH [OF this] obtain st2 where "ReadEntries N g version es st1 = Inr st2" by blast
  ultimately show ?case using e by simp
qed

lemma ReadEntries_inv:
  "objects_inv N M n st L xs ys \<Longrightarrow> 2 * (n + length es) < unat N
   \<Longrightarrow> ReadEntries N g version es st = Inr st'
   \<Longrightarrow> (\<forall>(j, t, k)\<in>set es. direct_type g version t k \<noteq> Some FootpathSurface
          \<and> direct_type g version t k \<noteq> Some FootpathRailings)
   \<Longrightarrow> (\<forall>(j, t, k)\<in>set es. footpath_mapping_of g version t k \<noteq> None \<longrightarrow> j < M)
   \<Longrightarrow> \<exists>xs' ys'. objects_inv N M (n + length es) st' (foldl (\<lambda>L e. note_triple g version e L) L es) xs' ys'"
proof (induction es arbitrary: n st L xs ys)
  case Nil
  then show ?case by auto
next
  case (Cons e es)
  obtain j t k where e: "e = (j, t, k)" by (metis prod_cases3)
  from Cons.prems(3) e obtain st1 where
    r1: "ReadEntry N g version t j k st = Inr st1" and
    r2: "ReadEntries N g version es st1 = Inr st'"
    by (auto simp: bind_def split: sum.splits)
  from Cons.prems(4) e have nd: "direct_type g version t k \<noteq> Some FootpathSurface"
    "direct_type g version t k \<noteq> Some FootpathRailings" by auto
  from Cons.prems(5) e have jM: "footpath_mapping_of g version t k \<noteq> None \<longrightarrow> j < M" by auto
  from Cons.prems(2) have b: "2 * (n + 1) < unat N" by simp
  from ReadEntry_inv [OF Cons.prems(1) b r1 nd jM] obtain xs1 ys1 where
    i1: "objects_inv N M (n + 1) st1 (note_triple g version (j, t, k) L) xs1 ys1" by blast
  from Cons.prems(2) have b': "2 * ((n + 1) + length es) < unat N" by simp
  from Cons.prems(4) have nd': "\<forall>(j, t, k)\<in>set es. direct_type g version t k \<noteq> Some FootpathSurface
          \<and> direct_type g version t k \<noteq> Some FootpathRailings" by simp
  from Cons.prems(5) have jM': "\<forall>(j, t, k)\<in>set es. footpath_mapping_of g version t k \<noteq> None \<longrightarrow> j < M"
    by simp
  from Cons.IH [OF i1 b' r2 nd' jM'] e show ?case by simp
qed

lemma ReadSubList_entries:
  "ReadSubList N g version t j kinds st
     = ReadEntries N g version (map (\<lambda>(j, k). (j, t, k)) (enumerate j kinds)) st"
  by (induction kinds arbitrary: j st) (simp_all add: bind_def split: sum.splits)

lemma ReadEntries_append:
  "ReadEntries N g version (es @ fs) st
     = bind (ReadEntries N g version es st) (\<lambda>st'. ReadEntries N g version fs st')"
  by (induction es arbitrary: st) (auto simp: bind_def split: sum.splits)

lemma ReadSubLists_entries:
  "ReadSubLists N g version subLists st = ReadEntries N g version (chunk_entries subLists) st"
proof (induction subLists arbitrary: st)
  case Nil
  then show ?case by (simp add: chunk_entries_def)
next
  case (Cons p subLists)
  obtain t kinds where p: "p = (t, kinds)" by (cases p)
  have "ReadSubLists N g version subLists = ReadEntries N g version (chunk_entries subLists)"
    by (rule ext) (rule Cons.IH)
  then show ?case
    using p by (simp add: chunk_entries_def ReadSubList_entries ReadEntries_append)
qed

lemma note_triple_fold:
  "(\<forall>(j', t, k)\<in>set es. j' = j \<longrightarrow>
       (case footpath_mapping_of g version t k of None \<Rightarrow> True | Some m \<Rightarrow> triple m = tr))
   \<Longrightarrow> L j = None \<or> L j = Some tr
   \<Longrightarrow> foldl (\<lambda>L e. note_triple g version e L) L es j
       = (if L j = Some tr \<or> (\<exists>(j', t, k)\<in>set es. j' = j \<and> footpath_mapping_of g version t k \<noteq> None)
          then Some tr else None)"
proof (induction es arbitrary: L)
  case Nil
  then show ?case by auto
next
  case (Cons e es)
  obtain j' t k where e: "e = (j', t, k)" by (metis prod_cases3)
  let ?L = "note_triple g version e L"
  have 1: "?L j = None \<or> ?L j = Some tr"
    using Cons.prems e by (auto simp: note_triple_def split: option.splits)
  have 2: "\<forall>(j', t, k)\<in>set es. j' = j \<longrightarrow>
       (case footpath_mapping_of g version t k of None \<Rightarrow> True | Some m \<Rightarrow> triple m = tr)"
    using Cons.prems(1) by simp
  have 3: "(?L j = Some tr) = (L j = Some tr \<or> (j' = j \<and> footpath_mapping_of g version t k \<noteq> None))"
    using Cons.prems e by (auto simp: note_triple_def split: option.splits)
  from Cons.IH [of ?L] 2 1 3 e show ?case by auto
qed

lemma slot_points_unique:
  "distinct xs \<Longrightarrow> slot_points w xs a \<Longrightarrow> slot_points w' xs a \<Longrightarrow> w = w'"
  by (auto simp: slot_points_def nth_eq_iff_index_eq)

lemma registrations_registered:
  "ol t = registered t xs \<Longrightarrow> distinct xs \<Longrightarrow> x \<in> set xs \<Longrightarrow> registrations ol t x = 1"
proof -
  assume ol: "ol t = registered t xs" and d: "distinct xs" and x: "x \<in> set xs"
  have "registrations ol t x = length (filter (\<lambda>y. y = x) xs)"
    using ol by (simp add: registrations_def registered_def filter_map comp_def
        DescriptorOfIdentifier_def)
  also have "\<dots> = card ({y. y = x} \<inter> set xs)"
    using d by (rule distinct_length_filter)
  also have "{y. y = x} \<inter> set xs = {x}"
    using x by auto
  finally show ?thesis by simp
qed

lemma slot_points_nth:
  "slot_points w xs a \<Longrightarrow> length xs < 65536
   \<Longrightarrow> a \<in> set xs \<and> registered t xs ! unat w = Some (DescriptorOfIdentifier t a [])"
  by (auto simp: slot_points_def registered_def of_nat_16_unat)

lemma init_inv:
  "objects_inv N M 0
     \<lparr>requiredObjects = (\<lambda>t. []),
      footpathMaps = \<lparr>MAX_PATH_OBJECTS = M, cells = (\<lambda>k. if k < 3 * M then N else memory k)\<rparr>,
      surfaceCount = 0, railingsCount = 0\<rparr> Map.empty [] []"
  by (simp add: objects_inv_def registered_def)

text \<open>
  C3. Take one read of the Objects chunk in which every entry has a kind the reader knows,
  and two entries of it that the footpath migration maps to the same (surface, queue
  surface, railings) triple. When every mapped entry of the chunk has a slot index below
  \<open>MAX_PATH_OBJECTS\<close>, no entry is registered as it is in the two footpath categories, the
  chunk is short enough for the 16-bit counters, and no entry of another triple has one of
  the two slot indices, then the read returns, each of the three identifiers is held by
  exactly one slot of its category, the three legacy-mapping arrays hold the same indices
  at both original slot indices, and these indices are the slots that hold the three
  identifiers.
\<close>

theorem C3_footpath_dedup:
  assumes known: "\<forall>(j, t, k)\<in>set (chunk_entries subLists). known_kind k"
    and e1: "(j1, t1, k1) \<in> set (chunk_entries subLists)"
            "footpath_mapping_of g version t1 k1 = Some m1"
    and e2: "(j2, t2, k2) \<in> set (chunk_entries subLists)"
            "footpath_mapping_of g version t2 k2 = Some m2"
    and same: "triple m2 = triple m1"
    and inrange: "\<forall>(j, t, k)\<in>set (chunk_entries subLists).
            footpath_mapping_of g version t k \<noteq> None \<longrightarrow> j < M"
    and nodirect: "\<forall>(j, t, k)\<in>set (chunk_entries subLists).
            direct_type g version t k \<noteq> Some FootpathSurface
            \<and> direct_type g version t k \<noteq> Some FootpathRailings"
    and bound: "2 * length (chunk_entries subLists) < unat N"
    and slots: "\<forall>(j, t, k)\<in>set (chunk_entries subLists). j = j1 \<or> j = j2 \<longrightarrow>
            (case footpath_mapping_of g version t k of None \<Rightarrow> True
             | Some m \<Rightarrow> triple m = triple m1)"
  shows "\<exists>st. ReadObjectsChunk N M memory g version subLists = Inr st
    \<and> registrations (requiredObjects st) FootpathSurface (NormalSurface m1) = 1
    \<and> registrations (requiredObjects st) FootpathSurface (QueueSurface m1) = 1
    \<and> registrations (requiredObjects st) FootpathRailings (Railing m1) = 1
    \<and> j1 < MAX_PATH_OBJECTS (footpathMaps st)
    \<and> j2 < MAX_PATH_OBJECTS (footpathMaps st)
    \<and> pathToSurfaceMap (footpathMaps st) j1 = pathToSurfaceMap (footpathMaps st) j2
    \<and> pathToQueueSurfaceMap (footpathMaps st) j1 = pathToQueueSurfaceMap (footpathMaps st) j2
    \<and> pathToRailingsMap (footpathMaps st) j1 = pathToRailingsMap (footpathMaps st) j2
    \<and> requiredObjects st FootpathSurface ! unat (pathToSurfaceMap (footpathMaps st) j1)
        = Some (DescriptorOfIdentifier FootpathSurface (NormalSurface m1) [])
    \<and> requiredObjects st FootpathSurface ! unat (pathToQueueSurfaceMap (footpathMaps st) j1)
        = Some (DescriptorOfIdentifier FootpathSurface (QueueSurface m1) [])
    \<and> requiredObjects st FootpathRailings ! unat (pathToRailingsMap (footpathMaps st) j1)
        = Some (DescriptorOfIdentifier FootpathRailings (Railing m1) [])"
proof -
  let ?es = "chunk_entries subLists"
  let ?F = "foldl (\<lambda>L e. note_triple g version e L) Map.empty ?es"
  let ?init = "\<lparr>requiredObjects = (\<lambda>t. []),
      footpathMaps = \<lparr>MAX_PATH_OBJECTS = M, cells = (\<lambda>k. if k < 3 * M then N else memory k)\<rparr>,
      surfaceCount = 0, railingsCount = 0\<rparr>"
  from ReadEntries_total [OF known] obtain st where
    r: "ReadEntries N g version ?es ?init = Inr st"
    by blast
  then have read: "ReadObjectsChunk N M memory g version subLists = Inr st"
    by (simp add: ReadObjectsChunk_def ReadSubLists_entries)
  let ?fm = "footpathMaps st"
  from ReadEntries_inv [OF init_inv _ r nodirect inrange] bound obtain xs ys where
    inv: "objects_inv N M (length ?es) st ?F xs ys"
    by auto
  have s1: "\<forall>(j', t, k)\<in>set ?es. j' = j1 \<longrightarrow>
       (case footpath_mapping_of g version t k of None \<Rightarrow> True | Some m \<Rightarrow> triple m = triple m1)"
    using slots by auto
  have s2: "\<forall>(j', t, k)\<in>set ?es. j' = j2 \<longrightarrow>
       (case footpath_mapping_of g version t k of None \<Rightarrow> True | Some m \<Rightarrow> triple m = triple m1)"
    using slots by auto
  have F1: "?F j1 = Some (NormalSurface m1, QueueSurface m1, Railing m1)"
    using note_triple_fold [where es = ?es and j = j1 and tr = "triple m1" and L = Map.empty
        and g = g and version = version] s1 e1
    by (auto simp: triple_def)
  have F2: "?F j2 = Some (NormalSurface m1, QueueSurface m1, Railing m1)"
    using note_triple_fold [where es = ?es and j = j2 and tr = "triple m1" and L = Map.empty
        and g = g and version = version] s2 e2
    by (auto simp: triple_def)
  from inv have
    S: "requiredObjects st FootpathSurface = registered FootpathSurface xs" and dx: "distinct xs" and
    lx: "length xs \<le> 2 * length ?es" and
    R: "requiredObjects st FootpathRailings = registered FootpathRailings ys" and dy: "distinct ys" and
    ly: "length ys \<le> length ?es" and
    l1: "MAX_PATH_OBJECTS ?fm = M" and
    pts: "\<And>j a b c. ?F j = Some (a, b, c) \<Longrightarrow>
            j < M \<and> slot_points (pathToSurfaceMap ?fm j) xs a
            \<and> slot_points (pathToQueueSurfaceMap ?fm j) xs b
            \<and> slot_points (pathToRailingsMap ?fm j) ys c"
    by (simp_all add: objects_inv_def)
  have bx: "length xs < 65536" and "length ys < 65536"
    using lx ly bound unat_N_bound [of N] by auto
  note p1 = pts [OF F1] and p2 = pts [OF F2]
  have n1: "NormalSurface m1 \<in> set xs
      \<and> registered FootpathSurface xs ! unat (pathToSurfaceMap ?fm j1)
          = Some (DescriptorOfIdentifier FootpathSurface (NormalSurface m1) [])"
    using p1 bx by (intro slot_points_nth) simp_all
  have n2: "QueueSurface m1 \<in> set xs
      \<and> registered FootpathSurface xs ! unat (pathToQueueSurfaceMap ?fm j1)
          = Some (DescriptorOfIdentifier FootpathSurface (QueueSurface m1) [])"
    using p1 bx by (intro slot_points_nth) simp_all
  have n3: "Railing m1 \<in> set ys
      \<and> registered FootpathRailings ys ! unat (pathToRailingsMap ?fm j1)
          = Some (DescriptorOfIdentifier FootpathRailings (Railing m1) [])"
    using p1 \<open>length ys < 65536\<close> by (intro slot_points_nth) simp_all
  have q1: "pathToSurfaceMap ?fm j1 = pathToSurfaceMap ?fm j2"
    using p1 p2 dx by (blast intro: slot_points_unique)
  have q2: "pathToQueueSurfaceMap ?fm j1 = pathToQueueSurfaceMap ?fm j2"
    using p1 p2 dx by (blast intro: slot_points_unique)
  have q3: "pathToRailingsMap ?fm j1 = pathToRailingsMap ?fm j2"
    using p1 p2 dy by (blast intro: slot_points_unique)
  show ?thesis
    using read n1 n2 n3 q1 q2 q3 p1 p2 l1 S R dx dy
    by (simp add: registrations_registered)
qed

theorem C3_footpath_dedup_witness:
  "\<exists>st. ReadObjectsChunk 0xFFFF 16 (\<lambda>k. 0)
       (\<lambda>name. if name = ''TARMAC  '' then
          Some \<lparr>Original = ''TARMAC  '', NormalSurface = ''rct2.footpath_surface.tarmac'',
                QueueSurface = ''rct2.footpath_surface.queue_blue'',
                Railing = ''rct2.footpath_railings.wood''\<rparr> else None) 2
       [(OtherObjectType 0, [DESCRIPTOR_DAT \<lparr>GetType = OtherObjectType 0, GetName = ''TWIST1  ''\<rparr>]),
        (Paths, [DESCRIPTOR_DAT \<lparr>GetType = Paths, GetName = ''TARMAC  ''\<rparr>,
                 DESCRIPTOR_DAT \<lparr>GetType = Paths, GetName = ''TARMAC  ''\<rparr>])] = Inr st
     \<and> registrations (requiredObjects st) FootpathSurface ''rct2.footpath_surface.tarmac'' = 1
     \<and> registrations (requiredObjects st) FootpathSurface ''rct2.footpath_surface.queue_blue'' = 1
     \<and> registrations (requiredObjects st) FootpathRailings ''rct2.footpath_railings.wood'' = 1
     \<and> pathToSurfaceMap (footpathMaps st) 0 = pathToSurfaceMap (footpathMaps st) 1
     \<and> pathToQueueSurfaceMap (footpathMaps st) 0 = pathToQueueSurfaceMap (footpathMaps st) 1
     \<and> pathToRailingsMap (footpathMaps st) 0 = pathToRailingsMap (footpathMaps st) 1"
proof -
  let ?m = "\<lparr>Original = ''TARMAC  '', NormalSurface = ''rct2.footpath_surface.tarmac'',
                QueueSurface = ''rct2.footpath_surface.queue_blue'',
                Railing = ''rct2.footpath_railings.wood''\<rparr>"
  let ?g = "\<lambda>name. if name = ''TARMAC  '' then Some ?m else None"
  let ?tarmac = "DESCRIPTOR_DAT \<lparr>GetType = Paths, GetName = ''TARMAC  ''\<rparr>"
  let ?ride = "DESCRIPTOR_DAT \<lparr>GetType = OtherObjectType 0, GetName = ''TWIST1  ''\<rparr>"
  let ?chunk = "[(OtherObjectType 0, [?ride]), (Paths, [?tarmac, ?tarmac])]"
  have es: "chunk_entries ?chunk = [(0, OtherObjectType 0, ?ride), (0, Paths, ?tarmac), (1, Paths, ?tarmac)]"
    by (simp add: chunk_entries_def enumerate_eq_zip)
  have mt: "footpath_mapping_of ?g 2 Paths ?tarmac = Some ?m"
    by (simp add: footpath_mapping_of_def GetFootpathMapping_def extendedFootpathMappings_def
        DescriptorOfEntry_def DescriptorName_def)
  have mr: "footpath_mapping_of ?g 2 (OtherObjectType 0) ?ride = None"
    by (simp add: footpath_mapping_of_def)
  have known: "\<forall>(j, t, k)\<in>set (chunk_entries ?chunk). known_kind k"
    by (simp add: es known_kind_def)
  have e1: "(0, Paths, ?tarmac) \<in> set (chunk_entries ?chunk)"
    and e2: "(1, Paths, ?tarmac) \<in> set (chunk_entries ?chunk)"
    by (simp_all add: es)
  have inrange: "\<forall>(j, t, k)\<in>set (chunk_entries ?chunk).
            footpath_mapping_of ?g 2 t k \<noteq> None \<longrightarrow> j < 16"
    by (simp add: es)
  have slots: "\<forall>(j, t, k)\<in>set (chunk_entries ?chunk). j = 0 \<or> j = 1 \<longrightarrow>
            (case footpath_mapping_of ?g 2 t k of None \<Rightarrow> True | Some m \<Rightarrow> triple m = triple ?m)"
    by (simp add: es mt mr)
  have nodirect: "\<forall>(j, t, k)\<in>set (chunk_entries ?chunk).
            direct_type ?g 2 t k \<noteq> Some FootpathSurface \<and> direct_type ?g 2 t k \<noteq> Some FootpathRailings"
    by (simp add: es direct_type_def mt mr descriptor_of_def DescriptorOfEntry_def)
  have bound: "2 * length (chunk_entries ?chunk) < unat (0xFFFF :: 16 word)"
    by (simp add: es)
  from C3_footpath_dedup [OF known e1 mt e2 mt refl inrange nodirect bound slots,
      where memory = "\<lambda>k. 0"]
  show ?thesis by auto
qed

text \<open>
  C3, where the claim fails. In all three reads the file has version 2,
  \<open>OBJECT_ENTRY_INDEX_NULL\<close> is 0xFFFF, \<open>MAX_PATH_OBJECTS\<close> is 16, and the legacy entries
  \<open>TARMAC\<close> and \<open>ROAD\<close> have a mapping each.

  First read: a Paths sub-list with \<open>TARMAC\<close> twice, then a FootpathSurface sub-list with
  one legacy entry. The two \<open>TARMAC\<close> entries have the same triple, and the read returns
  with the tarmac surface in no slot at all: the entry of the second sub-list is stored in
  slot 0 of the FootpathSurface category (line 301), over the tarmac surface.

  Second read: a Paths sub-list with \<open>TARMAC\<close>, then a Paths sub-list with \<open>ROAD\<close> and
  \<open>TARMAC\<close>. The two \<open>TARMAC\<close> entries have the slot indices 0 and 1 and the same
  triple; the arrays differ at 0 and 1, since \<open>ROAD\<close> has overwritten the entries at 0.

  Third read: one Paths sub-list with \<open>TARMAC\<close>, \<open>TARMAC\<close>, fourteen empty entries and
  \<open>ROAD\<close> at slot index 16. The write of \<open>pathToSurfaceMap[16]\<close> lands in entry 0 of the
  queue array, so the two \<open>TARMAC\<close> entries end with different queue indices.
\<close>

theorem C3_same_triple_not_deduplicated:
  "footpath_mapping_of
       (\<lambda>name. if name = ''TARMAC  '' then
          Some \<lparr>Original = ''TARMAC  '', NormalSurface = ''rct2.footpath_surface.tarmac'',
                QueueSurface = ''rct2.footpath_surface.queue_blue'',
                Railing = ''rct2.footpath_railings.wood''\<rparr>
        else if name = ''ROAD    '' then
          Some \<lparr>Original = ''ROAD    '', NormalSurface = ''rct2.footpath_surface.road'',
                QueueSurface = ''rct2.footpath_surface.queue_blue'',
                Railing = ''rct2.footpath_railings.wood''\<rparr>
        else None) 2 Paths (DESCRIPTOR_DAT \<lparr>GetType = Paths, GetName = ''TARMAC  ''\<rparr>)
     = Some \<lparr>Original = ''TARMAC  '', NormalSurface = ''rct2.footpath_surface.tarmac'',
             QueueSurface = ''rct2.footpath_surface.queue_blue'',
             Railing = ''rct2.footpath_railings.wood''\<rparr>
   \<and> (case ReadObjectsChunk 0xFFFF 16 (\<lambda>k. 0)
       (\<lambda>name. if name = ''TARMAC  '' then
          Some \<lparr>Original = ''TARMAC  '', NormalSurface = ''rct2.footpath_surface.tarmac'',
                QueueSurface = ''rct2.footpath_surface.queue_blue'',
                Railing = ''rct2.footpath_railings.wood''\<rparr>
        else if name = ''ROAD    '' then
          Some \<lparr>Original = ''ROAD    '', NormalSurface = ''rct2.footpath_surface.road'',
                QueueSurface = ''rct2.footpath_surface.queue_blue'',
                Railing = ''rct2.footpath_railings.wood''\<rparr>
        else None) 2
       [(Paths, [DESCRIPTOR_DAT \<lparr>GetType = Paths, GetName = ''TARMAC  ''\<rparr>,
                 DESCRIPTOR_DAT \<lparr>GetType = Paths, GetName = ''TARMAC  ''\<rparr>]),
        (FootpathSurface,
           [DESCRIPTOR_DAT \<lparr>GetType = FootpathSurface, GetName = ''PATHX   ''\<rparr>])] of
        Inl e \<Rightarrow> False
      | Inr st \<Rightarrow>
          registrations (requiredObjects st) FootpathSurface ''rct2.footpath_surface.tarmac'' = 0)
   \<and> (case ReadObjectsChunk 0xFFFF 16 (\<lambda>k. 0)
       (\<lambda>name. if name = ''TARMAC  '' then
          Some \<lparr>Original = ''TARMAC  '', NormalSurface = ''rct2.footpath_surface.tarmac'',
                QueueSurface = ''rct2.footpath_surface.queue_blue'',
                Railing = ''rct2.footpath_railings.wood''\<rparr>
        else if name = ''ROAD    '' then
          Some \<lparr>Original = ''ROAD    '', NormalSurface = ''rct2.footpath_surface.road'',
                QueueSurface = ''rct2.footpath_surface.queue_blue'',
                Railing = ''rct2.footpath_railings.wood''\<rparr>
        else None) 2
       [(Paths, [DESCRIPTOR_DAT \<lparr>GetType = Paths, GetName = ''TARMAC  ''\<rparr>]),
        (Paths, [DESCRIPTOR_DAT \<lparr>GetType = Paths, GetName = ''ROAD    ''\<rparr>,
                 DESCRIPTOR_DAT \<lparr>GetType = Paths, GetName = ''TARMAC  ''\<rparr>])] of
        Inl e \<Rightarrow> False
      | Inr st \<Rightarrow>
          pathToSurfaceMap (footpathMaps st) 0 \<noteq> pathToSurfaceMap (footpathMaps st) 1)
   \<and> (case ReadObjectsChunk 0xFFFF 16 (\<lambda>k. 0)
       (\<lambda>name. if name = ''TARMAC  '' then
          Some \<lparr>Original = ''TARMAC  '', NormalSurface = ''rct2.footpath_surface.tarmac'',
                QueueSurface = ''rct2.footpath_surface.queue_blue'',
                Railing = ''rct2.footpath_railings.wood''\<rparr>
        else if name = ''ROAD    '' then
          Some \<lparr>Original = ''ROAD    '', NormalSurface = ''rct2.footpath_surface.road'',
                QueueSurface = ''rct2.footpath_surface.queue_blue'',
                Railing = ''rct2.footpath_railings.wood''\<rparr>
        else None) 2
       [(Paths, [DESCRIPTOR_DAT \<lparr>GetType = Paths, GetName = ''TARMAC  ''\<rparr>,
                 DESCRIPTOR_DAT \<lparr>GetType = Paths, GetName = ''TARMAC  ''\<rparr>,
                 DESCRIPTOR_NONE, DESCRIPTOR_NONE, DESCRIPTOR_NONE, DESCRIPTOR_NONE,
                 DESCRIPTOR_NONE, DESCRIPTOR_NONE, DESCRIPTOR_NONE, DESCRIPTOR_NONE,
                 DESCRIPTOR_NONE, DESCRIPTOR_NONE, DESCRIPTOR_NONE, DESCRIPTOR_NONE,
                 DESCRIPTOR_NONE, DESCRIPTOR_NONE,
                 DESCRIPTOR_DAT \<lparr>GetType = Paths, GetName = ''ROAD    ''\<rparr>])] of
        Inl e \<Rightarrow> False
      | Inr st \<Rightarrow>
          pathToQueueSurfaceMap (footpathMaps st) 0 \<noteq> pathToQueueSurfaceMap (footpathMaps st) 1)"
  by code_simp

end
